theory Spec2Isabelle
  imports Complex_Main "HOL-Library.Word"
begin

section \<open>Lowering of YCbCr texture samples (radv\_nir\_lower\_ycbcr\_textures.c)\<close>

text \<open>
  The pass rewrites every texture sample whose binding carries a YCbCr conversion into one
  sample per image plane, a channel combination and a colour conversion.  The embedding
  follows the C file function by function.  The NIR data structures and the instruction
  builder that the file uses (nir.h, nir\_builder.h), the Vulkan enumerations and the format
  helpers (vk\_format.h) are not part of the sources at hand; they are modelled below, each
  where it is first needed, as far as the pass reads or writes them.

  Numbers: every float immediate and every float operation of the emitted program is read
  in exact real arithmetic; the rounding of a constant to 32-bit float and of each
  operation is not modelled.
\<close>

subsection \<open>Vulkan enumerations and the conversion descriptor\<close>

datatype VkSamplerYcbcrRange =
    VK_SAMPLER_YCBCR_RANGE_ITU_FULL
  | VK_SAMPLER_YCBCR_RANGE_ITU_NARROW

datatype VkSamplerYcbcrModelConversion =
    VK_SAMPLER_YCBCR_MODEL_CONVERSION_RGB_IDENTITY
  | VK_SAMPLER_YCBCR_MODEL_CONVERSION_YCBCR_IDENTITY
  | VK_SAMPLER_YCBCR_MODEL_CONVERSION_YCBCR_709
  | VK_SAMPLER_YCBCR_MODEL_CONVERSION_YCBCR_601
  | VK_SAMPLER_YCBCR_MODEL_CONVERSION_YCBCR_2020

datatype VkChromaLocation =
    VK_CHROMA_LOCATION_COSITED_EVEN
  | VK_CHROMA_LOCATION_MIDPOINT

datatype VkComponentSwizzle =
    VK_COMPONENT_SWIZZLE_IDENTITY
  | VK_COMPONENT_SWIZZLE_ZERO
  | VK_COMPONENT_SWIZZLE_ONE
  | VK_COMPONENT_SWIZZLE_R
  | VK_COMPONENT_SWIZZLE_G
  | VK_COMPONENT_SWIZZLE_B
  | VK_COMPONENT_SWIZZLE_A

record VkComponentMapping =
  swizzle_r :: VkComponentSwizzle
  swizzle_g :: VkComponentSwizzle
  swizzle_b :: VkComponentSwizzle
  swizzle_a :: VkComponentSwizzle

datatype vk_swizzle =
    VK_SWIZZLE_X
  | VK_SWIZZLE_Y
  | VK_SWIZZLE_Z
  | VK_SWIZZLE_W
  | VK_SWIZZLE_0
  | VK_SWIZZLE_1

text \<open>
  Modelled from the spec: the format metadata provider (vk\_format.h is not among the
  sources).  A format "identifies plane count and, per plane, pixel layout and bit depth",
  and the provider returns "chroma subsampling divisors per axis".  A format other than the
  undefined sentinel is represented by the four numbers the pass asks for.
\<close>

datatype VkFormat =
    VK_FORMAT_UNDEFINED
  | VK_FORMAT (plane_count: int) (width_divisor: nat) (height_divisor: nat) (plane0_bits: nat)

definition vk_format_get_plane_count :: "VkFormat \<Rightarrow> int" where
  "vk_format_get_plane_count format = (case format of VK_FORMAT_UNDEFINED \<Rightarrow> 1 | VK_FORMAT n _ _ _ \<Rightarrow> n)"

definition divisors :: "VkFormat \<Rightarrow> nat \<Rightarrow> nat" where
  "divisors format c =
     (case format of VK_FORMAT_UNDEFINED \<Rightarrow> 1
      | VK_FORMAT _ w h _ \<Rightarrow> (if c = 0 then w else h))"

definition vk_format_get_component_bits :: "VkFormat \<Rightarrow> nat" where
  "vk_format_get_component_bits format = (case format of VK_FORMAT_UNDEFINED \<Rightarrow> 0 | VK_FORMAT _ _ _ n \<Rightarrow> n)"

definition vk_format_get_plane_format :: "VkFormat \<Rightarrow> nat \<Rightarrow> VkFormat" where
  "vk_format_get_plane_format format p =
     (case format of VK_FORMAT_UNDEFINED \<Rightarrow> VK_FORMAT_UNDEFINED
      | VK_FORMAT _ _ _ n \<Rightarrow> (if p = 0 then VK_FORMAT 1 1 1 n else VK_FORMAT_UNDEFINED))"

record radv_sampler_ycbcr_conversion =
  format :: VkFormat
  ycbcr_model :: VkSamplerYcbcrModelConversion
  ycbcr_range :: VkSamplerYcbcrRange
  components :: VkComponentMapping
  chroma_offsets :: "VkChromaLocation \<times> VkChromaLocation"

definition chroma_offset :: "radv_sampler_ycbcr_conversion \<Rightarrow> nat \<Rightarrow> VkChromaLocation" where
  "chroma_offset conversion c = (if c = 0 then fst (chroma_offsets conversion) else snd (chroma_offsets conversion))"

subsection \<open>NIR values and instructions\<close>

text \<open>
  An SSA value is named by its index (allocated from the function's counter) and has a
  fixed component count and bit width.  A source is an SSA value or a register.
\<close>

record nir_ssa_def =
  index :: nat
  num_components :: nat
  bit_size :: nat

datatype nir_src = Src_ssa nir_ssa_def | Src_reg nat

datatype nir_op =
    nir_op_mov
  | nir_op_fadd
  | nir_op_fmul
  | nir_op_fdiv
  | nir_op_frcp
  | nir_op_fdot4
  | nir_op_i2f32
  | nir_op_vec nat

datatype nir_const_value = Const_float real | Const_uint "32 word"

datatype nir_texop =
    nir_texop_tex
  | nir_texop_txb
  | nir_texop_txl
  | nir_texop_txd
  | nir_texop_txf
  | nir_texop_txf_ms
  | nir_texop_txs
  | nir_texop_lod
  | nir_texop_tg4
  | nir_texop_query_levels
  | nir_texop_texture_samples
  | nir_texop_samples_identical

datatype nir_tex_src_type =
    nir_tex_src_coord
  | nir_tex_src_projector
  | nir_tex_src_comparator
  | nir_tex_src_offset
  | nir_tex_src_bias
  | nir_tex_src_lod
  | nir_tex_src_ms_index
  | nir_tex_src_ddx
  | nir_tex_src_ddy
  | nir_tex_src_texture_deref
  | nir_tex_src_sampler_deref
  | nir_tex_src_plane

datatype glsl_sampler_dim =
    GLSL_SAMPLER_DIM_1D
  | GLSL_SAMPLER_DIM_2D
  | GLSL_SAMPLER_DIM_3D
  | GLSL_SAMPLER_DIM_CUBE
  | GLSL_SAMPLER_DIM_RECT
  | GLSL_SAMPLER_DIM_BUF
  | GLSL_SAMPLER_DIM_EXTERNAL
  | GLSL_SAMPLER_DIM_MS

datatype nir_alu_type =
    nir_type_invalid
  | nir_type_int
  | nir_type_uint
  | nir_type_bool
  | nir_type_float

record nir_tex_instr =
  dest :: nir_ssa_def
  op :: nir_texop
  sampler_dim :: glsl_sampler_dim
  dest_type :: nir_alu_type
  is_array :: bool
  is_shadow :: bool
  is_new_style_shadow :: bool
  coord_components :: nat
  component :: nat
  texture_index :: nat
  texture_array_size :: nat
  sampler_index :: nat
  src :: "(nir_tex_src_type \<times> nir_src) list"

record glsl_type =
  glsl_sampler_dim :: glsl_sampler_dim
  glsl_sampler_array :: bool
  glsl_sampler_shadow :: bool

record nir_variable =
  descriptor_set :: nat
  binding :: nat

datatype nir_deref_type =
    nir_deref_type_var
  | nir_deref_type_array
  | nir_deref_type_array_wildcard
  | nir_deref_type_ptr_as_array
  | nir_deref_type_struct
  | nir_deref_type_cast

text \<open>
  Modelled from the spec: a texture reference is "a root variable reference optionally
  followed by one constant or dynamic array-index step".  Each dereference instruction
  records the variable at the root of its chain (none when the chain goes through a cast),
  which is what nir\_deref\_instr\_get\_variable finds by walking the chain.
\<close>

record nir_deref_instr =
  deref_dest :: nir_ssa_def
  deref_type :: nir_deref_type
  variable :: "nir_variable option"
  arr_index :: nir_src
  type :: glsl_type

datatype nir_instr =
    Alu nir_op nir_ssa_def "(nir_src \<times> nat list) list"
  | Load_const nir_ssa_def "nir_const_value list"
  | Tex nir_tex_instr
  | Deref nir_deref_instr
  | Other_instr "nir_ssa_def option" "nir_src list"

datatype nir_metadata =
    nir_metadata_block_index
  | nir_metadata_dominance
  | nir_metadata_live_ssa_defs
  | nir_metadata_not_properly_reset

text \<open>
  The builder of a function body with its cursor.  The body is kept split at the cursor:
  the blocks before the cursor's block, the instructions of that block before the cursor,
  the instructions from the cursor on, and the blocks after.  Inserting at the cursor
  appends to the instructions before it, so the cursor stays in front of the same
  instruction, as with nir\_before\_instr.
\<close>

record nir_builder =
  ssa_alloc :: nat
  valid_metadata :: "nir_metadata set"
  if_uses :: "nir_src list"
  blocks_before :: "nir_instr list list"
  instrs_before :: "nir_instr list"
  instrs_after :: "nir_instr list"
  blocks_after :: "nir_instr list list"

definition nir_ssa_dest_init :: "nir_builder \<Rightarrow> nat \<Rightarrow> nat \<Rightarrow> nir_ssa_def \<times> nir_builder" where
  "nir_ssa_dest_init bld n bits =
     (\<lparr>index = ssa_alloc bld, num_components = n, bit_size = bits\<rparr>,
      bld\<lparr>ssa_alloc := ssa_alloc bld + 1\<rparr>)"

definition nir_builder_instr_insert :: "nir_builder \<Rightarrow> nir_instr \<Rightarrow> nir_builder" where
  "nir_builder_instr_insert bld instr = bld\<lparr>instrs_before := instrs_before bld @ [instr]\<rparr>"

text \<open>
  Modelled from the spec: the instruction builder (nir\_builder.h is not among the
  sources), "an instruction-builder capable of inserting new instructions at a cursor
  position and of creating literal/constant values".
  nir\_build\_alu: the result of a per-component operation has as many components as its
  widest source; fdot4 yields one component from two sources of four, vecN yields N from N
  scalars, and a mov (nir\_channel) yields the selected components.  An operation without
  a fixed width takes the bit width of its first source.  A source narrower than the
  components read repeats its last component.
\<close>

definition nir_op_output_size :: "nir_op \<Rightarrow> nat list \<Rightarrow> nat" where
  "nir_op_output_size opc ns =
     (case opc of nir_op_fdot4 \<Rightarrow> 1 | nir_op_vec n \<Rightarrow> n | _ \<Rightarrow> fold max ns 0)"

definition nir_op_input_size :: "nir_op \<Rightarrow> nat \<Rightarrow> nat" where
  "nir_op_input_size opc n = (case opc of nir_op_fdot4 \<Rightarrow> 4 | nir_op_vec _ \<Rightarrow> 1 | _ \<Rightarrow> n)"

definition nir_op_bit_size :: "nir_op \<Rightarrow> nat list \<Rightarrow> nat" where
  "nir_op_bit_size opc bs =
     (case opc of nir_op_i2f32 \<Rightarrow> 32 | _ \<Rightarrow> (case bs of [] \<Rightarrow> 32 | s # _ \<Rightarrow> s))"

definition alu_src_for :: "nat \<Rightarrow> nir_ssa_def \<Rightarrow> nir_src \<times> nat list" where
  "alu_src_for used s = (Src_ssa s, map (\<lambda>k. min k (num_components s - 1)) [0..<used])"

definition nir_build_alu :: "nir_builder \<Rightarrow> nir_op \<Rightarrow> nir_ssa_def list \<Rightarrow> nir_ssa_def \<times> nir_builder" where
  "nir_build_alu bld opc srcs =
     (let n = nir_op_output_size opc (map num_components srcs);
          (d, bld) = nir_ssa_dest_init bld n (nir_op_bit_size opc (map bit_size srcs))
      in (d, nir_builder_instr_insert bld
                (Alu opc d (map (alu_src_for (nir_op_input_size opc n)) srcs))))"

definition nir_fadd :: "nir_builder \<Rightarrow> nir_ssa_def \<Rightarrow> nir_ssa_def \<Rightarrow> nir_ssa_def \<times> nir_builder" where
  "nir_fadd bld x y = nir_build_alu bld nir_op_fadd [x, y]"

definition nir_fmul :: "nir_builder \<Rightarrow> nir_ssa_def \<Rightarrow> nir_ssa_def \<Rightarrow> nir_ssa_def \<times> nir_builder" where
  "nir_fmul bld x y = nir_build_alu bld nir_op_fmul [x, y]"

definition nir_fdiv :: "nir_builder \<Rightarrow> nir_ssa_def \<Rightarrow> nir_ssa_def \<Rightarrow> nir_ssa_def \<times> nir_builder" where
  "nir_fdiv bld x y = nir_build_alu bld nir_op_fdiv [x, y]"

definition nir_frcp :: "nir_builder \<Rightarrow> nir_ssa_def \<Rightarrow> nir_ssa_def \<times> nir_builder" where
  "nir_frcp bld x = nir_build_alu bld nir_op_frcp [x]"

definition nir_fdot4 :: "nir_builder \<Rightarrow> nir_ssa_def \<Rightarrow> nir_ssa_def \<Rightarrow> nir_ssa_def \<times> nir_builder" where
  "nir_fdot4 bld x y = nir_build_alu bld nir_op_fdot4 [x, y]"

definition nir_i2f32 :: "nir_builder \<Rightarrow> nir_ssa_def \<Rightarrow> nir_ssa_def \<times> nir_builder" where
  "nir_i2f32 bld x = nir_build_alu bld nir_op_i2f32 [x]"

definition nir_vec :: "nir_builder \<Rightarrow> nir_ssa_def list \<Rightarrow> nat \<Rightarrow> nir_ssa_def \<times> nir_builder" where
  "nir_vec bld comps n = nir_build_alu bld (nir_op_vec n) (take n comps)"

definition nir_vec4 :: "nir_builder \<Rightarrow> nir_ssa_def \<Rightarrow> nir_ssa_def \<Rightarrow> nir_ssa_def \<Rightarrow> nir_ssa_def \<Rightarrow> nir_ssa_def \<times> nir_builder" where
  "nir_vec4 bld x y z w = nir_vec bld [x, y, z, w] 4"

definition nir_channel :: "nir_builder \<Rightarrow> nir_ssa_def \<Rightarrow> nat \<Rightarrow> nir_ssa_def \<times> nir_builder" where
  "nir_channel bld d c =
     (let (m, bld) = nir_ssa_dest_init bld 1 (bit_size d)
      in (m, nir_builder_instr_insert bld (Alu nir_op_mov m [(Src_ssa d, [c])])))"

definition nir_build_imm :: "nir_builder \<Rightarrow> nat \<Rightarrow> nat \<Rightarrow> nir_const_value list \<Rightarrow> nir_ssa_def \<times> nir_builder" where
  "nir_build_imm bld n bits vs =
     (let (d, bld) = nir_ssa_dest_init bld n bits
      in (d, nir_builder_instr_insert bld (Load_const d (take n vs))))"

definition nir_imm_float :: "nir_builder \<Rightarrow> real \<Rightarrow> nir_ssa_def \<times> nir_builder" where
  "nir_imm_float bld x = nir_build_imm bld 1 32 [Const_float x]"

definition nir_imm_int :: "nir_builder \<Rightarrow> 32 word \<Rightarrow> nir_ssa_def \<times> nir_builder" where
  "nir_imm_int bld x = nir_build_imm bld 1 32 [Const_uint x]"

subsection \<open>Range expansion and colour conversion\<close>

text \<open>
  What stops the compiler: an unreachable default of a switch, a failed assertion, a null
  pointer followed, an index outside its array, and a float constant read as an integer
  (the bit pattern of a float is not modelled).
\<close>

datatype error = Unreachable | Assertion_failed | Null_pointer | Out_of_bounds | Float_bits

record ycbcr_state =
  image_size :: "nir_ssa_def option"
  origin_tex :: nir_tex_instr
  tex_deref :: nir_deref_instr
  conversion :: radv_sampler_ycbcr_conversion

definition pow2 :: "int \<Rightarrow> real" where
  "pow2 n = 2 powi n"

definition y_range :: "nir_builder \<Rightarrow> nir_ssa_def \<Rightarrow> int \<Rightarrow> VkSamplerYcbcrRange \<Rightarrow> nir_ssa_def \<times> nir_builder" where
  "y_range bld y_channel bpc rng =
     (case rng of
        VK_SAMPLER_YCBCR_RANGE_ITU_FULL \<Rightarrow> (y_channel, bld)
      | VK_SAMPLER_YCBCR_RANGE_ITU_NARROW \<Rightarrow>
          (let (scale, bld) = nir_imm_float bld (pow2 bpc - 1);
               (scaled, bld) = nir_fmul bld y_channel scale;
               (offset, bld) = nir_imm_float bld (- 16 * pow2 (bpc - 8));
               (shifted, bld) = nir_fadd bld scaled offset;
               (denom, bld) = nir_imm_float bld (219 * pow2 (bpc - 8));
               (rcp, bld) = nir_frcp bld denom
           in nir_fmul bld shifted rcp))"

definition chroma_range :: "nir_builder \<Rightarrow> nir_ssa_def \<Rightarrow> int \<Rightarrow> VkSamplerYcbcrRange \<Rightarrow> nir_ssa_def \<times> nir_builder" where
  "chroma_range bld chroma_channel bpc rng =
     (case rng of
        VK_SAMPLER_YCBCR_RANGE_ITU_FULL \<Rightarrow>
          (let (offset, bld) = nir_imm_float bld (- pow2 (bpc - 1) / (pow2 bpc - 1))
           in nir_fadd bld chroma_channel offset)
      | VK_SAMPLER_YCBCR_RANGE_ITU_NARROW \<Rightarrow>
          (let (scale, bld) = nir_imm_float bld (pow2 bpc - 1);
               (scaled, bld) = nir_fmul bld chroma_channel scale;
               (offset, bld) = nir_imm_float bld (- 128 * pow2 (bpc - 8));
               (shifted, bld) = nir_fadd bld scaled offset;
               (denom, bld) = nir_imm_float bld (224 * pow2 (bpc - 8));
               (rcp, bld) = nir_frcp bld denom
           in nir_fmul bld shifted rcp))"

definition bt601 :: "real list list" where
  "bt601 = [[1.402, 1, 0, 0],
            [- 0.714136286201022, 1, - 0.344136286201022, 0],
            [0, 1, 1.772, 0]]"

definition bt709 :: "real list list" where
  "bt709 = [[1.5748031496063, 1, 0, 0],
            [- 0.468125209181067, 1, - 0.187327487470334, 0],
            [0, 1, 1.85563184264242, 0]]"

definition bt2020 :: "real list list" where
  "bt2020 = [[1.4746, 1, 0, 0],
             [- 0.571353126843658, 1, - 0.164553126843658, 0],
             [0, 1, 1.8814, 0]]"

definition ycbcr_model_to_rgb_matrix :: "VkSamplerYcbcrModelConversion \<Rightarrow> error + real list list" where
  "ycbcr_model_to_rgb_matrix model =
     (case model of
        VK_SAMPLER_YCBCR_MODEL_CONVERSION_YCBCR_601 \<Rightarrow> Inr bt601
      | VK_SAMPLER_YCBCR_MODEL_CONVERSION_YCBCR_709 \<Rightarrow> Inr bt709
      | VK_SAMPLER_YCBCR_MODEL_CONVERSION_YCBCR_2020 \<Rightarrow> Inr bt2020
      | _ \<Rightarrow> Inl Unreachable)"

definition convert_ycbcr :: "ycbcr_state \<Rightarrow> nir_builder \<Rightarrow> nir_ssa_def \<Rightarrow> nat \<Rightarrow> error + nir_ssa_def \<times> nir_builder" where
  "convert_ycbcr state bld raw_channels bits =
     (let (c0, bld) = nir_channel bld raw_channels 0;
          (e0, bld) = chroma_range bld c0 (int bits) (ycbcr_range (conversion state));
          (c1, bld) = nir_channel bld raw_channels 1;
          (e1, bld) = y_range bld c1 (int bits) (ycbcr_range (conversion state));
          (c2, bld) = nir_channel bld raw_channels 2;
          (e2, bld) = chroma_range bld c2 (int bits) (ycbcr_range (conversion state));
          (one, bld) = nir_imm_float bld 1;
          (expanded_channels, bld) = nir_vec4 bld e0 e1 e2 one
      in if ycbcr_model (conversion state) = VK_SAMPLER_YCBCR_MODEL_CONVERSION_YCBCR_IDENTITY
         then Inr (expanded_channels, bld)
         else
           (case ycbcr_model_to_rgb_matrix (ycbcr_model (conversion state)) of
              Inl e \<Rightarrow> Inl e
            | Inr conversion_matrix \<Rightarrow>
                (let (m0, bld) = nir_build_imm bld 4 32 (map Const_float (conversion_matrix ! 0));
                     (d0, bld) = nir_fdot4 bld expanded_channels m0;
                     (m1, bld) = nir_build_imm bld 4 32 (map Const_float (conversion_matrix ! 1));
                     (d1, bld) = nir_fdot4 bld expanded_channels m1;
                     (m2, bld) = nir_build_imm bld 4 32 (map Const_float (conversion_matrix ! 2));
                     (d2, bld) = nir_fdot4 bld expanded_channels m2;
                     (one, bld) = nir_imm_float bld 1
                 in Inr (nir_vec4 bld d0 d1 d2 one))))"


subsection \<open>Coordinates of the subsampled planes\<close>

definition NIR_SRC_INIT :: nir_src where
  "NIR_SRC_INIT = Src_reg 0"

text \<open>nir\_tex\_instr\_create: a zero-initialised texture instruction with n empty sources.\<close>

definition nir_tex_instr_create :: "nat \<Rightarrow> nir_tex_instr" where
  "nir_tex_instr_create n =
     \<lparr>dest = \<lparr>index = 0, num_components = 0, bit_size = 0\<rparr>,
      op = nir_texop_tex, sampler_dim = GLSL_SAMPLER_DIM_1D, dest_type = nir_type_invalid,
      is_array = False, is_shadow = False, is_new_style_shadow = False,
      coord_components = 0, component = 0, texture_index = 0, texture_array_size = 0,
      sampler_index = 0, src = replicate n (nir_tex_src_coord, NIR_SRC_INIT)\<rparr>"

text \<open>
  nir\_tex\_instr\_dest\_size for a size query: the number of dimensions of the image, plus
  one for an array.  For every other operation the pass never asks.
\<close>

definition nir_tex_instr_dest_size :: "nir_tex_instr \<Rightarrow> nat" where
  "nir_tex_instr_dest_size tex =
     (if op tex = nir_texop_txs
      then (case sampler_dim tex of
              GLSL_SAMPLER_DIM_1D \<Rightarrow> 1
            | GLSL_SAMPLER_DIM_BUF \<Rightarrow> 1
            | GLSL_SAMPLER_DIM_3D \<Rightarrow> 3
            | _ \<Rightarrow> 2) + (if is_array tex then 1 else 0)
      else 4)"

definition get_texture_size :: "ycbcr_state \<Rightarrow> nir_builder \<Rightarrow> nir_deref_instr \<Rightarrow> nir_ssa_def \<times> nir_builder" where
  "get_texture_size state bld texture =
     (let tex = (nir_tex_instr_create 1)
            \<lparr>op := nir_texop_txs,
             sampler_dim := glsl_sampler_dim (type texture),
             is_array := glsl_sampler_array (type texture),
             is_shadow := glsl_sampler_shadow (type texture),
             dest_type := nir_type_int,
             src := [(nir_tex_src_texture_deref, Src_ssa (deref_dest texture))]\<rparr>;
          (d, bld) = nir_ssa_dest_init bld (nir_tex_instr_dest_size tex) 32;
          bld = nir_builder_instr_insert bld (Tex (tex\<lparr>dest := d\<rparr>))
      in nir_i2f32 bld d)"

definition implicit_downsampled_coord :: "nir_builder \<Rightarrow> nir_ssa_def \<Rightarrow> nir_ssa_def \<Rightarrow> nat \<Rightarrow> nir_ssa_def \<times> nir_builder" where
  "implicit_downsampled_coord bld val max_value div_scale =
     (let (one, bld) = nir_imm_float bld 1;
          (scale, bld) = nir_imm_float bld (real div_scale);
          (extent, bld) = nir_fmul bld scale max_value;
          (step, bld) = nir_fdiv bld one extent
      in nir_fadd bld val step)"

text \<open>
  The loop of implicit\_downsampled\_coords over the components c of the old coordinate.
  It carries the local image\_size (empty until the first adjusted component), the
  components built so far and the builder.
\<close>

fun implicit_downsampled_coords_loop ::
  "ycbcr_state \<Rightarrow> nir_ssa_def \<Rightarrow> nat list \<Rightarrow> nir_ssa_def option \<times> nir_ssa_def list \<times> nir_builder
     \<Rightarrow> nir_ssa_def option \<times> nir_ssa_def list \<times> nir_builder" where
  "implicit_downsampled_coords_loop state old_coords [] acc = acc"
| "implicit_downsampled_coords_loop state old_coords (c # cs) (img_size, comps, bld) =
     (if c < 2 \<and> divisors (format (conversion state)) c > 1 \<and>
         chroma_offset (conversion state) c = VK_CHROMA_LOCATION_COSITED_EVEN
      then
        (let (sz, bld) = (case img_size of
                              None \<Rightarrow> get_texture_size state bld (tex_deref state)
                            | Some s \<Rightarrow> (s, bld));
             (v, bld) = nir_channel bld old_coords c;
             (m, bld) = nir_channel bld sz c;
             (adjusted, bld) = implicit_downsampled_coord bld v m (divisors (format (conversion state)) c)
         in implicit_downsampled_coords_loop state old_coords cs (Some sz, comps @ [adjusted], bld))
      else
        (let (v, bld) = nir_channel bld old_coords c
         in implicit_downsampled_coords_loop state old_coords cs (img_size, comps @ [v], bld)))"

definition implicit_downsampled_coords :: "ycbcr_state \<Rightarrow> nir_builder \<Rightarrow> nir_ssa_def \<Rightarrow> nir_ssa_def \<times> nir_builder" where
  "implicit_downsampled_coords state bld old_coords =
     (let (img_size, comps, bld) =
            implicit_downsampled_coords_loop state old_coords [0..<num_components old_coords] (None, [], bld)
      in nir_vec bld comps (num_components old_coords))"

subsection \<open>One sample per plane\<close>

text \<open>
  The loop of create\_plane\_tex\_instr\_implicit over the sources of the original
  instruction: the coordinate of a plane other than plane 0 is replaced, every other source
  is copied.
\<close>

fun copy_plane_srcs ::
  "ycbcr_state \<Rightarrow> nat \<Rightarrow> nir_builder \<Rightarrow> (nir_tex_src_type \<times> nir_src) list
     \<Rightarrow> error + (nir_tex_src_type \<times> nir_src) list \<times> nir_builder" where
  "copy_plane_srcs state plane bld [] = Inr ([], bld)"
| "copy_plane_srcs state plane bld ((ty, s) # rest) =
     (case (if ty = nir_tex_src_coord \<and> plane \<noteq> 0
            then (case s of
                    Src_reg _ \<Rightarrow> Inl Assertion_failed
                  | Src_ssa old_coords \<Rightarrow>
                      (let (coords, bld) = implicit_downsampled_coords state bld old_coords
                       in Inr (Src_ssa coords, bld)))
            else Inr (s, bld)) of
        Inl e \<Rightarrow> Inl e
      | Inr (s', bld) \<Rightarrow>
          (case copy_plane_srcs state plane bld rest of
             Inl e \<Rightarrow> Inl e
           | Inr (srcs, bld) \<Rightarrow> Inr ((ty, s') # srcs, bld)))"

definition create_plane_tex_instr_implicit :: "ycbcr_state \<Rightarrow> nir_builder \<Rightarrow> nat \<Rightarrow> error + nir_ssa_def \<times> nir_builder" where
  "create_plane_tex_instr_implicit state bld plane =
     (let old_tex = origin_tex state
      in case copy_plane_srcs state plane bld (src old_tex) of
           Inl e \<Rightarrow> Inl e
         | Inr (srcs, bld) \<Rightarrow>
             (let (p, bld) = nir_imm_int bld (of_nat plane);
                  tex = (nir_tex_instr_create (length (src old_tex) + 1))
                    \<lparr>src := srcs @ [(nir_tex_src_plane, Src_ssa p)],
                     sampler_dim := sampler_dim old_tex,
                     dest_type := dest_type old_tex,
                     is_array := is_array old_tex,
                     op := op old_tex,
                     coord_components := coord_components old_tex,
                     is_new_style_shadow := is_new_style_shadow old_tex,
                     component := component old_tex,
                     texture_index := texture_index old_tex,
                     texture_array_size := texture_array_size old_tex,
                     sampler_index := sampler_index old_tex\<rparr>;
                  (d, bld) = nir_ssa_dest_init bld (num_components (dest old_tex)) (bit_size (dest old_tex))
              in Inr (d, nir_builder_instr_insert bld (Tex (tex\<lparr>dest := d\<rparr>)))))"

subsection \<open>Combining the planes\<close>

record swizzle_info =
  plane :: "nat list"
  swizzle :: "nat list"

definition get_plane_swizzles :: "VkFormat \<Rightarrow> error + swizzle_info" where
  "get_plane_swizzles fmt =
     (let planes = vk_format_get_plane_count fmt
      in if planes = 3 then Inr \<lparr>plane = [2, 0, 1, 0], swizzle = [0, 0, 0, 3]\<rparr>
         else if planes = 2 then Inr \<lparr>plane = [1, 0, 1, 0], swizzle = [1, 0, 0, 3]\<rparr>
         else if planes = 1 then Inr \<lparr>plane = [0, 0, 0, 0], swizzle = [0, 1, 2, 3]\<rparr>
         else Inl Unreachable)"

text \<open>
  Modelled from the spec: vk\_format\_compose\_swizzles (vk\_format.h is not among the
  sources).  "Each of the 4 output positions selects one of routed-channel-X/Y/Z/W, constant
  0.0, constant 1.0", and the composition is "evaluated against the identity ordering
  (X,Y,Z,W)": R, G, B, A of the descriptor's mapping select X, Y, Z, W, the API's identity
  entry selects the channel of its own position, and ZERO and ONE select the constants.
\<close>

definition radv_swizzle_conv :: "VkComponentSwizzle \<Rightarrow> VkComponentSwizzle \<Rightarrow> vk_swizzle" where
  "radv_swizzle_conv component_position vk_swiz =
     (case (if vk_swiz = VK_COMPONENT_SWIZZLE_IDENTITY then component_position else vk_swiz) of
        VK_COMPONENT_SWIZZLE_ZERO \<Rightarrow> VK_SWIZZLE_0
      | VK_COMPONENT_SWIZZLE_ONE \<Rightarrow> VK_SWIZZLE_1
      | VK_COMPONENT_SWIZZLE_R \<Rightarrow> VK_SWIZZLE_X
      | VK_COMPONENT_SWIZZLE_G \<Rightarrow> VK_SWIZZLE_Y
      | VK_COMPONENT_SWIZZLE_B \<Rightarrow> VK_SWIZZLE_Z
      | VK_COMPONENT_SWIZZLE_A \<Rightarrow> VK_SWIZZLE_W
      | VK_COMPONENT_SWIZZLE_IDENTITY \<Rightarrow> VK_SWIZZLE_X)"

definition vk_format_compose_swizzles :: "VkComponentMapping \<Rightarrow> vk_swizzle list" where
  "vk_format_compose_swizzles mapping =
     [radv_swizzle_conv VK_COMPONENT_SWIZZLE_R (swizzle_r mapping),
      radv_swizzle_conv VK_COMPONENT_SWIZZLE_G (swizzle_g mapping),
      radv_swizzle_conv VK_COMPONENT_SWIZZLE_B (swizzle_b mapping),
      radv_swizzle_conv VK_COMPONENT_SWIZZLE_A (swizzle_a mapping)]"

fun swizzle_channel :: "vk_swizzle \<Rightarrow> nat" where
  "swizzle_channel VK_SWIZZLE_X = 0"
| "swizzle_channel VK_SWIZZLE_Y = 1"
| "swizzle_channel VK_SWIZZLE_Z = 2"
| "swizzle_channel VK_SWIZZLE_W = 3"
| "swizzle_channel VK_SWIZZLE_0 = 4"
| "swizzle_channel VK_SWIZZLE_1 = 5"

text \<open>The loop of build\_swizzled\_components over the four output positions.\<close>

fun build_swizzled_values ::
  "swizzle_info \<Rightarrow> nir_ssa_def list \<Rightarrow> nir_ssa_def \<Rightarrow> nir_ssa_def \<Rightarrow> nir_builder \<Rightarrow> vk_swizzle list
     \<Rightarrow> nir_ssa_def list \<times> nir_builder" where
  "build_swizzled_values plane_swizzle plane_values zero one bld [] = ([], bld)"
| "build_swizzled_values plane_swizzle plane_values zero one bld (s # swizzles) =
     (let (v, bld) =
            (if s = VK_SWIZZLE_0 then (zero, bld)
             else if s = VK_SWIZZLE_1 then (one, bld)
             else (let channel = swizzle_channel s
                   in nir_channel bld (plane_values ! (plane plane_swizzle ! channel))
                        (swizzle plane_swizzle ! channel)));
          (vs, bld) = build_swizzled_values plane_swizzle plane_values zero one bld swizzles
      in (v # vs, bld))"

definition build_swizzled_components ::
  "nir_builder \<Rightarrow> VkFormat \<Rightarrow> VkComponentMapping \<Rightarrow> nir_ssa_def list \<Rightarrow> error + nir_ssa_def \<times> nir_builder" where
  "build_swizzled_components bld fmt mapping plane_values =
     (case get_plane_swizzles fmt of
        Inl e \<Rightarrow> Inl e
      | Inr plane_swizzle \<Rightarrow>
          (let swizzles = vk_format_compose_swizzles mapping;
               (zero, bld) = nir_imm_float bld 0;
               (one, bld) = nir_imm_float bld 1;
               (vals, bld) = build_swizzled_values plane_swizzle plane_values zero one bld swizzles
           in Inr (nir_vec bld vals 4)))"

subsection \<open>Lowering one texture instruction\<close>

record radv_descriptor_set_binding_layout =
  array_size :: "32 word"

text \<open>
  Modelled from the spec: the binding layout provider (radv\_descriptor\_set.h is not
  among the sources): "given (descriptor-set, binding) yields an array of Conversion
  Descriptors (length = binding's array size) or none".
\<close>

record radv_descriptor_set_layout =
  binding_layout :: "nat \<rightharpoonup> radv_descriptor_set_binding_layout"
  ycbcr_samplers :: "nat \<rightharpoonup> radv_sampler_ycbcr_conversion list"

record radv_pipeline_layout =
  set_layout :: "nat \<rightharpoonup> radv_descriptor_set_layout"

definition radv_immutable_ycbcr_samplers :: "radv_descriptor_set_layout \<Rightarrow> nat \<Rightarrow> radv_sampler_ycbcr_conversion list option" where
  "radv_immutable_ycbcr_samplers set_l binding_index = ycbcr_samplers set_l binding_index"

text \<open>
  Modelled from the spec: "an SSA value type with defining-instruction and use-list".  The
  defining instruction of a value is found by its index in the function body; the uses of
  a value are the sources that name it, in the instructions and in the conditions of the
  function's if statements.
\<close>

fun instr_def :: "nir_instr \<Rightarrow> nir_ssa_def option" where
  "instr_def (Alu _ d _) = Some d"
| "instr_def (Load_const d _) = Some d"
| "instr_def (Tex t) = Some (dest t)"
| "instr_def (Deref d) = Some (deref_dest d)"
| "instr_def (Other_instr d _) = d"

definition is_def_of :: "nat \<Rightarrow> nir_instr \<Rightarrow> bool" where
  "is_def_of k instr = (case instr_def instr of None \<Rightarrow> False | Some d \<Rightarrow> index d = k)"

definition all_instrs :: "nir_builder \<Rightarrow> nir_instr list" where
  "all_instrs bld = concat (blocks_before bld) @ instrs_before bld @ instrs_after bld @ concat (blocks_after bld)"

fun instr_srcs :: "nir_instr \<Rightarrow> nir_src list" where
  "instr_srcs (Alu _ _ srcs) = map fst srcs"
| "instr_srcs (Load_const _ _) = []"
| "instr_srcs (Tex t) = map snd (src t)"
| "instr_srcs (Deref d) = [arr_index d]"
| "instr_srcs (Other_instr _ srcs) = srcs"

definition refers :: "nat \<Rightarrow> nir_src \<Rightarrow> bool" where
  "refers k s = (case s of Src_reg _ \<Rightarrow> False | Src_ssa d \<Rightarrow> index d = k)"

definition use_count :: "nat \<Rightarrow> nir_src list \<Rightarrow> nat" where
  "use_count k srcs = length (filter (refers k) srcs)"

definition srcs_of :: "nir_instr list \<Rightarrow> nir_src list" where
  "srcs_of instrs = concat (map instr_srcs instrs)"


definition parent_instr :: "nir_builder \<Rightarrow> nir_src \<Rightarrow> nir_instr option" where
  "parent_instr bld s =
     (case s of Src_reg _ \<Rightarrow> None | Src_ssa d \<Rightarrow> find (is_def_of (index d)) (all_instrs bld))"

definition nir_src_as_deref :: "nir_builder \<Rightarrow> nir_src \<Rightarrow> nir_deref_instr option" where
  "nir_src_as_deref bld s = (case parent_instr bld s of Some (Deref d) \<Rightarrow> Some d | _ \<Rightarrow> None)"

definition nir_src_as_const_value :: "nir_builder \<Rightarrow> nir_src \<Rightarrow> nir_const_value list option" where
  "nir_src_as_const_value bld s = (case parent_instr bld s of Some (Load_const _ vs) \<Rightarrow> Some vs | _ \<Rightarrow> None)"

definition nir_deref_instr_get_variable :: "nir_deref_instr \<Rightarrow> nir_variable option" where
  "nir_deref_instr_get_variable deref = variable deref"

definition nir_tex_instr_src_index :: "nir_tex_instr \<Rightarrow> nir_tex_src_type \<Rightarrow> nir_src option" where
  "nir_tex_instr_src_index tex ty = map_of (src tex) ty"

text \<open>
  Modelled from the spec: nir\_ssa\_def\_rewrite\_uses (nir.c is not among the sources),
  which "rewrites all uses of the original destination to the final value": every source
  that names the value, in the instructions of the body and in the conditions of the if
  statements, names the new value afterwards.
\<close>

definition rewrite_src :: "nir_ssa_def \<Rightarrow> nir_src \<Rightarrow> nir_src \<Rightarrow> nir_src" where
  "rewrite_src d new s = (case s of Src_reg _ \<Rightarrow> s | Src_ssa d' \<Rightarrow> if index d' = index d then new else s)"

fun rewrite_instr :: "nir_ssa_def \<Rightarrow> nir_src \<Rightarrow> nir_instr \<Rightarrow> nir_instr" where
  "rewrite_instr d new (Alu opc dst srcs) = Alu opc dst (map (\<lambda>(s, swz). (rewrite_src d new s, swz)) srcs)"
| "rewrite_instr d new (Load_const dst vs) = Load_const dst vs"
| "rewrite_instr d new (Tex t) = Tex (t\<lparr>src := map (\<lambda>(ty, s). (ty, rewrite_src d new s)) (src t)\<rparr>)"
| "rewrite_instr d new (Deref dr) = Deref (dr\<lparr>arr_index := rewrite_src d new (arr_index dr)\<rparr>)"
| "rewrite_instr d new (Other_instr dst srcs) = Other_instr dst (map (rewrite_src d new) srcs)"

definition nir_ssa_def_rewrite_uses :: "nir_builder \<Rightarrow> nir_ssa_def \<Rightarrow> nir_src \<Rightarrow> nir_builder" where
  "nir_ssa_def_rewrite_uses bld d new =
     bld\<lparr>if_uses := map (rewrite_src d new) (if_uses bld),
         blocks_before := map (map (rewrite_instr d new)) (blocks_before bld),
         instrs_before := map (rewrite_instr d new) (instrs_before bld),
         instrs_after := map (rewrite_instr d new) (instrs_after bld),
         blocks_after := map (map (rewrite_instr d new)) (blocks_after bld)\<rparr>"

text \<open>
  Modelled from the spec: nir\_instr\_remove (nir.c is not among the sources), which
  "deletes the original instruction", for the instruction the cursor stands before: the
  first instruction from the cursor on that defines the given value leaves the body.
\<close>

fun remove_instr :: "nat \<Rightarrow> nir_instr list \<Rightarrow> nir_instr list" where
  "remove_instr k [] = []"
| "remove_instr k (i # is) = (if is_def_of k i then is else i # remove_instr k is)"

definition nir_instr_remove :: "nir_builder \<Rightarrow> nir_tex_instr \<Rightarrow> nir_builder" where
  "nir_instr_remove bld tex = bld\<lparr>instrs_after := remove_instr (index (dest tex)) (instrs_after bld)\<rparr>"

text \<open>
  Lines 352 to 384 of try\_lower\_tex\_ycbcr: from the texture reference of the
  instruction to the conversion descriptor selected for it.  The result is empty where the
  function returns false: no YCbCr samplers for the binding, a query operation, or an array
  index that is not a constant.
\<close>

definition resolve_ycbcr_sampler ::
  "radv_pipeline_layout \<Rightarrow> nir_builder \<Rightarrow> nir_tex_instr
     \<Rightarrow> error + (nir_deref_instr \<times> radv_sampler_ycbcr_conversion) option" where
  "resolve_ycbcr_sampler layout bld tex =
     (case nir_tex_instr_src_index tex nir_tex_src_texture_deref of
        None \<Rightarrow> Inl Assertion_failed
      | Some deref_src \<Rightarrow>
     (case nir_src_as_deref bld deref_src of
        None \<Rightarrow> Inl Null_pointer
      | Some deref \<Rightarrow>
     (case nir_deref_instr_get_variable deref of
        None \<Rightarrow> Inl Null_pointer
      | Some var \<Rightarrow>
     (case set_layout layout (descriptor_set var) of
        None \<Rightarrow> Inl Null_pointer
      | Some set_l \<Rightarrow>
     (case radv_immutable_ycbcr_samplers set_l (binding var) of
        None \<Rightarrow> Inr None
      | Some samplers \<Rightarrow>
          if op tex = nir_texop_txs \<or> op tex = nir_texop_query_levels \<or> op tex = nir_texop_lod
          then Inr None
          else if texture_index tex \<noteq> 0 then Inl Assertion_failed
          else
            (case (if deref_type deref \<noteq> nir_deref_type_var
                   then if deref_type deref \<noteq> nir_deref_type_array then Inl Assertion_failed
                        else (case nir_src_as_const_value bld (arr_index deref) of
                                None \<Rightarrow> Inr None
                              | Some [] \<Rightarrow> Inl Out_of_bounds
                              | Some (Const_float _ # _) \<Rightarrow> Inl Float_bits
                              | Some (Const_uint array_index # _) \<Rightarrow>
                                  (case binding_layout set_l (binding var) of
                                     None \<Rightarrow> Inl Out_of_bounds
                                   | Some bnd \<Rightarrow> Inr (Some (min array_index (array_size bnd - 1)))))
                   else Inr (Some 0)) of
               Inl e \<Rightarrow> Inl e
             | Inr None \<Rightarrow> Inr None
             | Inr (Some array_index) \<Rightarrow>
                 if unat array_index < length samplers
                 then Inr (Some (deref, samplers ! unat array_index))
                 else Inl Out_of_bounds))))))"

text \<open>The loop of try\_lower\_tex\_ycbcr over the planes.\<close>

fun create_planes :: "ycbcr_state \<Rightarrow> nir_builder \<Rightarrow> nat list \<Rightarrow> error + nir_ssa_def list \<times> nir_builder" where
  "create_planes state bld [] = Inr ([], bld)"
| "create_planes state bld (p # ps) =
     (case create_plane_tex_instr_implicit state bld p of
        Inl e \<Rightarrow> Inl e
      | Inr (v, bld) \<Rightarrow>
          (case create_planes state bld ps of
             Inl e \<Rightarrow> Inl e
           | Inr (vs, bld) \<Rightarrow> Inr (v # vs, bld)))"

text \<open>
  Lines 398 to 410 of try\_lower\_tex\_ycbcr: the value that will replace the destination
  of the original instruction.
\<close>

definition lowered_result :: "ycbcr_state \<Rightarrow> nir_builder \<Rightarrow> error + nir_ssa_def \<times> nir_builder" where
  "lowered_result state bld =
     (let fmt = format (conversion state);
          plane_count = vk_format_get_plane_count fmt
      in case create_planes state bld [0..<nat plane_count] of
           Inl e \<Rightarrow> Inl e
         | Inr (plane_values, bld) \<Rightarrow>
             (case build_swizzled_components bld fmt (components (conversion state)) plane_values of
                Inl e \<Rightarrow> Inl e
              | Inr (result, bld) \<Rightarrow>
                  if ycbcr_model (conversion state) \<noteq> VK_SAMPLER_YCBCR_MODEL_CONVERSION_RGB_IDENTITY
                  then convert_ycbcr state bld result
                         (vk_format_get_component_bits (vk_format_get_plane_format fmt 0) mod 256)
                  else Inr (result, bld)))"

text \<open>
  try\_lower\_tex\_ycbcr.  The builder's cursor already stands before the instruction (it
  is the instruction being visited), which is where line 396 puts it.
\<close>

definition try_lower_tex_ycbcr :: "radv_pipeline_layout \<Rightarrow> nir_builder \<Rightarrow> nir_tex_instr \<Rightarrow> error + bool \<times> nir_builder" where
  "try_lower_tex_ycbcr layout bld tex =
     (case resolve_ycbcr_sampler layout bld tex of
        Inl e \<Rightarrow> Inl e
      | Inr None \<Rightarrow> Inr (False, bld)
      | Inr (Some (deref, ycbcr_sampler)) \<Rightarrow>
          if format ycbcr_sampler = VK_FORMAT_UNDEFINED then Inr (False, bld)
          else
            (let state = \<lparr>image_size = None, origin_tex = tex, tex_deref = deref,
                          conversion = ycbcr_sampler\<rparr>
             in case lowered_result state bld of
                  Inl e \<Rightarrow> Inl e
                | Inr (result, bld) \<Rightarrow>
                    Inr (True, nir_instr_remove
                                 (nir_ssa_def_rewrite_uses bld (dest tex) (Src_ssa result))
                                 tex)))"

subsection \<open>The pass\<close>

record nir_function_impl =
  body :: "nir_instr list list"
  impl_if_uses :: "nir_src list"
  impl_ssa_alloc :: nat
  impl_valid_metadata :: "nir_metadata set"

record nir_function =
  impl :: "nir_function_impl option"

definition nir_builder_init :: "nir_function_impl \<Rightarrow> nir_builder" where
  "nir_builder_init f =
     \<lparr>ssa_alloc = impl_ssa_alloc f, valid_metadata = impl_valid_metadata f, if_uses = impl_if_uses f,
      blocks_before = [], instrs_before = [], instrs_after = [], blocks_after = body f\<rparr>"

definition builder_impl :: "nir_builder \<Rightarrow> nir_function_impl" where
  "builder_impl bld =
     \<lparr>body = blocks_before bld @ blocks_after bld, impl_if_uses = if_uses bld,
      impl_ssa_alloc = ssa_alloc bld, impl_valid_metadata = valid_metadata bld\<rparr>"

text \<open>
  nir\_foreach\_instr\_safe over the block at the cursor: one step per instruction of the
  block as it stood when the loop began.  The instruction visited is the one the cursor
  stands before; when it is lowered it has left the body and the cursor already stands
  before its successor, otherwise the cursor steps over it.
\<close>

definition step_over :: "nir_builder \<Rightarrow> nir_builder" where
  "step_over bld =
     (case instrs_after bld of
        [] \<Rightarrow> bld
      | i # is \<Rightarrow> bld\<lparr>instrs_before := instrs_before bld @ [i], instrs_after := is\<rparr>)"

fun lower_instrs :: "radv_pipeline_layout \<Rightarrow> nat \<Rightarrow> nir_builder \<Rightarrow> error + bool \<times> nir_builder" where
  "lower_instrs layout 0 bld = Inr (False, bld)"
| "lower_instrs layout (Suc n) bld =
     (case instrs_after bld of
        [] \<Rightarrow> Inr (False, bld)
      | Tex tex # _ \<Rightarrow>
          (case try_lower_tex_ycbcr layout bld tex of
             Inl e \<Rightarrow> Inl e
           | Inr (lowered, bld) \<Rightarrow>
               (case lower_instrs layout n (if lowered then bld else step_over bld) of
                  Inl e \<Rightarrow> Inl e
                | Inr (progress, bld) \<Rightarrow> Inr (lowered \<or> progress, bld)))
      | _ # _ \<Rightarrow> lower_instrs layout n (step_over bld))"

text \<open>nir\_foreach\_block: the cursor enters each block of the body in turn.\<close>

fun lower_blocks :: "radv_pipeline_layout \<Rightarrow> nat \<Rightarrow> nir_builder \<Rightarrow> error + bool \<times> nir_builder" where
  "lower_blocks layout 0 bld = Inr (False, bld)"
| "lower_blocks layout (Suc n) bld =
     (case blocks_after bld of
        [] \<Rightarrow> Inr (False, bld)
      | block # blocks \<Rightarrow>
          (case lower_instrs layout (length block)
                  (bld\<lparr>instrs_before := [], instrs_after := block, blocks_after := blocks\<rparr>) of
             Inl e \<Rightarrow> Inl e
           | Inr (progress, bld) \<Rightarrow>
               (case lower_blocks layout n
                       (bld\<lparr>blocks_before := blocks_before bld @ [instrs_before bld @ instrs_after bld],
                            instrs_before := [], instrs_after := []\<rparr>) of
                  Inl e \<Rightarrow> Inl e
                | Inr (later, bld) \<Rightarrow> Inr (progress \<or> later, bld))))"

text \<open>
  Modelled from the spec: nir\_metadata\_preserve (nir\_metadata.c is not among the sources).
  The spec speaks of "per-function cached analysis results" that are valid or invalidated;
  the function keeps the set of the analyses that are valid.  The call names the analyses
  to preserve: they stay valid as far as they were, every other analysis of the function
  is invalidated.
\<close>

definition nir_metadata_preserve :: "nir_function_impl \<Rightarrow> nir_metadata set \<Rightarrow> nir_function_impl" where
  "nir_metadata_preserve f preserved = f\<lparr>impl_valid_metadata := impl_valid_metadata f \<inter> preserved\<rparr>"

text \<open>The body of nir\_foreach\_function for a function that has an implementation.\<close>

definition lower_function_impl :: "radv_pipeline_layout \<Rightarrow> nir_function_impl \<Rightarrow> error + bool \<times> nir_function_impl" where
  "lower_function_impl layout f =
     (case lower_blocks layout (length (body f)) (nir_builder_init f) of
        Inl e \<Rightarrow> Inl e
      | Inr (function_progress, bld) \<Rightarrow>
          Inr (function_progress,
               if function_progress
               then nir_metadata_preserve (builder_impl bld) {nir_metadata_block_index, nir_metadata_dominance}
               else builder_impl bld))"

fun radv_nir_lower_ycbcr_textures :: "nir_function list \<Rightarrow> radv_pipeline_layout \<Rightarrow> error + bool \<times> nir_function list" where
  "radv_nir_lower_ycbcr_textures [] layout = Inr (False, [])"
| "radv_nir_lower_ycbcr_textures (func # shader) layout =
     (case impl func of
        None \<Rightarrow>
          (case radv_nir_lower_ycbcr_textures shader layout of
             Inl e \<Rightarrow> Inl e
           | Inr (progress, shader) \<Rightarrow> Inr (progress, func # shader))
      | Some f \<Rightarrow>
          (case lower_function_impl layout f of
             Inl e \<Rightarrow> Inl e
           | Inr (function_progress, f) \<Rightarrow>
               (case radv_nir_lower_ycbcr_textures shader layout of
                  Inl e \<Rightarrow> Inl e
                | Inr (progress, shader) \<Rightarrow>
                    Inr (function_progress \<or> progress, func\<lparr>impl := Some f\<rparr> # shader))))"

subsection \<open>Values of the emitted instructions\<close>

text \<open>
  An environment gives every SSA index its vector of components.  Integers are read as
  reals; what a texture instruction returns is left to a parameter.
\<close>

type_synonym env = "nat \<Rightarrow> real list"

fun src_value :: "env \<Rightarrow> nir_src \<times> nat list \<Rightarrow> real list" where
  "src_value e (Src_ssa d, swz) = map (\<lambda>k. e (index d) ! k) swz"
| "src_value e (Src_reg _, swz) = []"

fun const_value :: "nir_const_value \<Rightarrow> real" where
  "const_value (Const_float x) = x"
| "const_value (Const_uint w) = real (unat w)"

fun alu_value :: "nir_op \<Rightarrow> real list list \<Rightarrow> real list" where
  "alu_value nir_op_mov [x] = x"
| "alu_value nir_op_fadd [x, y] = map2 (+) x y"
| "alu_value nir_op_fmul [x, y] = map2 (*) x y"
| "alu_value nir_op_fdiv [x, y] = map2 (/) x y"
| "alu_value nir_op_frcp [x] = map inverse x"
| "alu_value nir_op_fdot4 [x, y] = [sum_list (map2 (*) x y)]"
| "alu_value nir_op_i2f32 [x] = x"
| "alu_value (nir_op_vec n) xs = concat xs"
| "alu_value _ _ = []"

fun exec_instr :: "(nir_tex_instr \<Rightarrow> env \<Rightarrow> real list) \<Rightarrow> env \<Rightarrow> nir_instr \<Rightarrow> env" where
  "exec_instr texture e (Alu opc d srcs) = e(index d := alu_value opc (map (src_value e) srcs))"
| "exec_instr texture e (Load_const d vs) = e(index d := map const_value vs)"
| "exec_instr texture e (Tex t) = e(index (dest t) := texture t e)"
| "exec_instr texture e (Deref _) = e"
| "exec_instr texture e (Other_instr _ _) = e"

definition exec_instrs :: "(nir_tex_instr \<Rightarrow> env \<Rightarrow> real list) \<Rightarrow> nir_instr list \<Rightarrow> env \<Rightarrow> env" where
  "exec_instrs texture instrs e = foldl (exec_instr texture) e instrs"

text \<open>The instructions a builder call has inserted at the cursor.\<close>

definition inserted :: "nir_builder \<Rightarrow> nir_builder \<Rightarrow> nir_instr list" where
  "inserted bld bld' = drop (length (instrs_before bld)) (instrs_before bld')"

subsection \<open>Vocabulary of the statements\<close>

definition fresh_instrs :: "nat \<Rightarrow> nat \<Rightarrow> nir_instr list \<Rightarrow> bool" where
  "fresh_instrs lo hi new = (\<forall>i\<in>set new. \<forall>d. instr_def i = Some d \<longrightarrow> lo \<le> index d \<and> index d < hi)"

definition emits :: "nir_builder \<Rightarrow> nir_builder \<Rightarrow> bool" where
  "emits bld bld' \<longleftrightarrow>
     (\<exists>new. instrs_before bld' = instrs_before bld @ new \<and>
            fresh_instrs (ssa_alloc bld) (ssa_alloc bld') new) \<and>
     ssa_alloc bld \<le> ssa_alloc bld' \<and>
     valid_metadata bld' = valid_metadata bld \<and> if_uses bld' = if_uses bld \<and>
     blocks_before bld' = blocks_before bld \<and> instrs_after bld' = instrs_after bld \<and>
     blocks_after bld' = blocks_after bld"

definition expanded_luma :: "VkSamplerYcbcrRange \<Rightarrow> nat \<Rightarrow> real \<Rightarrow> real" where
  "expanded_luma rng bits y =
     (case rng of
        VK_SAMPLER_YCBCR_RANGE_ITU_FULL \<Rightarrow> y
      | VK_SAMPLER_YCBCR_RANGE_ITU_NARROW \<Rightarrow>
          (y * (2 ^ bits - 1) - 16 * 2 powi (int bits - 8)) / (219 * 2 powi (int bits - 8)))"

definition expanded_chroma :: "VkSamplerYcbcrRange \<Rightarrow> nat \<Rightarrow> real \<Rightarrow> real" where
  "expanded_chroma rng bits c =
     (case rng of
        VK_SAMPLER_YCBCR_RANGE_ITU_FULL \<Rightarrow> c - 2 powi (int bits - 1) / (2 ^ bits - 1)
      | VK_SAMPLER_YCBCR_RANGE_ITU_NARROW \<Rightarrow>
          (c * (2 ^ bits - 1) - 128 * 2 powi (int bits - 8)) / (224 * 2 powi (int bits - 8)))"

definition dot4 :: "real list \<Rightarrow> real list \<Rightarrow> real" where
  "dot4 x y = x ! 0 * y ! 0 + x ! 1 * y ! 1 + x ! 2 * y ! 2 + x ! 3 * y ! 3"

definition expanded :: "VkSamplerYcbcrRange \<Rightarrow> nat \<Rightarrow> real list \<Rightarrow> real list" where
  "expanded rng bits raw =
     [expanded_chroma rng bits (raw ! 0), expanded_luma rng bits (raw ! 1),
      expanded_chroma rng bits (raw ! 2), 1]"

definition converted :: "VkSamplerYcbcrModelConversion \<Rightarrow> real list \<Rightarrow> real list" where
  "converted model ex =
     (case ycbcr_model_to_rgb_matrix model of
        Inl _ \<Rightarrow> ex
      | Inr m \<Rightarrow> [dot4 ex (m ! 0), dot4 ex (m ! 1), dot4 ex (m ! 2), 1])"

definition is_alu :: "nir_op \<Rightarrow> nir_instr \<Rightarrow> bool" where
  "is_alu opc i = (case i of Alu opc' _ _ \<Rightarrow> opc' = opc | _ \<Rightarrow> False)"

definition is_size_query :: "nir_instr \<Rightarrow> bool" where
  "is_size_query i = (case i of Tex t \<Rightarrow> op t = nir_texop_txs | _ \<Rightarrow> False)"

definition size_queries :: "nir_instr list \<Rightarrow> nat" where
  "size_queries instrs = length (filter is_size_query instrs)"

definition adjusts :: "radv_sampler_ycbcr_conversion \<Rightarrow> nat \<Rightarrow> bool" where
  "adjusts conv c \<longleftrightarrow>
     c < 2 \<and> divisors (format conv) c > 1 \<and> chroma_offset conv c = VK_CHROMA_LOCATION_COSITED_EVEN"

definition adjusted_coord :: "radv_sampler_ycbcr_conversion \<Rightarrow> real list \<Rightarrow> real list \<Rightarrow> nat \<Rightarrow> real" where
  "adjusted_coord conv sz old c =
     (if adjusts conv c then old ! c + 1 / (real (divisors (format conv) c) * sz ! c) else old ! c)"

definition size_components :: "nir_deref_instr \<Rightarrow> nat" where
  "size_components texture =
     (case glsl_sampler_dim (type texture) of
        GLSL_SAMPLER_DIM_1D \<Rightarrow> 1
      | GLSL_SAMPLER_DIM_BUF \<Rightarrow> 1
      | GLSL_SAMPLER_DIM_3D \<Rightarrow> 3
      | _ \<Rightarrow> 2) + (if glsl_sampler_array (type texture) then 1 else 0)"

definition size_query :: "nir_deref_instr \<Rightarrow> nat \<Rightarrow> nir_tex_instr" where
  "size_query texture k =
     (let tex = (nir_tex_instr_create 1)
            \<lparr>op := nir_texop_txs,
             sampler_dim := glsl_sampler_dim (type texture),
             is_array := glsl_sampler_array (type texture),
             is_shadow := glsl_sampler_shadow (type texture),
             dest_type := nir_type_int,
             src := [(nir_tex_src_texture_deref, Src_ssa (deref_dest texture))]\<rparr>
      in tex\<lparr>dest := \<lparr>index = k, num_components = nir_tex_instr_dest_size tex, bit_size = 32\<rparr>\<rparr>)"

definition size_oracle :: "(nir_tex_instr \<Rightarrow> env \<Rightarrow> real list) \<Rightarrow> nir_deref_instr \<Rightarrow> real list \<Rightarrow> bool" where
  "size_oracle texture deref sz \<longleftrightarrow>
     length sz = size_components deref \<and>
     (\<forall>k e. texture (size_query deref k) e = sz)"

definition size_known :: "nir_ssa_def option \<Rightarrow> env \<Rightarrow> real list \<Rightarrow> bool" where
  "size_known img e sz = (case img of None \<Rightarrow> True | Some s \<Rightarrow> e (index s) = sz)"

definition below :: "nir_ssa_def option \<Rightarrow> nat \<Rightarrow> bool" where
  "below img n = (case img of None \<Rightarrow> True | Some s \<Rightarrow> index s < n)"

definition routing :: "int \<Rightarrow> (nat \<times> nat) list" where
  "routing n =
     (if n = 3 then [(2, 0), (0, 0), (1, 0), (0, 3)]
      else if n = 2 then [(1, 1), (0, 0), (1, 0), (0, 3)]
      else [(0, 0), (0, 1), (0, 2), (0, 3)])"

definition routed :: "int \<Rightarrow> real list list \<Rightarrow> real list" where
  "routed n planes = map (\<lambda>(p, c). planes ! p ! c) (routing n)"

definition swizzled :: "vk_swizzle list \<Rightarrow> real list \<Rightarrow> real list" where
  "swizzled sws v =
     map (\<lambda>s. if s = VK_SWIZZLE_0 then 0 else if s = VK_SWIZZLE_1 then 1 else v ! swizzle_channel s) sws"

definition selected :: "swizzle_info \<Rightarrow> nir_ssa_def list \<Rightarrow> nir_ssa_def \<Rightarrow> nir_ssa_def \<Rightarrow> env \<Rightarrow> vk_swizzle \<Rightarrow> real" where
  "selected ps pv zero one e s =
     (if s = VK_SWIZZLE_0 then e (index zero) ! 0
      else if s = VK_SWIZZLE_1 then e (index one) ! 0
      else e (index (pv ! (plane ps ! swizzle_channel s))) ! (swizzle ps ! swizzle_channel s))"

definition grows :: "nir_builder \<Rightarrow> nir_builder \<Rightarrow> bool" where
  "grows bld bld' \<longleftrightarrow>
     ssa_alloc bld \<le> ssa_alloc bld' \<and>
     valid_metadata bld' = valid_metadata bld \<and> if_uses bld' = if_uses bld \<and>
     blocks_before bld' = blocks_before bld \<and> instrs_after bld' = instrs_after bld \<and>
     blocks_after bld' = blocks_after bld"

definition same_body :: "nir_builder \<Rightarrow> nir_builder \<Rightarrow> bool" where
  "same_body bld bld' \<longleftrightarrow>
     ssa_alloc bld' = ssa_alloc bld \<and> if_uses bld' = if_uses bld \<and>
     blocks_before bld' = blocks_before bld \<and> blocks_after bld' = blocks_after bld \<and>
     instrs_before bld' @ instrs_after bld' = instrs_before bld @ instrs_after bld"

definition ordered :: "nat \<Rightarrow> nir_instr \<Rightarrow> bool" where
  "ordered k i \<longleftrightarrow>
     (\<exists>def. instr_def i = Some def \<and>
        (\<forall>s\<in>set (instr_srcs i). \<forall>d. s = Src_ssa d \<longrightarrow> index d \<noteq> k \<and> index d < index def))"

definition neat :: "nat \<Rightarrow> nir_builder \<Rightarrow> nir_builder \<Rightarrow> bool" where
  "neat k bld bld' \<longleftrightarrow> emits bld bld' \<and> (\<forall>i\<in>set (inserted bld bld'). ordered k i)"

definition avail :: "nat \<Rightarrow> nir_builder \<Rightarrow> nir_ssa_def \<Rightarrow> bool" where
  "avail k bld d \<longleftrightarrow> index d \<noteq> k \<and> index d < ssa_alloc bld"

definition yields :: "nat \<Rightarrow> nir_builder \<Rightarrow> nir_ssa_def \<times> nir_builder \<Rightarrow> bool" where
  "yields k bld r \<longleftrightarrow> neat k bld (snd r) \<and> avail k (snd r) (fst r)"

definition kept :: "nat \<Rightarrow> nir_builder \<Rightarrow> nir_builder \<Rightarrow> nir_ssa_def list \<Rightarrow> bool" where
  "kept k bld b known \<longleftrightarrow> neat k bld b \<and> k < ssa_alloc b \<and> (\<forall>d\<in>set known. avail k b d)"

subsection \<open>A small shader for the examples\<close>

text \<open>
  A block of four instructions: the reference to a sampler variable (set 0, binding 0), the
  definition of a two-component coordinate, a sample of the texture at that coordinate, and
  an instruction that uses the result of the sample.
\<close>

definition example_deref :: nir_deref_instr where
  "example_deref =
     \<lparr>deref_dest = \<lparr>index = 0, num_components = 1, bit_size = 32\<rparr>,
      deref_type = nir_deref_type_var,
      variable = Some \<lparr>descriptor_set = 0, binding = 0\<rparr>,
      arr_index = NIR_SRC_INIT,
      type = \<lparr>glsl_sampler_dim = GLSL_SAMPLER_DIM_2D, glsl_sampler_array = False,
              glsl_sampler_shadow = False\<rparr>\<rparr>"

definition example_coord :: nir_ssa_def where
  "example_coord = \<lparr>index = 1, num_components = 2, bit_size = 32\<rparr>"

definition example_tex :: nir_tex_instr where
  "example_tex =
     \<lparr>dest = \<lparr>index = 2, num_components = 4, bit_size = 32\<rparr>,
      op = nir_texop_tex, sampler_dim = GLSL_SAMPLER_DIM_2D, dest_type = nir_type_float,
      is_array = False, is_shadow = False, is_new_style_shadow = False,
      coord_components = 2, component = 0, texture_index = 0, texture_array_size = 0,
      sampler_index = 0,
      src = [(nir_tex_src_coord, Src_ssa example_coord),
             (nir_tex_src_texture_deref, Src_ssa (deref_dest example_deref))]\<rparr>"

definition example_builder :: nir_builder where
  "example_builder =
     \<lparr>ssa_alloc = 3,
      valid_metadata = {nir_metadata_block_index, nir_metadata_dominance, nir_metadata_live_ssa_defs},
      if_uses = [],
      blocks_before = [],
      instrs_before = [Deref example_deref, Other_instr (Some example_coord) []],
      instrs_after = [Tex example_tex, Other_instr None [Src_ssa (dest example_tex)]],
      blocks_after = []\<rparr>"

definition example_conversion ::
  "VkFormat \<Rightarrow> VkSamplerYcbcrModelConversion \<Rightarrow> VkSamplerYcbcrRange \<Rightarrow> radv_sampler_ycbcr_conversion" where
  "example_conversion fmt model rng =
     \<lparr>format = fmt, ycbcr_model = model, ycbcr_range = rng,
      components = \<lparr>swizzle_r = VK_COMPONENT_SWIZZLE_IDENTITY, swizzle_g = VK_COMPONENT_SWIZZLE_IDENTITY,
                    swizzle_b = VK_COMPONENT_SWIZZLE_IDENTITY, swizzle_a = VK_COMPONENT_SWIZZLE_IDENTITY\<rparr>,
      chroma_offsets = (VK_CHROMA_LOCATION_COSITED_EVEN, VK_CHROMA_LOCATION_COSITED_EVEN)\<rparr>"

definition example_state :: "radv_sampler_ycbcr_conversion \<Rightarrow> ycbcr_state" where
  "example_state conv =
     \<lparr>image_size = None, origin_tex = example_tex, tex_deref = example_deref, conversion = conv\<rparr>"

definition example_layout :: "radv_sampler_ycbcr_conversion \<Rightarrow> radv_pipeline_layout" where
  "example_layout conv =
     \<lparr>set_layout = [0 \<mapsto> \<lparr>binding_layout = [0 \<mapsto> \<lparr>array_size = 1\<rparr>],
                             ycbcr_samplers = [0 \<mapsto> [conv]]\<rparr>]\<rparr>"

text \<open>The same block as the body of a function, all three analyses of the function valid.\<close>

definition example_impl :: nir_function_impl where
  "example_impl =
     \<lparr>body = [[Deref example_deref, Other_instr (Some example_coord) [],
               Tex example_tex, Other_instr None [Src_ssa (dest example_tex)]]],
      impl_if_uses = [],
      impl_ssa_alloc = 3,
      impl_valid_metadata = {nir_metadata_block_index, nir_metadata_dominance, nir_metadata_live_ssa_defs}\<rparr>"

text \<open>A layout whose binding 0 of set 0 has no YCbCr samplers.\<close>

definition plain_layout :: radv_pipeline_layout where
  "plain_layout =
     \<lparr>set_layout = [0 \<mapsto> \<lparr>binding_layout = [0 \<mapsto> \<lparr>array_size = 1\<rparr>],
                             ycbcr_samplers = Map.empty\<rparr>]\<rparr>"

text \<open>The sample of the example shader with a destination of 16 bits.\<close>

definition example_half_tex :: nir_tex_instr where
  "example_half_tex = example_tex\<lparr>dest := \<lparr>index = 2, num_components = 4, bit_size = 16\<rparr>\<rparr>"

section \<open>Properties\<close>

subsection \<open>Facts about the builder\<close>

lemma nir_build_imm_eq:
  "nir_build_imm bld n bits vs =
     (\<lparr>index = ssa_alloc bld, num_components = n, bit_size = bits\<rparr>,
      bld\<lparr>ssa_alloc := Suc (ssa_alloc bld),
          instrs_before := instrs_before bld @
            [Load_const \<lparr>index = ssa_alloc bld, num_components = n, bit_size = bits\<rparr> (take n vs)]\<rparr>)"
  by (simp add: nir_build_imm_def nir_ssa_dest_init_def nir_builder_instr_insert_def)

lemma nir_build_alu_eq:
  "nir_build_alu bld opc srcs =
     (\<lparr>index = ssa_alloc bld,
       num_components = nir_op_output_size opc (map num_components srcs),
       bit_size = nir_op_bit_size opc (map bit_size srcs)\<rparr>,
      bld\<lparr>ssa_alloc := Suc (ssa_alloc bld),
          instrs_before := instrs_before bld @
            [Alu opc \<lparr>index = ssa_alloc bld,
                       num_components = nir_op_output_size opc (map num_components srcs),
                       bit_size = nir_op_bit_size opc (map bit_size srcs)\<rparr>
               (map (alu_src_for (nir_op_input_size opc (nir_op_output_size opc (map num_components srcs)))) srcs)]\<rparr>)"
  by (simp add: nir_build_alu_def nir_ssa_dest_init_def nir_builder_instr_insert_def Let_def)

lemma nir_channel_eq:
  "nir_channel bld d c =
     (\<lparr>index = ssa_alloc bld, num_components = 1, bit_size = bit_size d\<rparr>,
      bld\<lparr>ssa_alloc := Suc (ssa_alloc bld),
          instrs_before := instrs_before bld @
            [Alu nir_op_mov \<lparr>index = ssa_alloc bld, num_components = 1, bit_size = bit_size d\<rparr>
               [(Src_ssa d, [c])]]\<rparr>)"
  by (simp add: nir_channel_def nir_ssa_dest_init_def nir_builder_instr_insert_def)

lemmas prim_eqs = nir_build_imm_eq nir_build_alu_eq nir_channel_eq
  nir_fadd_def nir_fmul_def nir_fdiv_def nir_frcp_def nir_fdot4_def nir_i2f32_def nir_vec_def
  nir_vec4_def nir_imm_float_def nir_imm_int_def

lemmas op_defs = nir_op_output_size_def nir_op_input_size_def nir_op_bit_size_def alu_src_for_def

text \<open>
  A builder call emits: it appends instructions at the cursor, each defining a value whose
  index is allocated by the call, and changes nothing else.
\<close>

lemma fresh_instrs_append [simp]:
  "fresh_instrs lo hi (xs @ ys) \<longleftrightarrow> fresh_instrs lo hi xs \<and> fresh_instrs lo hi ys"
  by (auto simp: fresh_instrs_def)

lemma fresh_instrs_mono: "fresh_instrs lo hi xs \<Longrightarrow> lo' \<le> lo \<Longrightarrow> hi \<le> hi' \<Longrightarrow> fresh_instrs lo' hi' xs"
  by (fastforce simp: fresh_instrs_def)

lemma emits_inserted:
  "emits bld bld' \<Longrightarrow> instrs_before bld' = instrs_before bld @ inserted bld bld'"
  by (auto simp: emits_def inserted_def)

lemma emits_fresh:
  "emits bld bld' \<Longrightarrow> fresh_instrs (ssa_alloc bld) (ssa_alloc bld') (inserted bld bld')"
  by (auto simp: emits_def inserted_def)

lemma emits_refl [simp]: "emits bld bld"
  by (simp add: emits_def fresh_instrs_def)

lemma emits_trans:
  assumes "emits bld bld'" "emits bld' bld''"
  shows "emits bld bld''"
proof -
  from assms(1) obtain n1 where
    a: "instrs_before bld' = instrs_before bld @ n1" "fresh_instrs (ssa_alloc bld) (ssa_alloc bld') n1"
    unfolding emits_def by blast
  from assms(2) obtain n2 where
    b: "instrs_before bld'' = instrs_before bld' @ n2" "fresh_instrs (ssa_alloc bld') (ssa_alloc bld'') n2"
    unfolding emits_def by blast
  have le: "ssa_alloc bld \<le> ssa_alloc bld'" "ssa_alloc bld' \<le> ssa_alloc bld''"
    using assms by (simp_all add: emits_def)
  have "instrs_before bld'' = instrs_before bld @ (n1 @ n2)"
    using a b by simp
  moreover have "fresh_instrs (ssa_alloc bld) (ssa_alloc bld'') (n1 @ n2)"
    using a b le by (auto intro: fresh_instrs_mono)
  ultimately have "\<exists>new. instrs_before bld'' = instrs_before bld @ new \<and>
      fresh_instrs (ssa_alloc bld) (ssa_alloc bld'') new"
    by blast
  then show ?thesis
    using assms le by (simp add: emits_def)
qed

lemma inserted_trans:
  assumes "emits bld bld'" "emits bld' bld''"
  shows "inserted bld bld'' = inserted bld bld' @ inserted bld' bld''"
proof -
  from assms(1) obtain n1 where a: "instrs_before bld' = instrs_before bld @ n1"
    unfolding emits_def by blast
  from assms(2) obtain n2 where b: "instrs_before bld'' = instrs_before bld' @ n2"
    unfolding emits_def by blast
  show ?thesis by (simp add: inserted_def a b)
qed

lemma emits_single:
  assumes "instr_def i = Some d" "index d = ssa_alloc bld"
  shows "emits bld (bld\<lparr>ssa_alloc := Suc (ssa_alloc bld), instrs_before := instrs_before bld @ [i]\<rparr>)"
  using assms by (simp add: emits_def fresh_instrs_def)

lemma emits_build_imm: "emits bld (snd (nir_build_imm bld n bits vs))"
  by (simp add: nir_build_imm_eq emits_single)

lemma emits_build_alu: "emits bld (snd (nir_build_alu bld opc srcs))"
  by (simp add: nir_build_alu_eq emits_single)

lemma emits_channel: "emits bld (snd (nir_channel bld d c))"
  by (simp add: nir_channel_eq emits_single)

lemma exec_instrs_append: "exec_instrs texture (xs @ ys) e = exec_instrs texture ys (exec_instrs texture xs e)"
  by (simp add: exec_instrs_def)

lemma exec_instr_frame:
  "(\<And>d. instr_def i = Some d \<Longrightarrow> index d \<noteq> k) \<Longrightarrow> exec_instr texture e i k = e k"
  by (cases i) auto

lemma exec_instrs_frame:
  "fresh_instrs lo hi new \<Longrightarrow> k < lo \<Longrightarrow> exec_instrs texture new e k = e k"
proof (induction new arbitrary: e)
  case Nil
  then show ?case by (simp add: exec_instrs_def)
next
  case (Cons i new)
  have "exec_instrs texture (i # new) e k = exec_instrs texture new (exec_instr texture e i) k"
    by (simp add: exec_instrs_def)
  also have "\<dots> = exec_instr texture e i k"
    using Cons by (simp add: fresh_instrs_def)
  also have "\<dots> = e k"
    using Cons.prems by (intro exec_instr_frame) (auto simp: fresh_instrs_def)
  finally show ?case .
qed

lemma emits_frame:
  "emits bld bld' \<Longrightarrow> k < ssa_alloc bld \<Longrightarrow> exec_instrs texture (inserted bld bld') e k = e k"
  using emits_fresh[of bld bld'] by (auto intro: exec_instrs_frame)

lemma pow2_nonzero [simp]: "pow2 n \<noteq> 0"
  by (simp add: pow2_def)

lemma pow2_int [simp]: "pow2 (int n) = 2 ^ n"
  by (simp add: pow2_def)

lemma y_range_value:
  assumes "index y < ssa_alloc bld" "num_components y = 1"
  shows "exec_instrs texture (inserted bld (snd (y_range bld y (int bits) rng))) e (index (fst (y_range bld y (int bits) rng))) =
     (case rng of VK_SAMPLER_YCBCR_RANGE_ITU_FULL \<Rightarrow> e (index y) | _ \<Rightarrow> [expanded_luma rng bits (e (index y) ! 0)])"
  using assms
  apply (cases rng)
   apply (simp_all add: y_range_def prim_eqs op_defs inserted_def exec_instrs_def expanded_luma_def)
  apply (simp add: pow2_def[symmetric] divide_simps)
  done

lemma chroma_range_value:
  assumes "index c < ssa_alloc bld" "num_components c = 1"
  shows "exec_instrs texture (inserted bld (snd (chroma_range bld c (int bits) rng))) e (index (fst (chroma_range bld c (int bits) rng))) =
     [expanded_chroma rng bits (e (index c) ! 0)]"
  using assms
  apply (cases rng)
   apply (simp_all add: chroma_range_def prim_eqs op_defs inserted_def exec_instrs_def expanded_chroma_def)
  apply (simp_all add: pow2_def[symmetric] divide_simps)
  done

lemma emits_y_range: "emits bld (snd (y_range bld y bpc rng))"
  by (cases rng) (simp_all add: y_range_def prim_eqs emits_def fresh_instrs_def)

lemma emits_chroma_range: "emits bld (snd (chroma_range bld y bpc rng))"
  by (cases rng) (simp_all add: chroma_range_def prim_eqs emits_def fresh_instrs_def)

lemma upt_0_4: "[0..<4] = [0, 1, 2, 3]"
  by (simp add: upt_rec)

lemma convert_ycbcr_spec:
  assumes "index raw < ssa_alloc bld"
  shows "case convert_ycbcr state bld raw bits of
           Inl err \<Rightarrow> ycbcr_model (conversion state) = VK_SAMPLER_YCBCR_MODEL_CONVERSION_RGB_IDENTITY
         | Inr (res, bld') \<Rightarrow>
             ycbcr_model (conversion state) \<noteq> VK_SAMPLER_YCBCR_MODEL_CONVERSION_RGB_IDENTITY \<and>
             emits bld bld' \<and> index res < ssa_alloc bld' \<and> num_components res = 4 \<and>
             (\<forall>texture e. exec_instrs texture (inserted bld bld') e (index res) =
                converted (ycbcr_model (conversion state))
                  (expanded (ycbcr_range (conversion state)) bits (e (index raw))))"
  using assms
  apply (cases "ycbcr_range (conversion state)"; cases "ycbcr_model (conversion state)")
  apply (simp_all add: convert_ycbcr_def y_range_def chroma_range_def ycbcr_model_to_rgb_matrix_def
       prim_eqs op_defs upt_0_4 emits_def fresh_instrs_def
       inserted_def exec_instrs_def expanded_def expanded_luma_def expanded_chroma_def converted_def
       dot4_def bt601_def bt709_def bt2020_def)
  apply (simp_all add: pow2_def[symmetric] divide_simps)
  done

lemma size_queries_simps [simp]:
  "size_queries [] = 0"
  "size_queries (xs @ ys) = size_queries xs + size_queries ys"
  "size_queries (Alu opc d srcs # xs) = size_queries xs"
  "size_queries (Load_const d vs # xs) = size_queries xs"
  "size_queries (Tex t # xs) = (if op t = nir_texop_txs then 1 else 0) + size_queries xs"
  by (simp_all add: size_queries_def is_size_query_def)

lemma size_query_simps [simp]:
  "op (size_query texture k) = nir_texop_txs"
  "index (dest (size_query texture k)) = k"
  "bit_size (dest (size_query texture k)) = 32"
  "num_components (dest (size_query texture k)) = size_components texture"
  by (simp_all add: size_query_def Let_def size_components_def nir_tex_instr_dest_size_def nir_tex_instr_create_def)

lemma get_texture_size_eq:
  "get_texture_size state bld texture =
     (\<lparr>index = Suc (ssa_alloc bld), num_components = size_components texture, bit_size = 32\<rparr>,
      bld\<lparr>ssa_alloc := Suc (Suc (ssa_alloc bld)),
          instrs_before := instrs_before bld @
            [Tex (size_query texture (ssa_alloc bld)),
             Alu nir_op_i2f32
               \<lparr>index = Suc (ssa_alloc bld), num_components = size_components texture, bit_size = 32\<rparr>
               [alu_src_for (size_components texture) (dest (size_query texture (ssa_alloc bld)))]]\<rparr>)"
  by (simp add: get_texture_size_def size_query_def Let_def nir_ssa_dest_init_def
      nir_builder_instr_insert_def nir_i2f32_def nir_build_alu_eq nir_op_output_size_def
      nir_op_input_size_def nir_op_bit_size_def size_components_def nir_tex_instr_dest_size_def
      nir_tex_instr_create_def)

lemma replicate_last_nth: "length sz = n \<Longrightarrow> map (\<lambda>k. sz ! min k (n - Suc 0)) [0..<n] = sz"
  by (rule nth_equalityI) (auto simp: min_def)

lemma src_value_size [simp]:
  "e (index d) = sz \<Longrightarrow> length sz = n \<Longrightarrow> num_components d = n \<Longrightarrow> src_value e (alu_src_for n d) = sz"
  by (simp add: alu_src_for_def replicate_last_nth o_def)

lemma loop_single_spec:
  assumes "index old < ssa_alloc bld" "below img (ssa_alloc bld)"
  shows "case implicit_downsampled_coords_loop state old [c] (img, comps, bld) of (img', comps', bld') \<Rightarrow>
     emits bld bld' \<and> ssa_alloc bld < ssa_alloc bld' \<and> below img' (ssa_alloc bld') \<and>
     (img' = None \<longrightarrow> img = None) \<and>
     (\<exists>v. comps' = comps @ [v] \<and> index v < ssa_alloc bld' \<and> num_components v = 1 \<and>
        (\<forall>tf e. size_oracle tf (tex_deref state) sz \<longrightarrow> size_known img e sz \<longrightarrow>
            size_known img' (exec_instrs tf (inserted bld bld') e) sz \<and>
            exec_instrs tf (inserted bld bld') e (index v) = [adjusted_coord (conversion state) sz (e (index old)) c])) \<and>
     size_queries (inserted bld bld') = (if adjusts (conversion state) c \<and> img = None then 1 else 0)"
  using assms
  apply (cases img; cases "adjusts (conversion state) c")
  apply (simp_all add: adjusts_def)
  apply (simp_all add: get_texture_size_eq implicit_downsampled_coord_def nir_channel_eq nir_build_imm_eq nir_build_alu_eq
       nir_fadd_def nir_fmul_def nir_fdiv_def nir_imm_float_def
       nir_op_output_size_def nir_op_input_size_def nir_op_bit_size_def
       emits_def fresh_instrs_def below_def inserted_def exec_instrs_def size_oracle_def size_known_def adjusted_coord_def adjusts_def)
   apply auto
  done

subsection \<open>Evaluating the model on the examples\<close>

lemmas example_defs = example_deref_def example_coord_def example_tex_def example_builder_def
  example_conversion_def example_state_def example_layout_def

lemmas model_defs =
  get_texture_size_eq implicit_downsampled_coord_def implicit_downsampled_coords_def
  create_plane_tex_instr_implicit_def nir_tex_instr_create_def NIR_SRC_INIT_def
  nir_ssa_dest_init_def nir_builder_instr_insert_def prim_eqs op_defs
  get_plane_swizzles_def vk_format_get_plane_count_def vk_format_compose_swizzles_def radv_swizzle_conv_def
  build_swizzled_components_def lowered_result_def convert_ycbcr_def y_range_def chroma_range_def
  ycbcr_model_to_rgb_matrix_def vk_format_get_component_bits_def vk_format_get_plane_format_def
  divisors_def chroma_offset_def size_components_def nir_tex_instr_dest_size_def

lemmas resolve_defs = resolve_ycbcr_sampler_def nir_tex_instr_src_index_def nir_src_as_deref_def
  parent_instr_def all_instrs_def is_def_of_def nir_deref_instr_get_variable_def
  radv_immutable_ycbcr_samplers_def nir_src_as_const_value_def

lemma upt_small: "[0..<3] = [0, 1, 2]" "[0..<2] = [0, 1]"
  by (simp_all add: upt_rec)

lemma example_resolve:
  "resolve_ycbcr_sampler (example_layout cv) example_builder example_tex = Inr (Some (example_deref, cv))"
  by (simp add: resolve_defs example_defs)

lemma convert_ycbcr_identity_no_dot:
  assumes "ycbcr_model (conversion state) = VK_SAMPLER_YCBCR_MODEL_CONVERSION_YCBCR_IDENTITY"
  shows "case convert_ycbcr state bld raw bits of
           Inl err \<Rightarrow> False
         | Inr (res, bld') \<Rightarrow> filter (is_alu nir_op_fdot4) (inserted bld bld') = []"
  using assms
  by (cases "ycbcr_range (conversion state)")
     (simp_all add: convert_ycbcr_def y_range_def chroma_range_def prim_eqs op_defs inserted_def is_alu_def)

lemma swizzle_channel_less: "s \<noteq> VK_SWIZZLE_0 \<Longrightarrow> s \<noteq> VK_SWIZZLE_1 \<Longrightarrow> swizzle_channel s < 4"
  by (cases s) simp_all

lemma exec_inserted_trans:
  "emits bld bld1 \<Longrightarrow> emits bld1 bld' \<Longrightarrow>
     exec_instrs texture (inserted bld bld') e =
       exec_instrs texture (inserted bld1 bld') (exec_instrs texture (inserted bld bld1) e)"
  using inserted_trans[of bld bld1 bld'] by (simp add: exec_instrs_append)

lemma emits_alloc_le: "emits bld bld' \<Longrightarrow> ssa_alloc bld \<le> ssa_alloc bld'"
  by (simp add: emits_def)

lemma build_swizzled_values_spec:
  assumes "index zero < ssa_alloc bld" "index one < ssa_alloc bld"
    and "\<And>ch. ch < 4 \<Longrightarrow> index (pv ! (plane ps ! ch)) < ssa_alloc bld"
    and "num_components zero = 1" "num_components one = 1"
  shows "case build_swizzled_values ps pv zero one bld sws of
           (vs, bld') \<Rightarrow>
             emits bld bld' \<and> length vs = length sws \<and>
             (\<forall>v\<in>set vs. index v < ssa_alloc bld' \<and> num_components v = 1) \<and>
             (\<forall>texture e. map (\<lambda>v. exec_instrs texture (inserted bld bld') e (index v) ! 0) vs =
                           map (selected ps pv zero one e) sws)"
  using assms(1-3)
proof (induction sws arbitrary: bld)
  case Nil
  show ?case by (simp add: inserted_def)
next
  case (Cons s sws)
  define step where "step =
     (if s = VK_SWIZZLE_0 then (zero, bld)
      else if s = VK_SWIZZLE_1 then (one, bld)
      else nir_channel bld (pv ! (plane ps ! swizzle_channel s)) (swizzle ps ! swizzle_channel s))"
  obtain v bld1 where st: "step = (v, bld1)" by (cases step)
  have em1: "emits bld bld1"
    using st emits_channel[of bld "pv ! (plane ps ! swizzle_channel s)" "swizzle ps ! swizzle_channel s"]
    by (auto simp: step_def split: if_splits)
  have v1: "index v < ssa_alloc bld1" "num_components v = 1"
    using st Cons.prems(1,2) assms(4,5) by (auto simp: step_def nir_channel_eq split: if_splits)
  have val1: "exec_instrs texture (inserted bld bld1) e (index v) ! 0 = selected ps pv zero one e s"
    for texture e
    using st Cons.prems(3)[OF swizzle_channel_less[of s]]
    by (auto simp: step_def nir_channel_eq selected_def inserted_def exec_instrs_def split: if_splits)
  obtain vs bld' where rec: "build_swizzled_values ps pv zero one bld1 sws = (vs, bld')"
    by (cases "build_swizzled_values ps pv zero one bld1 sws")
  have le: "ssa_alloc bld \<le> ssa_alloc bld1" using em1 by (rule emits_alloc_le)
  have ih: "emits bld1 bld' \<and> length vs = length sws \<and>
             (\<forall>v\<in>set vs. index v < ssa_alloc bld' \<and> num_components v = 1) \<and>
             (\<forall>texture e. map (\<lambda>v. exec_instrs texture (inserted bld1 bld') e (index v) ! 0) vs =
                           map (selected ps pv zero one e) sws)"
  proof -
    have p1: "index zero < ssa_alloc bld1" "index one < ssa_alloc bld1"
      using Cons.prems(1,2) le by simp_all
    have p3: "index (pv ! (plane ps ! ch)) < ssa_alloc bld1" if "ch < 4" for ch
      using Cons.prems(3)[OF that] le by simp
    show ?thesis
      using Cons.IH[of bld1, OF p1 p3] rec by simp
  qed
  have res: "build_swizzled_values ps pv zero one bld (s # sws) = (v # vs, bld')"
    using st rec by (auto simp: step_def Let_def split: if_splits)
  have em: "emits bld bld'" using em1 ih by (blast intro: emits_trans)
  have sel_frame: "selected ps pv zero one (exec_instrs texture (inserted bld bld1) e) s' =
      selected ps pv zero one e s'" for texture e s'
    using Cons.prems emits_frame[OF em1] swizzle_channel_less[of s']
    by (simp add: selected_def)
  have "exec_instrs texture (inserted bld bld') e (index v) ! 0 = selected ps pv zero one e s"
    for texture e
    using exec_inserted_trans[OF em1 conjunct1[OF ih]] emits_frame[OF conjunct1[OF ih] v1(1)] val1
    by simp
  moreover have "map (\<lambda>v. exec_instrs texture (inserted bld bld') e (index v) ! 0) vs =
                           map (selected ps pv zero one e) sws" for texture e
    using exec_inserted_trans[OF em1 conjunct1[OF ih], of texture e] ih sel_frame
    by simp
  moreover have "\<forall>v\<in>set (v # vs). index v < ssa_alloc bld' \<and> num_components v = 1"
    using v1 ih emits_alloc_le[of bld1 bld'] by auto
  ultimately show ?case
    using res em ih by simp
qed

lemma less_4_cases: "ch < (4::nat) \<Longrightarrow> ch = 0 \<or> ch = 1 \<or> ch = 2 \<or> ch = 3"
  by arith

lemma get_plane_swizzles_routing:
  assumes "vk_format_get_plane_count fmt = 1 \<or> vk_format_get_plane_count fmt = 2 \<or>
           vk_format_get_plane_count fmt = 3"
  shows "case get_plane_swizzles fmt of
           Inl err \<Rightarrow> False
         | Inr ps \<Rightarrow> (\<forall>ch<4. routing (vk_format_get_plane_count fmt) ! ch = (plane ps ! ch, swizzle ps ! ch) \<and>
                               int (plane ps ! ch) < vk_format_get_plane_count fmt)"
  using assms
  by (auto simp: get_plane_swizzles_def routing_def dest!: less_4_cases)

lemma src_value_scalar [simp]: "src_value e (alu_src_for (Suc 0) v) = [e (index v) ! 0]"
  by (simp add: alu_src_for_def)

lemma concat_scalars: "concat (map (\<lambda>v. [f v]) vs) = map f vs"
  by (induction vs) simp_all

lemma build_swizzled_components_spec:
  assumes pc: "vk_format_get_plane_count fmt = 1 \<or> vk_format_get_plane_count fmt = 2 \<or>
           vk_format_get_plane_count fmt = 3"
    and len: "int (length pv) = vk_format_get_plane_count fmt"
    and old: "\<forall>d\<in>set pv. index d < ssa_alloc bld"
  shows "case build_swizzled_components bld fmt mapping pv of
           Inl err \<Rightarrow> False
         | Inr (res, bld') \<Rightarrow>
             emits bld bld' \<and> index res < ssa_alloc bld' \<and> num_components res = 4 \<and>
             (\<forall>texture e. exec_instrs texture (inserted bld bld') e (index res) =
                swizzled (vk_format_compose_swizzles mapping)
                  (routed (vk_format_get_plane_count fmt) (map (\<lambda>d. e (index d)) pv)))"
proof -
  obtain ps where ps: "get_plane_swizzles fmt = Inr ps"
    and both: "\<forall>ch<4. routing (vk_format_get_plane_count fmt) ! ch = (plane ps ! ch, swizzle ps ! ch) \<and>
                               int (plane ps ! ch) < vk_format_get_plane_count fmt"
    using get_plane_swizzles_routing[OF pc] by (auto split: sum.splits)
  have rt: "routing (vk_format_get_plane_count fmt) ! ch = (plane ps ! ch, swizzle ps ! ch)"
    if "ch < 4" for ch
    using both that by blast
  have pl: "plane ps ! ch < length pv" if "ch < 4" for ch
  proof -
    have "int (plane ps ! ch) < int (length pv)" using both that len by simp
    then show ?thesis by simp
  qed
  define zero where "zero = \<lparr>index = ssa_alloc bld, num_components = 1, bit_size = 32\<rparr>"
  define one where "one = \<lparr>index = Suc (ssa_alloc bld), num_components = 1, bit_size = 32\<rparr>"
  define bld2 where "bld2 = bld\<lparr>ssa_alloc := Suc (Suc (ssa_alloc bld)),
      instrs_before := instrs_before bld @ [Load_const zero [Const_float 0], Load_const one [Const_float 1]]\<rparr>"
  define sws where "sws = vk_format_compose_swizzles mapping"
  have len_sws: "length sws = 4" by (simp add: sws_def vk_format_compose_swizzles_def)
  have em2: "emits bld bld2"
    by (simp add: bld2_def emits_def fresh_instrs_def zero_def one_def)
  have ins2: "inserted bld bld2 = [Load_const zero [Const_float 0], Load_const one [Const_float 1]]"
    by (simp add: bld2_def inserted_def)
  obtain vs bldL where loop: "build_swizzled_values ps pv zero one bld2 sws = (vs, bldL)"
    by (cases "build_swizzled_values ps pv zero one bld2 sws")
  have a2: "ssa_alloc bld2 = Suc (Suc (ssa_alloc bld))" by (simp add: bld2_def)
  have pidx: "index (pv ! (plane ps ! ch)) < ssa_alloc bld" if "ch < 4" for ch
    using old pl[OF that] by simp
  have L: "emits bld2 bldL \<and> length vs = length sws \<and>
             (\<forall>v\<in>set vs. index v < ssa_alloc bldL \<and> num_components v = 1) \<and>
             (\<forall>texture e. map (\<lambda>v. exec_instrs texture (inserted bld2 bldL) e (index v) ! 0) vs =
                           map (selected ps pv zero one e) sws)"
    using build_swizzled_values_spec[of zero bld2 one pv ps sws] loop pidx
    by (simp add: a2 zero_def one_def less_SucI)
  define res where "res = \<lparr>index = ssa_alloc bldL, num_components = 4, bit_size = nir_op_bit_size (nir_op_vec 4) (map bit_size vs)\<rparr>"
  define bld' where "bld' = bldL\<lparr>ssa_alloc := Suc (ssa_alloc bldL),
      instrs_before := instrs_before bldL @ [Alu (nir_op_vec 4) res (map (alu_src_for 1) vs)]\<rparr>"
  have lvs: "length vs = 4" using L len_sws by simp
  have bsc: "build_swizzled_components bld fmt mapping pv = Inr (res, bld')"
    using ps loop lvs
    by (simp add: build_swizzled_components_def nir_imm_float_def nir_build_imm_eq nir_vec_def
        nir_build_alu_eq nir_op_output_size_def nir_op_input_size_def zero_def one_def bld2_def
        sws_def res_def bld'_def)
  have emL: "emits bldL bld'"
    by (simp add: bld'_def emits_def fresh_instrs_def res_def)
  have insL: "inserted bldL bld' = [Alu (nir_op_vec 4) res (map (alu_src_for 1) vs)]"
    by (simp add: bld'_def inserted_def)
  have em: "emits bld bld'" using em2 L emL by (blast intro: emits_trans)
  have em2': "emits bld2 bld'" using L emL by (blast intro: emits_trans)
  have val: "exec_instrs texture (inserted bld bld') e (index res) =
                swizzled sws (routed (vk_format_get_plane_count fmt) (map (\<lambda>d. e (index d)) pv))"
    for texture e
  proof -
    define e2 where "e2 = exec_instrs texture (inserted bld bld2) e"
    define eL where "eL = exec_instrs texture (inserted bld2 bldL) e2"
    have "exec_instrs texture (inserted bld bld') e = exec_instrs texture (inserted bld2 bld') e2"
      using exec_inserted_trans[OF em2 em2'] by (simp add: e2_def)
    also have "\<dots> = exec_instrs texture (inserted bldL bld') eL"
      using exec_inserted_trans[OF conjunct1[OF L] emL] by (simp add: eL_def)
    finally have "exec_instrs texture (inserted bld bld') e (index res) =
        map (\<lambda>v. eL (index v) ! 0) vs"
      by (simp add: insL exec_instrs_def o_def concat_scalars)
    also have "\<dots> = map (selected ps pv zero one e2) sws"
      using L by (simp add: eL_def)
    also have "\<dots> = swizzled sws (routed (vk_format_get_plane_count fmt) (map (\<lambda>d. e (index d)) pv))"
    proof -
      have z: "e2 (index zero) = [0]" "e2 (index one) = [1]"
        by (simp_all add: e2_def ins2 exec_instrs_def zero_def one_def)
      have p: "e2 (index (pv ! (plane ps ! ch))) = e (index (pv ! (plane ps ! ch)))" if "ch < 4" for ch
        unfolding e2_def using emits_frame[OF em2 pidx[OF that]] by simp
      have "selected ps pv zero one e2 s =
          (if s = VK_SWIZZLE_0 then 0 else if s = VK_SWIZZLE_1 then 1
           else routed (vk_format_get_plane_count fmt) (map (\<lambda>d. e (index d)) pv) ! swizzle_channel s)" for s
      proof (cases "s = VK_SWIZZLE_0 \<or> s = VK_SWIZZLE_1")
        case True
        then show ?thesis using z by (auto simp: selected_def)
      next
        case False
        then have c: "swizzle_channel s < 4" by (simp add: swizzle_channel_less)
        have lr: "length (routing (vk_format_get_plane_count fmt)) = 4"
          by (simp add: routing_def)
        show ?thesis
          using False p[OF c] rt[OF c] pl[OF c] c lr
          by (simp add: selected_def routed_def)
      qed
      then show ?thesis by (simp add: swizzled_def)
    qed
    finally show ?thesis .
  qed
  show ?thesis
    using bsc em val by (simp add: res_def bld'_def sws_def)
qed

lemma loop_Cons:
  "implicit_downsampled_coords_loop state old (c # cs) acc =
     implicit_downsampled_coords_loop state old cs (implicit_downsampled_coords_loop state old [c] acc)"
  by (cases acc) (auto simp: Let_def split: prod.splits option.splits)

lemma size_known_frame:
  "emits bld bld' \<Longrightarrow> below img (ssa_alloc bld) \<Longrightarrow>
     size_known img (exec_instrs tf (inserted bld bld') e) sz = size_known img e sz"
  by (cases img) (simp_all add: size_known_def below_def emits_frame)

lemma loop_spec:
  assumes "index old < ssa_alloc bld" "below img (ssa_alloc bld)"
  shows "case implicit_downsampled_coords_loop state old cs (img, comps, bld) of
           (img', comps', bld') \<Rightarrow>
             emits bld bld' \<and> below img' (ssa_alloc bld') \<and>
             length comps' = length comps + length cs \<and> take (length comps) comps' = comps \<and>
             (\<forall>v\<in>set (drop (length comps) comps'). index v < ssa_alloc bld' \<and> num_components v = 1) \<and>
             (\<forall>tf e. size_oracle tf (tex_deref state) sz \<longrightarrow> size_known img e sz \<longrightarrow>
                size_known img' (exec_instrs tf (inserted bld bld') e) sz \<and>
                map (\<lambda>v. exec_instrs tf (inserted bld bld') e (index v)) (drop (length comps) comps') =
                  map (\<lambda>c. [adjusted_coord (conversion state) sz (e (index old)) c]) cs)"
  using assms
proof (induction cs arbitrary: img comps bld)
  case Nil
  show ?case using Nil by (simp add: inserted_def exec_instrs_def)
next
  case (Cons c cs)
  obtain img1 comps1 bld1 where one:
    "implicit_downsampled_coords_loop state old [c] (img, comps, bld) = (img1, comps1, bld1)"
    by (cases "implicit_downsampled_coords_loop state old [c] (img, comps, bld)")
  from loop_single_spec[OF Cons.prems, where state = state and c = c and comps = comps and sz = sz] one
  obtain v where s1: "emits bld bld1" "below img1 (ssa_alloc bld1)"
    and c1: "comps1 = comps @ [v]" "index v < ssa_alloc bld1" "num_components v = 1"
    and v1: "\<And>tf e. size_oracle tf (tex_deref state) sz \<Longrightarrow> size_known img e sz \<Longrightarrow>
            size_known img1 (exec_instrs tf (inserted bld bld1) e) sz \<and>
            exec_instrs tf (inserted bld bld1) e (index v) = [adjusted_coord (conversion state) sz (e (index old)) c]"
    by auto
  obtain img' comps' bld' where rest:
    "implicit_downsampled_coords_loop state old cs (img1, comps1, bld1) = (img', comps', bld')"
    by (cases "implicit_downsampled_coords_loop state old cs (img1, comps1, bld1)")
  have old1: "index old < ssa_alloc bld1"
    using Cons.prems(1) s1(1) by (simp add: emits_def)
  from Cons.IH[OF old1 s1(2), where comps = comps1] rest
  have ih: "emits bld1 bld'" "below img' (ssa_alloc bld')"
    "length comps' = length comps1 + length cs" "take (length comps1) comps' = comps1"
    "\<forall>v\<in>set (drop (length comps1) comps'). index v < ssa_alloc bld' \<and> num_components v = 1"
    and ihv: "\<And>tf e. size_oracle tf (tex_deref state) sz \<Longrightarrow> size_known img1 e sz \<Longrightarrow>
                size_known img' (exec_instrs tf (inserted bld1 bld') e) sz \<and>
                map (\<lambda>v. exec_instrs tf (inserted bld1 bld') e (index v)) (drop (length comps1) comps') =
                  map (\<lambda>c. [adjusted_coord (conversion state) sz (e (index old)) c]) cs"
    by auto
  have all: "implicit_downsampled_coords_loop state old (c # cs) (img, comps, bld) = (img', comps', bld')"
    by (subst loop_Cons) (simp only: one rest)
  have em: "emits bld bld'" using s1(1) ih(1) by (rule emits_trans)
  have l1: "length comps1 = Suc (length comps)" using c1(1) by simp
  have tk: "take (length comps) comps' = comps"
  proof -
    have "take (length comps) comps' = take (length comps) (take (length comps1) comps')"
      by (simp add: l1 min_def)
    also have "\<dots> = comps" by (subst ih(4)) (simp add: c1(1))
    finally show ?thesis .
  qed
  have nth: "comps' ! length comps = v"
  proof -
    have "comps' ! length comps = take (length comps1) comps' ! length comps"
      by (simp add: l1)
    also have "\<dots> = v" by (subst ih(4)) (simp add: c1(1))
    finally show ?thesis .
  qed
  have dr: "drop (length comps) comps' = v # drop (length comps1) comps'"
  proof -
    have "length comps < length comps'" using ih(3) l1 by simp
    then have "drop (length comps) comps' = comps' ! length comps # drop (Suc (length comps)) comps'"
      by (rule Cons_nth_drop_Suc[symmetric])
    then show ?thesis by (simp add: nth l1)
  qed
  have vb: "index v < ssa_alloc bld'" using c1(2) ih(1) by (simp add: emits_def)
  have vals: "size_known img' (exec_instrs tf (inserted bld bld') e) sz \<and>
                map (\<lambda>v. exec_instrs tf (inserted bld bld') e (index v)) (drop (length comps) comps') =
                  map (\<lambda>c. [adjusted_coord (conversion state) sz (e (index old)) c]) (c # cs)"
    if o: "size_oracle tf (tex_deref state) sz" and k: "size_known img e sz" for tf e
  proof -
    define e1 where "e1 = exec_instrs tf (inserted bld bld1) e"
    have comp: "exec_instrs tf (inserted bld bld') e = exec_instrs tf (inserted bld1 bld') e1"
      using exec_inserted_trans[OF s1(1) ih(1)] by (simp add: e1_def)
    have k1: "size_known img1 e1 sz" and hv: "e1 (index v) = [adjusted_coord (conversion state) sz (e (index old)) c]"
      using v1[OF o k] by (simp_all add: e1_def)
    have eo: "e1 (index old) = e (index old)"
      unfolding e1_def using emits_frame[OF s1(1) Cons.prems(1)] by simp
    have "exec_instrs tf (inserted bld1 bld') e1 (index v) = e1 (index v)"
      using emits_frame[OF ih(1) c1(2)] by simp
    then show ?thesis
      using ihv[OF o k1] hv eo by (simp add: comp dr)
  qed
  show ?case
    using all em ih(2,3,5) tk l1 vb c1(3) vals by (simp add: dr)
qed

lemma implicit_downsampled_coords_spec:
  assumes "index old < ssa_alloc bld"
  shows "case implicit_downsampled_coords state bld old of
           (res, bld') \<Rightarrow>
             emits bld bld' \<and> index res < ssa_alloc bld' \<and> num_components res = num_components old \<and>
             (\<forall>tf e. size_oracle tf (tex_deref state) sz \<longrightarrow>
                exec_instrs tf (inserted bld bld') e (index res) =
                  map (adjusted_coord (conversion state) sz (e (index old))) [0..<num_components old])"
proof -
  define n where "n = num_components old"
  obtain img comps bldL where loop:
    "implicit_downsampled_coords_loop state old [0..<n] (None, [], bld) = (img, comps, bldL)"
    by (cases "implicit_downsampled_coords_loop state old [0..<n] (None, [], bld)")
  from loop_spec[where img = None and state = state and cs = "[0..<n]" and comps = "[]" and sz = sz and old = old and bld = bld] loop
  assms
  have L: "emits bld bldL" "length comps = n"
    "\<forall>v\<in>set comps. index v < ssa_alloc bldL \<and> num_components v = 1"
    and Lv: "\<And>tf e. size_oracle tf (tex_deref state) sz \<Longrightarrow>
                map (\<lambda>v. exec_instrs tf (inserted bld bldL) e (index v)) comps =
                  map (\<lambda>c. [adjusted_coord (conversion state) sz (e (index old)) c]) [0..<n]"
    by (simp_all add: below_def size_known_def)
  define res where "res = \<lparr>index = ssa_alloc bldL, num_components = n,
      bit_size = nir_op_bit_size (nir_op_vec n) (map bit_size comps)\<rparr>"
  define bld' where "bld' = bldL\<lparr>ssa_alloc := Suc (ssa_alloc bldL),
      instrs_before := instrs_before bldL @ [Alu (nir_op_vec n) res (map (alu_src_for 1) comps)]\<rparr>"
  have eq: "implicit_downsampled_coords state bld old = (res, bld')"
    using loop L(2)
    by (simp add: implicit_downsampled_coords_def n_def[symmetric] nir_vec_def nir_build_alu_eq
        nir_op_output_size_def nir_op_input_size_def res_def bld'_def)
  have emL: "emits bldL bld'"
    by (simp add: bld'_def emits_def fresh_instrs_def res_def)
  have insL: "inserted bldL bld' = [Alu (nir_op_vec n) res (map (alu_src_for 1) comps)]"
    by (simp add: bld'_def inserted_def)
  have em: "emits bld bld'" using L(1) emL by (rule emits_trans)
  have val: "exec_instrs tf (inserted bld bld') e (index res) =
                  map (adjusted_coord (conversion state) sz (e (index old))) [0..<n]"
    if o: "size_oracle tf (tex_deref state) sz" for tf e
  proof -
    define eL where "eL = exec_instrs tf (inserted bld bldL) e"
    have "exec_instrs tf (inserted bld bld') e (index res) = map (\<lambda>v. eL (index v) ! 0) comps"
      using exec_inserted_trans[OF L(1) emL, of tf e]
      by (simp add: eL_def insL exec_instrs_def o_def concat_scalars)
    also have "\<dots> = map (\<lambda>x. x ! 0) (map (\<lambda>v. eL (index v)) comps)"
      by (simp add: o_def)
    also have "\<dots> = map (adjusted_coord (conversion state) sz (e (index old))) [0..<n]"
      unfolding eL_def Lv[OF o] by (simp add: o_def)
    finally show ?thesis .
  qed
  show ?thesis
    using eq em val by (simp add: res_def bld'_def n_def)
qed

lemma copy_plane_srcs_plane0: "copy_plane_srcs state 0 bld srcs = Inr (srcs, bld)"
  by (induction srcs) auto

lemma copy_plane_srcs_emits:
  assumes "copy_plane_srcs state p bld srcs = Inr (srcs', bld')"
    and "\<forall>(ty, s)\<in>set srcs. \<forall>d. s = Src_ssa d \<longrightarrow> index d < ssa_alloc bld"
  shows "emits bld bld' \<and> map fst srcs' = map fst srcs"
  using assms
proof (induction srcs arbitrary: bld srcs')
  case Nil
  then show ?case by simp
next
  case (Cons a srcs)
  obtain ty s where a: "a = (ty, s)" by (cases a)
  show ?case
  proof (cases "ty = nir_tex_src_coord \<and> p \<noteq> 0")
    case False
    then obtain rest where r: "copy_plane_srcs state p bld srcs = Inr (rest, bld')" "srcs' = (ty, s) # rest"
      using Cons.prems(1) a by (auto split: sum.splits)
    show ?thesis using Cons.IH[OF r(1)] Cons.prems(2) r(2) a by auto
  next
    case True
    then obtain old where s: "s = Src_ssa old"
      using Cons.prems(1) a by (cases s) auto
    obtain c bld1 where idc: "implicit_downsampled_coords state bld old = (c, bld1)"
      by (cases "implicit_downsampled_coords state bld old")
    have o: "index old < ssa_alloc bld" using Cons.prems(2) a s by auto
    have e1: "emits bld bld1"
      using implicit_downsampled_coords_spec[OF o, where state = state and sz = "[]"] idc by simp
    obtain rest where r: "copy_plane_srcs state p bld1 srcs = Inr (rest, bld')" "srcs' = (ty, Src_ssa c) # rest"
      using Cons.prems(1) a s True idc by (auto split: sum.splits)
    have "\<forall>(ty, s)\<in>set srcs. \<forall>d. s = Src_ssa d \<longrightarrow> index d < ssa_alloc bld1"
      using Cons.prems(2) e1 by (fastforce simp: emits_def)
    from Cons.IH[OF r(1) this] have "emits bld1 bld'" "map fst rest = map fst srcs" by simp_all
    then show ?thesis using e1 r(2) a by (auto intro: emits_trans)
  qed
qed

lemma copy_plane_srcs_succeeds:
  assumes "\<forall>(ty, s)\<in>set srcs. ty = nir_tex_src_coord \<longrightarrow> (\<exists>d. s = Src_ssa d)"
  shows "\<exists>srcs' bld'. copy_plane_srcs state p bld srcs = Inr (srcs', bld')"
  using assms
proof (induction srcs arbitrary: bld)
  case Nil
  then show ?case by simp
next
  case (Cons a srcs)
  obtain ty s where a: "a = (ty, s)" by (cases a)
  show ?case
  proof (cases "ty = nir_tex_src_coord \<and> p \<noteq> 0")
    case False
    obtain rest bld' where "copy_plane_srcs state p bld srcs = Inr (rest, bld')"
      using Cons.IH[of bld] Cons.prems by auto
    then show ?thesis using False a by auto
  next
    case True
    then obtain old where s: "s = Src_ssa old" using Cons.prems a by auto
    obtain c bld1 where idc: "implicit_downsampled_coords state bld old = (c, bld1)"
      by (cases "implicit_downsampled_coords state bld old")
    obtain rest bld' where "copy_plane_srcs state p bld1 srcs = Inr (rest, bld')"
      using Cons.IH[of bld1] Cons.prems by auto
    then show ?thesis using True a s idc by auto
  qed
qed

lemma copy_plane_srcs_coord:
  assumes "copy_plane_srcs state p bld srcs = Inr (srcs', bld')"
    and "\<forall>(ty, s)\<in>set srcs. \<forall>d. s = Src_ssa d \<longrightarrow> index d < ssa_alloc bld"
    and "p \<noteq> 0"
    and "map_of srcs nir_tex_src_coord = Some (Src_ssa old)"
  shows "\<exists>c. map_of srcs' nir_tex_src_coord = Some (Src_ssa c) \<and> index c < ssa_alloc bld' \<and>
             num_components c = num_components old \<and>
             (\<forall>tf e. size_oracle tf (tex_deref state) sz \<longrightarrow>
                exec_instrs tf (inserted bld bld') e (index c) =
                  map (adjusted_coord (conversion state) sz (e (index old))) [0..<num_components old])"
  using assms(1,2,4)
proof (induction srcs arbitrary: bld srcs')
  case Nil
  then show ?case by simp
next
  case (Cons a srcs)
  obtain ty s where a: "a = (ty, s)" by (cases a)
  show ?case
  proof (cases "ty = nir_tex_src_coord")
    case False
    then obtain rest where r: "copy_plane_srcs state p bld srcs = Inr (rest, bld')" "srcs' = (ty, s) # rest"
      using Cons.prems(1) a by (auto split: sum.splits)
    have m: "map_of srcs nir_tex_src_coord = Some (Src_ssa old)"
      using Cons.prems(3) a False by simp
    have b: "\<forall>(ty, s)\<in>set srcs. \<forall>d. s = Src_ssa d \<longrightarrow> index d < ssa_alloc bld"
      using Cons.prems(2) by simp
    show ?thesis using Cons.IH[OF r(1) b m] r(2) False by simp
  next
    case True
    then have s: "s = Src_ssa old" using Cons.prems(3) a by simp
    obtain c bld1 where idc: "implicit_downsampled_coords state bld old = (c, bld1)"
      by (cases "implicit_downsampled_coords state bld old")
    have o: "index old < ssa_alloc bld" using Cons.prems(2) a s by auto
    from implicit_downsampled_coords_spec[OF o, where state = state and sz = sz] idc
    have e1: "emits bld bld1" "index c < ssa_alloc bld1" "num_components c = num_components old"
      and v1: "\<And>tf e. size_oracle tf (tex_deref state) sz \<Longrightarrow>
                exec_instrs tf (inserted bld bld1) e (index c) =
                  map (adjusted_coord (conversion state) sz (e (index old))) [0..<num_components old]"
      by simp_all
    obtain rest where r: "copy_plane_srcs state p bld1 srcs = Inr (rest, bld')" "srcs' = (ty, Src_ssa c) # rest"
      using Cons.prems(1) a s True idc assms(3) by (auto split: sum.splits)
    have b: "\<forall>(ty, s)\<in>set srcs. \<forall>d. s = Src_ssa d \<longrightarrow> index d < ssa_alloc bld1"
      using Cons.prems(2) e1(1) by (fastforce simp: emits_def)
    have e2: "emits bld1 bld'" using copy_plane_srcs_emits[OF r(1) b] by simp
    have "exec_instrs tf (inserted bld bld') e (index c) =
                  map (adjusted_coord (conversion state) sz (e (index old))) [0..<num_components old]"
      if "size_oracle tf (tex_deref state) sz" for tf e
      using exec_inserted_trans[OF e1(1) e2, of tf e] emits_frame[OF e2 e1(2)] v1[OF that]
      by simp
    moreover have "index c < ssa_alloc bld'" using e1(2) e2 by (simp add: emits_def)
    ultimately show ?thesis using r(2) True e1(3) by simp
  qed
qed

lemma create_plane_tex_instr_implicit_eq:
  assumes "copy_plane_srcs state p bld (src (origin_tex state)) = Inr (srcs, bld1)"
  shows "create_plane_tex_instr_implicit state bld p =
     Inr (\<lparr>index = Suc (ssa_alloc bld1), num_components = num_components (dest (origin_tex state)),
            bit_size = bit_size (dest (origin_tex state))\<rparr>,
          bld1\<lparr>ssa_alloc := Suc (Suc (ssa_alloc bld1)),
               instrs_before := instrs_before bld1 @
                 [Load_const \<lparr>index = ssa_alloc bld1, num_components = 1, bit_size = 32\<rparr> [Const_uint (of_nat p)],
                  Tex ((origin_tex state)
                    \<lparr>dest := \<lparr>index = Suc (ssa_alloc bld1),
                              num_components = num_components (dest (origin_tex state)),
                              bit_size = bit_size (dest (origin_tex state))\<rparr>,
                     is_shadow := False,
                     src := srcs @ [(nir_tex_src_plane,
                              Src_ssa \<lparr>index = ssa_alloc bld1, num_components = 1, bit_size = 32\<rparr>)]\<rparr>)]\<rparr>)"
  using assms
  by (simp add: create_plane_tex_instr_implicit_def nir_imm_int_def nir_build_imm_eq
      nir_ssa_dest_init_def nir_builder_instr_insert_def nir_tex_instr_create_def Let_def)

lemma ssa_srcs_below:
  assumes "\<forall>(ty, s)\<in>set srcs. case s of Src_ssa d \<Rightarrow> index d < n | Src_reg _ \<Rightarrow> ty \<noteq> nir_tex_src_coord"
  shows "\<forall>(ty, s)\<in>set srcs. \<forall>d. s = Src_ssa d \<longrightarrow> index d < n"
    and "\<forall>(ty, s)\<in>set srcs. ty = nir_tex_src_coord \<longrightarrow> (\<exists>d. s = Src_ssa d)"
proof -
  show "\<forall>(ty, s)\<in>set srcs. \<forall>d. s = Src_ssa d \<longrightarrow> index d < n"
    using assms by (auto split: nir_src.splits)
  show "\<forall>(ty, s)\<in>set srcs. ty = nir_tex_src_coord \<longrightarrow> (\<exists>d. s = Src_ssa d)"
  proof (clarify)
    fix s assume "(nir_tex_src_coord, s) \<in> set srcs"
    with assms show "\<exists>d. s = Src_ssa d" by (cases s) auto
  qed
qed

lemma grows_refl [simp]: "grows bld bld"
  by (simp add: grows_def)

lemma grows_trans: "grows bld bld1 \<Longrightarrow> grows bld1 bld2 \<Longrightarrow> grows bld bld2"
  by (simp add: grows_def)

lemma emits_grows: "emits bld bld' \<Longrightarrow> grows bld bld'"
  by (simp add: emits_def grows_def)

lemma grows_build_alu: "grows bld (snd (nir_build_alu bld opc srcs))"
  by (rule emits_grows) (rule emits_build_alu)

lemma grows_build_imm: "grows bld (snd (nir_build_imm bld n bits vs))"
  by (rule emits_grows) (rule emits_build_imm)

lemma grows_channel: "grows bld (snd (nir_channel bld d c))"
  by (rule emits_grows) (rule emits_channel)

lemma channel_step:
  "nir_channel b x c = (d, b') \<Longrightarrow>
     grows b b' \<and> ssa_alloc b' = Suc (ssa_alloc b) \<and> index d = ssa_alloc b \<and>
     bit_size d = bit_size x \<and> num_components d = 1"
  by (auto simp: nir_channel_eq grows_def)

lemma alu_step:
  "nir_build_alu b opc srcs = (d, b') \<Longrightarrow>
     grows b b' \<and> ssa_alloc b' = Suc (ssa_alloc b) \<and> index d = ssa_alloc b \<and>
     bit_size d = nir_op_bit_size opc (map bit_size srcs) \<and>
     num_components d = nir_op_output_size opc (map num_components srcs)"
  by (auto simp: nir_build_alu_eq grows_def)

lemma imm_step:
  "nir_build_imm b n bits vs = (d, b') \<Longrightarrow>
     grows b b' \<and> ssa_alloc b' = Suc (ssa_alloc b) \<and> index d = ssa_alloc b \<and>
     bit_size d = bits \<and> num_components d = n"
  by (auto simp: nir_build_imm_eq grows_def)

lemma y_range_step:
  "y_range b y bpc rng = (d, b') \<Longrightarrow> grows b b' \<and> bit_size d = bit_size y"
  by (cases rng) (auto simp: y_range_def prim_eqs op_defs grows_def)

lemma chroma_range_step:
  "chroma_range b y bpc rng = (d, b') \<Longrightarrow>
     grows b b' \<and> bit_size d = bit_size y \<and> ssa_alloc b < ssa_alloc b'"
  by (cases rng) (auto simp: chroma_range_def prim_eqs op_defs grows_def)

lemma convert_ycbcr_cases:
  assumes "convert_ycbcr state bld raw bits = Inr (res, bld')"
  obtains c0 b1 e0 b2 c1 b3 e1 b4 c2 b5 e2 b6 one b7 ex b8 where
    "nir_channel bld raw 0 = (c0, b1)"
    "chroma_range b1 c0 (int bits) (ycbcr_range (conversion state)) = (e0, b2)"
    "nir_channel b2 raw 1 = (c1, b3)"
    "y_range b3 c1 (int bits) (ycbcr_range (conversion state)) = (e1, b4)"
    "nir_channel b4 raw 2 = (c2, b5)"
    "chroma_range b5 c2 (int bits) (ycbcr_range (conversion state)) = (e2, b6)"
    "nir_build_imm b6 1 32 [Const_float 1] = (one, b7)"
    "nir_build_alu b7 (nir_op_vec 4) [e0, e1, e2, one] = (ex, b8)"
    "(res = ex \<and> bld' = b8) \<or>
     (\<exists>v0 v1 v2 m0 a1 d0 a2 m1 a3 d1 a4 m2 a5 d2 a6 one' a7.
        nir_build_imm b8 4 32 v0 = (m0, a1) \<and>
        nir_build_alu a1 nir_op_fdot4 [ex, m0] = (d0, a2) \<and>
        nir_build_imm a2 4 32 v1 = (m1, a3) \<and>
        nir_build_alu a3 nir_op_fdot4 [ex, m1] = (d1, a4) \<and>
        nir_build_imm a4 4 32 v2 = (m2, a5) \<and>
        nir_build_alu a5 nir_op_fdot4 [ex, m2] = (d2, a6) \<and>
        nir_build_imm a6 1 32 [Const_float 1] = (one', a7) \<and>
        nir_build_alu a7 (nir_op_vec 4) [d0, d1, d2, one'] = (res, bld'))"
proof -
  obtain c0 b1 where 1: "nir_channel bld raw 0 = (c0, b1)" by fastforce
  obtain e0 b2 where 2: "chroma_range b1 c0 (int bits) (ycbcr_range (conversion state)) = (e0, b2)" by fastforce
  obtain c1 b3 where 3: "nir_channel b2 raw 1 = (c1, b3)" by fastforce
  obtain e1 b4 where 4: "y_range b3 c1 (int bits) (ycbcr_range (conversion state)) = (e1, b4)" by fastforce
  obtain c2 b5 where 5: "nir_channel b4 raw 2 = (c2, b5)" by fastforce
  obtain e2 b6 where 6: "chroma_range b5 c2 (int bits) (ycbcr_range (conversion state)) = (e2, b6)" by fastforce
  obtain one b7 where 7: "nir_imm_float b6 1 = (one, b7)" by fastforce
  obtain ex b8 where 8: "nir_vec4 b7 e0 e1 e2 one = (ex, b8)" by fastforce
  have r: "(if ycbcr_model (conversion state) = VK_SAMPLER_YCBCR_MODEL_CONVERSION_YCBCR_IDENTITY
         then Inr (ex, b8)
         else
           (case ycbcr_model_to_rgb_matrix (ycbcr_model (conversion state)) of
              Inl e \<Rightarrow> Inl e
            | Inr conversion_matrix \<Rightarrow>
                (let (m0, bld) = nir_build_imm b8 4 32 (map Const_float (conversion_matrix ! 0));
                     (d0, bld) = nir_fdot4 bld ex m0;
                     (m1, bld) = nir_build_imm bld 4 32 (map Const_float (conversion_matrix ! 1));
                     (d1, bld) = nir_fdot4 bld ex m1;
                     (m2, bld) = nir_build_imm bld 4 32 (map Const_float (conversion_matrix ! 2));
                     (d2, bld) = nir_fdot4 bld ex m2;
                     (one, bld) = nir_imm_float bld 1
                 in Inr (nir_vec4 bld d0 d1 d2 one)))) = Inr (res, bld')"
    using assms unfolding convert_ycbcr_def 1 2 3 4 5 6 7 8 Let_def prod.case .
  note 7 = 7[unfolded nir_imm_float_def]
  note 8 = 8[unfolded nir_vec4_def nir_vec_def, simplified]
  show thesis
  proof (cases "ycbcr_model (conversion state) = VK_SAMPLER_YCBCR_MODEL_CONVERSION_YCBCR_IDENTITY")
    case True
    with r have "res = ex \<and> bld' = b8" by simp
    then show ?thesis using that[OF 1 2 3 4 5 6 7 8] by blast
  next
    case False
    with r obtain m where m: "ycbcr_model_to_rgb_matrix (ycbcr_model (conversion state)) = Inr m"
      by (auto split: sum.splits)
    obtain m0 a1 where t1: "nir_build_imm b8 4 32 (map Const_float (m ! 0)) = (m0, a1)" by fastforce
    obtain d0 a2 where t2: "nir_fdot4 a1 ex m0 = (d0, a2)" by fastforce
    obtain m1 a3 where t3: "nir_build_imm a2 4 32 (map Const_float (m ! 1)) = (m1, a3)" by fastforce
    obtain d1 a4 where t4: "nir_fdot4 a3 ex m1 = (d1, a4)" by fastforce
    obtain m2 a5 where t5: "nir_build_imm a4 4 32 (map Const_float (m ! 2)) = (m2, a5)" by fastforce
    obtain d2 a6 where t6: "nir_fdot4 a5 ex m2 = (d2, a6)" by fastforce
    obtain one' a7 where t7: "nir_imm_float a6 1 = (one', a7)" by fastforce
    have t8: "nir_vec4 a7 d0 d1 d2 one' = (res, bld')"
      using r False unfolding m sum.case t1 t2 t3 t4 t5 t6 t7 Let_def prod.case by simp
    note u = t1 t2[unfolded nir_fdot4_def] t3 t4[unfolded nir_fdot4_def] t5 t6[unfolded nir_fdot4_def]
      t7[unfolded nir_imm_float_def] t8[unfolded nir_vec4_def nir_vec_def, simplified]
    from u show ?thesis using that[OF 1 2 3 4 5 6 7 8] by blast
  qed
qed

lemma convert_ycbcr_shape:
  assumes "convert_ycbcr state bld raw bits = Inr (res, bld')"
  shows "grows bld bld' \<and> ssa_alloc bld < ssa_alloc bld' \<and>
         bit_size res = bit_size raw \<and> num_components res = 4 \<and> Suc (index res) = ssa_alloc bld'"
proof -
  from assms obtain c0 b1 e0 b2 c1 b3 e1 b4 c2 b5 e2 b6 one b7 ex b8 where
    s: "nir_channel bld raw 0 = (c0, b1)"
    "chroma_range b1 c0 (int bits) (ycbcr_range (conversion state)) = (e0, b2)"
    "nir_channel b2 raw 1 = (c1, b3)"
    "y_range b3 c1 (int bits) (ycbcr_range (conversion state)) = (e1, b4)"
    "nir_channel b4 raw 2 = (c2, b5)"
    "chroma_range b5 c2 (int bits) (ycbcr_range (conversion state)) = (e2, b6)"
    "nir_build_imm b6 1 32 [Const_float 1] = (one, b7)"
    "nir_build_alu b7 (nir_op_vec 4) [e0, e1, e2, one] = (ex, b8)"
    and t: "(res = ex \<and> bld' = b8) \<or>
     (\<exists>v0 v1 v2 m0 a1 d0 a2 m1 a3 d1 a4 m2 a5 d2 a6 one' a7.
        nir_build_imm b8 4 32 v0 = (m0, a1) \<and>
        nir_build_alu a1 nir_op_fdot4 [ex, m0] = (d0, a2) \<and>
        nir_build_imm a2 4 32 v1 = (m1, a3) \<and>
        nir_build_alu a3 nir_op_fdot4 [ex, m1] = (d1, a4) \<and>
        nir_build_imm a4 4 32 v2 = (m2, a5) \<and>
        nir_build_alu a5 nir_op_fdot4 [ex, m2] = (d2, a6) \<and>
        nir_build_imm a6 1 32 [Const_float 1] = (one', a7) \<and>
        nir_build_alu a7 (nir_op_vec 4) [d0, d1, d2, one'] = (res, bld'))"
    by (rule convert_ycbcr_cases)
  note f = channel_step[OF s(1)] chroma_range_step[OF s(2)] channel_step[OF s(3)]
    y_range_step[OF s(4)] channel_step[OF s(5)] chroma_range_step[OF s(6)]
    imm_step[OF s(7)] alu_step[OF s(8)]
  have g: "grows bld b8" "ssa_alloc bld < ssa_alloc b8"
    using f by (simp_all add: grows_def)
  have e: "bit_size ex = bit_size raw" "num_components ex = 4" "Suc (index ex) = ssa_alloc b8"
    using f by (simp_all add: op_defs)
  from t show ?thesis
  proof
    assume "res = ex \<and> bld' = b8"
    with g e show ?thesis by simp
  next
    assume "\<exists>v0 v1 v2 m0 a1 d0 a2 m1 a3 d1 a4 m2 a5 d2 a6 one' a7.
        nir_build_imm b8 4 32 v0 = (m0, a1) \<and>
        nir_build_alu a1 nir_op_fdot4 [ex, m0] = (d0, a2) \<and>
        nir_build_imm a2 4 32 v1 = (m1, a3) \<and>
        nir_build_alu a3 nir_op_fdot4 [ex, m1] = (d1, a4) \<and>
        nir_build_imm a4 4 32 v2 = (m2, a5) \<and>
        nir_build_alu a5 nir_op_fdot4 [ex, m2] = (d2, a6) \<and>
        nir_build_imm a6 1 32 [Const_float 1] = (one', a7) \<and>
        nir_build_alu a7 (nir_op_vec 4) [d0, d1, d2, one'] = (res, bld')"
    then obtain v0 v1 v2 m0 a1 d0 a2 m1 a3 d1 a4 m2 a5 d2 a6 one' a7 where
      u: "nir_build_imm b8 4 32 v0 = (m0, a1)"
        "nir_build_alu a1 nir_op_fdot4 [ex, m0] = (d0, a2)"
        "nir_build_imm a2 4 32 v1 = (m1, a3)"
        "nir_build_alu a3 nir_op_fdot4 [ex, m1] = (d1, a4)"
        "nir_build_imm a4 4 32 v2 = (m2, a5)"
        "nir_build_alu a5 nir_op_fdot4 [ex, m2] = (d2, a6)"
        "nir_build_imm a6 1 32 [Const_float 1] = (one', a7)"
        "nir_build_alu a7 (nir_op_vec 4) [d0, d1, d2, one'] = (res, bld')"
      by blast
    note h = imm_step[OF u(1)] alu_step[OF u(2)] imm_step[OF u(3)] alu_step[OF u(4)]
      imm_step[OF u(5)] alu_step[OF u(6)] imm_step[OF u(7)] alu_step[OF u(8)]
    have "grows b8 bld'" "ssa_alloc b8 < ssa_alloc bld'"
      using h by (simp_all add: grows_def)
    moreover have "bit_size res = bit_size ex" "num_components res = 4" "Suc (index res) = ssa_alloc bld'"
      using h by (simp_all add: op_defs)
    ultimately show ?thesis using g e by (simp add: grows_def)
  qed
qed


lemma grows_get_texture_size: "grows bld (snd (get_texture_size state bld deref))"
  by (simp add: get_texture_size_eq grows_def)

lemma grows_implicit_downsampled_coord: "grows bld (snd (implicit_downsampled_coord bld v m k))"
  by (simp add: implicit_downsampled_coord_def prim_eqs op_defs grows_def)

lemma grows_loop:
  "implicit_downsampled_coords_loop state old cs (img, comps, bld) = (img', comps', bld')
     \<Longrightarrow> grows bld bld'"
proof (induction cs arbitrary: img comps bld)
  case Nil
  then show ?case by simp
next
  case (Cons c cs)
  show ?case
  proof (cases "c < 2 \<and> divisors (format (conversion state)) c > 1 \<and>
         chroma_offset (conversion state) c = VK_CHROMA_LOCATION_COSITED_EVEN")
    case False
    obtain v bld1 where ch: "nir_channel bld old c = (v, bld1)" by (cases "nir_channel bld old c")
    have "grows bld bld1" using grows_channel[of bld old c] ch by simp
    moreover have "grows bld1 bld'"
      using Cons.prems False ch by (auto intro: Cons.IH)
    ultimately show ?thesis by (rule grows_trans)
  next
    case True
    obtain sz bld1 where s: "(case img of None \<Rightarrow> get_texture_size state bld (tex_deref state)
                            | Some s \<Rightarrow> (s, bld)) = (sz, bld1)"
      by (cases "(case img of None \<Rightarrow> get_texture_size state bld (tex_deref state)
                            | Some s \<Rightarrow> (s, bld))")
    have g1: "grows bld bld1"
      using s grows_get_texture_size[of bld state "tex_deref state"] by (cases img) auto
    obtain v bld2 where c1: "nir_channel bld1 old c = (v, bld2)" by (cases "nir_channel bld1 old c")
    have g2: "grows bld1 bld2" using grows_channel[of bld1 old c] c1 by simp
    obtain m bld3 where c2: "nir_channel bld2 sz c = (m, bld3)" by (cases "nir_channel bld2 sz c")
    have g3: "grows bld2 bld3" using grows_channel[of bld2 sz c] c2 by simp
    obtain a bld4 where c3: "implicit_downsampled_coord bld3 v m (divisors (format (conversion state)) c) = (a, bld4)"
      by (cases "implicit_downsampled_coord bld3 v m (divisors (format (conversion state)) c)")
    have g4: "grows bld3 bld4" using grows_implicit_downsampled_coord[of bld3 v m "divisors (format (conversion state)) c"] c3 by simp
    have "implicit_downsampled_coords_loop state old cs (Some sz, comps @ [a], bld4) = (img', comps', bld')"
      using Cons.prems True s c1 c2 c3 by simp
    then have "grows bld4 bld'" by (rule Cons.IH)
    with g1 g2 g3 g4 show ?thesis by (blast intro: grows_trans)
  qed
qed

lemma grows_implicit_downsampled_coords:
  "grows bld (snd (implicit_downsampled_coords state bld old))"
proof -
  obtain img comps bld1 where l:
    "implicit_downsampled_coords_loop state old [0..<num_components old] (None, [], bld) = (img, comps, bld1)"
    by (cases "implicit_downsampled_coords_loop state old [0..<num_components old] (None, [], bld)")
  have "grows bld bld1" using l by (rule grows_loop)
  moreover have "grows bld1 (snd (nir_vec bld1 comps (num_components old)))"
    unfolding nir_vec_def by (rule grows_build_alu)
  ultimately show ?thesis
    using l by (auto simp: implicit_downsampled_coords_def intro: grows_trans)
qed

lemma grows_copy_plane_srcs:
  "copy_plane_srcs state p bld srcs = Inr (srcs', bld') \<Longrightarrow> grows bld bld'"
proof (induction srcs arbitrary: bld srcs')
  case Nil
  then show ?case by simp
next
  case (Cons a srcs)
  obtain ty s where a: "a = (ty, s)" by (cases a)
  show ?case
  proof (cases "ty = nir_tex_src_coord \<and> p \<noteq> 0")
    case False
    then obtain rest where "copy_plane_srcs state p bld srcs = Inr (rest, bld')"
      using Cons.prems a by (auto split: sum.splits)
    then show ?thesis by (rule Cons.IH)
  next
    case True
    then obtain old where s: "s = Src_ssa old"
      using Cons.prems a by (cases s) auto
    obtain c bld1 where idc: "implicit_downsampled_coords state bld old = (c, bld1)"
      by (cases "implicit_downsampled_coords state bld old")
    have "grows bld bld1" using grows_implicit_downsampled_coords[of bld state old] idc by simp
    moreover obtain rest where "copy_plane_srcs state p bld1 srcs = Inr (rest, bld')"
      using Cons.prems a s True idc by (auto split: sum.splits)
    then have "grows bld1 bld'" by (rule Cons.IH)
    ultimately show ?thesis by (rule grows_trans)
  qed
qed

lemma create_plane_tex_instr_implicit_cases:
  assumes "create_plane_tex_instr_implicit state bld p = Inr (d, bld')"
  obtains srcs bld1 where "copy_plane_srcs state p bld (src (origin_tex state)) = Inr (srcs, bld1)"
  using assms by (auto simp: create_plane_tex_instr_implicit_def Let_def split: sum.splits)

lemma grows_create_plane:
  assumes "create_plane_tex_instr_implicit state bld p = Inr (d, bld')"
  shows "grows bld bld' \<and> num_components d = num_components (dest (origin_tex state)) \<and>
         bit_size d = bit_size (dest (origin_tex state))"
proof -
  obtain srcs bld1 where c: "copy_plane_srcs state p bld (src (origin_tex state)) = Inr (srcs, bld1)"
    using assms by (rule create_plane_tex_instr_implicit_cases)
  have "grows bld bld1" using c by (rule grows_copy_plane_srcs)
  then show ?thesis
    using assms unfolding create_plane_tex_instr_implicit_eq[OF c]
    by (auto simp: grows_def)
qed

lemma grows_create_planes:
  "create_planes state bld ps = Inr (vs, bld') \<Longrightarrow>
     grows bld bld' \<and> length vs = length ps \<and>
     (\<forall>v\<in>set vs. num_components v = num_components (dest (origin_tex state)) \<and>
                  bit_size v = bit_size (dest (origin_tex state)))"
proof (induction ps arbitrary: bld vs)
  case Nil
  then show ?case by simp
next
  case (Cons p ps)
  from Cons.prems obtain v bld1 rest where
    1: "create_plane_tex_instr_implicit state bld p = Inr (v, bld1)"
    and 2: "create_planes state bld1 ps = Inr (rest, bld')" and 3: "vs = v # rest"
    by (auto split: sum.splits)
  from grows_create_plane[OF 1] Cons.IH[OF 2] 3 show ?case
    by (auto intro: grows_trans)
qed

lemma grows_build_swizzled_values:
  "build_swizzled_values ps pv zero one bld sws = (vals, bld') \<Longrightarrow> grows bld bld' \<and> length vals = length sws"
proof (induction sws arbitrary: bld vals)
  case Nil
  then show ?case by simp
next
  case (Cons s sws)
  obtain v bld1 where 1: "(if s = VK_SWIZZLE_0 then (zero, bld)
             else if s = VK_SWIZZLE_1 then (one, bld)
             else (let channel = swizzle_channel s
                   in nir_channel bld (pv ! (plane ps ! channel))
                        (swizzle ps ! channel))) = (v, bld1)"
    by (cases "(if s = VK_SWIZZLE_0 then (zero, bld)
             else if s = VK_SWIZZLE_1 then (one, bld)
             else (let channel = swizzle_channel s
                   in nir_channel bld (pv ! (plane ps ! channel))
                        (swizzle ps ! channel)))")
  have g1: "grows bld bld1"
    using 1 grows_channel[of bld "pv ! (plane ps ! swizzle_channel s)" "swizzle ps ! swizzle_channel s"]
    by (auto simp: Let_def split: if_splits)
  obtain rest where 2: "build_swizzled_values ps pv zero one bld1 sws = (rest, bld')" and 3: "vals = v # rest"
    using Cons.prems 1 by (auto split: prod.splits)
  from Cons.IH[OF 2] g1 3 show ?case by (auto intro: grows_trans)
qed

lemma grows_build_swizzled_components:
  assumes "build_swizzled_components bld fmt mapping pv = Inr (res, bld')"
  shows "grows bld bld' \<and> ssa_alloc bld < ssa_alloc bld' \<and> num_components res = 4 \<and>
         Suc (index res) = ssa_alloc bld'"
proof -
  obtain ps where ps: "get_plane_swizzles fmt = Inr ps"
    using assms by (auto simp: build_swizzled_components_def split: sum.splits)
  obtain zero b1 where z: "nir_imm_float bld 0 = (zero, b1)" by (cases "nir_imm_float bld 0")
  obtain one b2 where o: "nir_imm_float b1 1 = (one, b2)" by (cases "nir_imm_float b1 1")
  obtain vals b3 where v: "build_swizzled_values ps pv zero one b2 (vk_format_compose_swizzles mapping) = (vals, b3)"
    by (cases "build_swizzled_values ps pv zero one b2 (vk_format_compose_swizzles mapping)")
  have r: "nir_vec b3 vals 4 = (res, bld')"
    using assms ps z o v by (simp add: build_swizzled_components_def)
  have g1: "grows bld b1" "ssa_alloc bld < ssa_alloc b1"
    using z by (auto simp: nir_imm_float_def prim_eqs grows_def)
  have g2: "grows b1 b2" using o by (auto simp: nir_imm_float_def prim_eqs grows_def)
  have g3: "grows b2 b3" "length vals = 4"
    using grows_build_swizzled_values[OF v] by (simp_all add: vk_format_compose_swizzles_def)
  have g4: "grows b3 bld'" "num_components res = 4" "Suc (index res) = ssa_alloc bld'"
    using r by (auto simp: nir_vec_def prim_eqs op_defs grows_def)
  from g1 g2 g3 g4 show ?thesis
    by (auto simp: grows_def)
qed

lemma grows_lowered_result:
  assumes "lowered_result state bld = Inr (res, bld')"
  shows "grows bld bld' \<and> ssa_alloc bld < ssa_alloc bld' \<and> num_components res = 4"
proof -
  let ?fmt = "format (conversion state)"
  obtain pv b1 where 1: "create_planes state bld [0..<nat (vk_format_get_plane_count ?fmt)] = Inr (pv, b1)"
    using assms by (auto simp: lowered_result_def Let_def split: sum.splits)
  obtain raw b2 where 2: "build_swizzled_components b1 ?fmt (components (conversion state)) pv = Inr (raw, b2)"
    using assms 1 by (auto simp: lowered_result_def Let_def split: sum.splits)
  have g1: "grows bld b1" using grows_create_planes[OF 1] by simp
  have g2: "grows b1 b2" "ssa_alloc b1 < ssa_alloc b2" "num_components raw = 4"
    using grows_build_swizzled_components[OF 2] by simp_all
  show ?thesis
  proof (cases "ycbcr_model (conversion state) = VK_SAMPLER_YCBCR_MODEL_CONVERSION_RGB_IDENTITY")
    case True
    then have "res = raw" "bld' = b2" using assms 1 2 by (auto simp: lowered_result_def Let_def)
    with g1 g2 show ?thesis by (auto simp: grows_def)
  next
    case False
    then have c: "convert_ycbcr state b2 raw
        (vk_format_get_component_bits (vk_format_get_plane_format ?fmt 0) mod 256) = Inr (res, bld')"
      using assms 1 2 by (auto simp: lowered_result_def Let_def)
    from convert_ycbcr_shape[OF c] g1 g2 show ?thesis by (auto simp: grows_def)
  qed
qed

lemma try_lower_tex_ycbcr_frame:
  assumes "try_lower_tex_ycbcr layout bld tex = Inr (lowered, bld')"
  shows "valid_metadata bld' = valid_metadata bld"
    and "lowered \<Longrightarrow> ssa_alloc bld < ssa_alloc bld'"
    and "\<not> lowered \<Longrightarrow> bld' = bld"
proof -
  show "\<not> lowered \<Longrightarrow> bld' = bld"
    using assms by (auto simp: try_lower_tex_ycbcr_def Let_def split: sum.splits option.splits if_splits)
  show "valid_metadata bld' = valid_metadata bld"
    using assms
    by (auto simp: try_lower_tex_ycbcr_def Let_def nir_instr_remove_def nir_ssa_def_rewrite_uses_def
        grows_def dest!: grows_lowered_result split: sum.splits option.splits if_splits)
  show "lowered \<Longrightarrow> ssa_alloc bld < ssa_alloc bld'"
    using assms
    by (auto simp: try_lower_tex_ycbcr_def Let_def nir_instr_remove_def nir_ssa_def_rewrite_uses_def
        grows_def dest!: grows_lowered_result split: sum.splits option.splits if_splits)
qed

lemma same_body_step_over: "same_body bld (step_over bld)"
  by (simp add: same_body_def step_over_def split: list.splits)

lemma same_body_trans: "same_body a b \<Longrightarrow> same_body b c \<Longrightarrow> same_body a c"
  by (simp add: same_body_def)

lemma step_over_frame [simp]:
  "valid_metadata (step_over bld) = valid_metadata bld"
  "ssa_alloc (step_over bld) = ssa_alloc bld"
  by (simp_all add: step_over_def split: list.splits)

lemma lower_instrs_frame:
  "lower_instrs layout n bld = Inr (progress, bld') \<Longrightarrow>
     valid_metadata bld' = valid_metadata bld \<and> ssa_alloc bld \<le> ssa_alloc bld' \<and>
     (progress \<longrightarrow> ssa_alloc bld < ssa_alloc bld') \<and>
     (\<not> progress \<longrightarrow> same_body bld bld')"
proof (induction n arbitrary: bld progress bld')
  case 0
  then show ?case by (simp add: same_body_def)
next
  case (Suc n)
  show ?case
  proof (cases "instrs_after bld")
    case Nil
    then show ?thesis using Suc.prems by (simp add: same_body_def)
  next
    case (Cons i rest)
    show ?thesis
    proof (cases "\<exists>tex. i = Tex tex")
      case False
      then have "lower_instrs layout n (step_over bld) = Inr (progress, bld')"
        using Suc.prems Cons by (cases i) auto
      from Suc.IH[OF this] show ?thesis
        using same_body_step_over[of bld] by (auto intro: same_body_trans)
    next
      case True
      then obtain tex where i: "i = Tex tex" by blast
      obtain lowered bld1 where t: "try_lower_tex_ycbcr layout bld tex = Inr (lowered, bld1)"
        using Suc.prems Cons i by (auto split: sum.splits)
      obtain later where r: "lower_instrs layout n (if lowered then bld1 else step_over bld1) = Inr (later, bld')"
        and p: "progress = (lowered \<or> later)"
        using Suc.prems Cons i t by (auto split: sum.splits)
      note f = try_lower_tex_ycbcr_frame[OF t]
      show ?thesis
      proof (cases lowered)
        case True
        with Suc.IH[of bld1 later bld'] r f p show ?thesis by auto
      next
        case False
        then have "bld1 = bld" using f(3) by simp
        with Suc.IH[of "step_over bld" later bld'] r False p show ?thesis
          using same_body_step_over[of bld] by (auto intro: same_body_trans)
      qed
    qed
  qed
qed

lemma lower_blocks_frame:
  "lower_blocks layout n bld = Inr (progress, bld') \<Longrightarrow>
     valid_metadata bld' = valid_metadata bld \<and> ssa_alloc bld \<le> ssa_alloc bld' \<and>
     (progress \<longrightarrow> ssa_alloc bld < ssa_alloc bld') \<and>
     (\<not> progress \<longrightarrow> ssa_alloc bld' = ssa_alloc bld \<and> if_uses bld' = if_uses bld \<and>
        (instrs_before bld = [] \<longrightarrow> instrs_after bld = [] \<longrightarrow>
           instrs_before bld' = [] \<and> instrs_after bld' = [] \<and>
        blocks_before bld' @ blocks_after bld' = blocks_before bld @ blocks_after bld))"
proof (induction n arbitrary: bld progress bld')
  case 0
  then show ?case by simp
next
  case (Suc n)
  show ?case
  proof (cases "blocks_after bld")
    case Nil
    then show ?thesis using Suc.prems by simp
  next
    case (Cons block blocks)
    define b0 where "b0 = bld\<lparr>instrs_before := [], instrs_after := block, blocks_after := blocks\<rparr>"
    obtain p1 b1 where 1: "lower_instrs layout (length block) b0 = Inr (p1, b1)"
      using Suc.prems Cons by (auto simp: b0_def split: sum.splits)
    define b2 where "b2 = b1\<lparr>blocks_before := blocks_before b1 @ [instrs_before b1 @ instrs_after b1],
                            instrs_before := [], instrs_after := []\<rparr>"
    obtain p2 where 2: "lower_blocks layout n b2 = Inr (p2, bld')" and p: "progress = (p1 \<or> p2)"
      using Suc.prems Cons 1 by (auto simp: b0_def b2_def split: sum.splits)
    note f1 = lower_instrs_frame[OF 1]
    note f2 = Suc.IH[OF 2]
    have m: "valid_metadata bld' = valid_metadata bld" "ssa_alloc bld \<le> ssa_alloc bld'"
      "progress \<longrightarrow> ssa_alloc bld < ssa_alloc bld'"
      using f1 f2 p by (auto simp: b0_def b2_def)
    have "ssa_alloc bld' = ssa_alloc bld \<and> if_uses bld' = if_uses bld \<and>
        (instrs_before bld = [] \<longrightarrow> instrs_after bld = [] \<longrightarrow>
           instrs_before bld' = [] \<and> instrs_after bld' = [] \<and>
        blocks_before bld' @ blocks_after bld' = blocks_before bld @ blocks_after bld)" if np: "\<not> progress"
    proof -
      from np p have n1: "\<not> p1" and n2: "\<not> p2" by simp_all
      from f1 n1 have s: "same_body b0 b1" by simp
      from f2 n2 have t: "ssa_alloc bld' = ssa_alloc b2" "if_uses bld' = if_uses b2"
        "instrs_before bld' = []" "instrs_after bld' = []"
        "blocks_before bld' @ blocks_after bld' = blocks_before b2 @ blocks_after b2"
        by (simp_all add: b2_def)
      show ?thesis using s t Cons by (simp add: same_body_def b0_def b2_def)
    qed
    with m show ?thesis by blast
  qed
qed

lemma lower_function_impl_frame:
  assumes "lower_function_impl layout f = Inr (progress, f')"
  shows "impl_valid_metadata f' =
           (if progress then impl_valid_metadata f \<inter> {nir_metadata_block_index, nir_metadata_dominance}
            else impl_valid_metadata f)"
    and "progress \<Longrightarrow> impl_ssa_alloc f < impl_ssa_alloc f'"
    and "\<not> progress \<Longrightarrow> f' = f"
proof -
  obtain bld where b: "lower_blocks layout (length (body f)) (nir_builder_init f) = Inr (progress, bld)"
    and f': "f' = (if progress
               then nir_metadata_preserve (builder_impl bld) {nir_metadata_block_index, nir_metadata_dominance}
               else builder_impl bld)"
    using assms by (auto simp: lower_function_impl_def split: sum.splits)
  note fr = lower_blocks_frame[OF b]
  show "impl_valid_metadata f' =
           (if progress then impl_valid_metadata f \<inter> {nir_metadata_block_index, nir_metadata_dominance}
            else impl_valid_metadata f)"
    using fr f' by (simp add: nir_metadata_preserve_def builder_impl_def nir_builder_init_def)
  show "progress \<Longrightarrow> impl_ssa_alloc f < impl_ssa_alloc f'"
    using fr f' by (simp add: nir_metadata_preserve_def builder_impl_def nir_builder_init_def)
  show "\<not> progress \<Longrightarrow> f' = f"
    using fr f' by (simp add: builder_impl_def nir_builder_init_def)
qed

lemmas pass_defs = lower_function_impl_def nir_builder_init_def builder_impl_def step_over_def
  nir_metadata_preserve_def try_lower_tex_ycbcr_def nir_ssa_def_rewrite_uses_def nir_instr_remove_def
  rewrite_src_def example_impl_def plain_layout_def

lemma example_impl_lowered:
  "\<exists>f'. lower_function_impl
          (example_layout (example_conversion (VK_FORMAT 1 1 1 8)
             VK_SAMPLER_YCBCR_MODEL_CONVERSION_RGB_IDENTITY VK_SAMPLER_YCBCR_RANGE_ITU_FULL))
          example_impl = Inr (True, f')"
  by (simp add: pass_defs resolve_defs example_defs)
     (simp add: model_defs pass_defs resolve_defs upt_small Let_def)

lemma example_impl_skipped:
  "lower_function_impl plain_layout example_impl = Inr (False, example_impl)"
  by (simp add: pass_defs resolve_defs example_defs)

lemma pass_progress:
  "radv_nir_lower_ycbcr_textures shader layout = Inr (progress, shader') \<Longrightarrow>
     length shader' = length shader \<and> (progress \<longleftrightarrow> shader' \<noteq> shader)"
proof (induction shader arbitrary: progress shader')
  case Nil
  then show ?case by simp
next
  case (Cons func shader)
  show ?case
  proof (cases "impl func")
    case None
    then obtain rest where r: "radv_nir_lower_ycbcr_textures shader layout = Inr (progress, rest)"
      and s: "shader' = func # rest"
      using Cons.prems by (auto split: sum.splits)
    from Cons.IH[OF r] s show ?thesis by simp
  next
    case (Some f)
    obtain fp f' where l: "lower_function_impl layout f = Inr (fp, f')"
      using Cons.prems Some by (auto split: sum.splits)
    obtain p rest where r: "radv_nir_lower_ycbcr_textures shader layout = Inr (p, rest)"
      and s: "shader' = func\<lparr>impl := Some f'\<rparr> # rest" and pr: "progress = (fp \<or> p)"
      using Cons.prems Some l by (auto split: sum.splits)
    note fr = lower_function_impl_frame[OF l]
    have "func\<lparr>impl := Some f'\<rparr> = func \<longleftrightarrow> \<not> fp"
    proof (cases fp)
      case True
      then have "f' \<noteq> f" using fr(2) by auto
      then have "impl (func\<lparr>impl := Some f'\<rparr>) \<noteq> impl func" using Some by simp
      then have "func\<lparr>impl := Some f'\<rparr> \<noteq> func" by metis
      with True show ?thesis by simp
    next
      case False
      then show ?thesis using fr(3) Some by simp
    qed
    with Cons.IH[OF r] s pr show ?thesis by auto
  qed
qed

lemma bits_build_swizzled_values:
  assumes "build_swizzled_values ps pv zero one bld sws = (vals, bld')"
    and "bit_size zero = 32" and "bit_size one = 32"
    and "\<forall>ch<4. bit_size (pv ! (plane ps ! ch)) = 32"
  shows "\<forall>v\<in>set vals. bit_size v = 32"
  using assms(1)
proof (induction sws arbitrary: bld vals)
  case Nil
  then show ?case by simp
next
  case (Cons s sws)
  obtain v bld1 where 1: "(if s = VK_SWIZZLE_0 then (zero, bld)
             else if s = VK_SWIZZLE_1 then (one, bld)
             else (let channel = swizzle_channel s
                   in nir_channel bld (pv ! (plane ps ! channel))
                        (swizzle ps ! channel))) = (v, bld1)"
    by (cases "(if s = VK_SWIZZLE_0 then (zero, bld)
             else if s = VK_SWIZZLE_1 then (one, bld)
             else (let channel = swizzle_channel s
                   in nir_channel bld (pv ! (plane ps ! channel))
                        (swizzle ps ! channel)))")
  have b: "bit_size v = 32"
  proof (cases "s = VK_SWIZZLE_0 \<or> s = VK_SWIZZLE_1")
    case True
    then show ?thesis using 1 assms(2,3) by auto
  next
    case False
    then have "swizzle_channel s < 4" by (simp add: swizzle_channel_less)
    then have "bit_size (pv ! (plane ps ! swizzle_channel s)) = 32" using assms(4) by simp
    then show ?thesis using 1 False by (auto simp: Let_def nir_channel_eq)
  qed
  obtain rest where 2: "build_swizzled_values ps pv zero one bld1 sws = (rest, bld')" and 3: "vals = v # rest"
    using Cons.prems 1 by (auto split: prod.splits)
  from Cons.IH[OF 2] b 3 show ?case by simp
qed

lemma get_plane_swizzles_planes:
  assumes "get_plane_swizzles fmt = Inr ps" and "ch < 4"
  shows "plane ps ! ch < nat (vk_format_get_plane_count fmt)"
  using assms less_4_cases[OF assms(2)]
  by (auto simp: get_plane_swizzles_def Let_def split: if_splits)

lemma bits_build_swizzled_components:
  assumes "build_swizzled_components bld fmt mapping pv = Inr (res, bld')"
    and "length pv = nat (vk_format_get_plane_count fmt)"
    and "\<forall>v\<in>set pv. bit_size v = 32"
  shows "bit_size res = 32"
proof -
  obtain ps where ps: "get_plane_swizzles fmt = Inr ps"
    using assms(1) by (auto simp: build_swizzled_components_def split: sum.splits)
  obtain zero b1 where z: "nir_imm_float bld 0 = (zero, b1)" by (cases "nir_imm_float bld 0")
  obtain one b2 where o: "nir_imm_float b1 1 = (one, b2)" by (cases "nir_imm_float b1 1")
  obtain vals b3 where v: "build_swizzled_values ps pv zero one b2 (vk_format_compose_swizzles mapping) = (vals, b3)"
    by (cases "build_swizzled_values ps pv zero one b2 (vk_format_compose_swizzles mapping)")
  have r: "nir_vec b3 vals 4 = (res, bld')"
    using assms(1) ps z o v by (simp add: build_swizzled_components_def)
  have bz: "bit_size zero = 32" using z by (auto simp: nir_imm_float_def prim_eqs)
  have bo: "bit_size one = 32" using o by (auto simp: nir_imm_float_def prim_eqs)
  have "\<forall>ch<4. bit_size (pv ! (plane ps ! ch)) = 32"
    using get_plane_swizzles_planes[OF ps] assms(2,3) by simp
  from bits_build_swizzled_values[OF v bz bo this] have all: "\<forall>v\<in>set vals. bit_size v = 32" .
  have "length vals = 4"
    using grows_build_swizzled_values[OF v] by (simp add: vk_format_compose_swizzles_def)
  then obtain a b c d where "vals = [a, b, c, d]"
    by (auto simp: length_Suc_conv numeral_eq_Suc)
  with all r show ?thesis
    by (auto simp: nir_vec_def prim_eqs op_defs)
qed

lemma lowered_result_shape:
  assumes "lowered_result state bld = Inr (res, bld')"
  shows "num_components res = 4"
    and "bit_size (dest (origin_tex state)) = 32 \<Longrightarrow> bit_size res = 32"
proof -
  let ?fmt = "format (conversion state)"
  show "num_components res = 4" using grows_lowered_result[OF assms] by simp
  assume w: "bit_size (dest (origin_tex state)) = 32"
  obtain pv b1 where 1: "create_planes state bld [0..<nat (vk_format_get_plane_count ?fmt)] = Inr (pv, b1)"
    using assms by (auto simp: lowered_result_def Let_def split: sum.splits)
  obtain raw b2 where 2: "build_swizzled_components b1 ?fmt (components (conversion state)) pv = Inr (raw, b2)"
    using assms 1 by (auto simp: lowered_result_def Let_def split: sum.splits)
  have "length pv = nat (vk_format_get_plane_count ?fmt)" "\<forall>v\<in>set pv. bit_size v = 32"
    using grows_create_planes[OF 1] w by simp_all
  from bits_build_swizzled_components[OF 2 this] have b: "bit_size raw = 32" .
  show "bit_size res = 32"
  proof (cases "ycbcr_model (conversion state) = VK_SAMPLER_YCBCR_MODEL_CONVERSION_RGB_IDENTITY")
    case True
    then have "res = raw" using assms 1 2 by (auto simp: lowered_result_def Let_def)
    with b show ?thesis by simp
  next
    case False
    then have c: "convert_ycbcr state b2 raw
        (vk_format_get_component_bits (vk_format_get_plane_format ?fmt 0) mod 256) = Inr (res, bld')"
      using assms 1 2 by (auto simp: lowered_result_def Let_def)
    from convert_ycbcr_shape[OF c] b show ?thesis by simp
  qed
qed

lemma create_plane_clone:
  assumes "create_plane_tex_instr_implicit state bld p = Inr (d, bld')"
  shows "\<exists>t. last (instrs_before bld') = Tex t \<and> dest t = d \<and> op t = op (origin_tex state) \<and>
             num_components d = num_components (dest (origin_tex state)) \<and>
             bit_size d = bit_size (dest (origin_tex state))"
proof -
  obtain srcs bld1 where c: "copy_plane_srcs state p bld (src (origin_tex state)) = Inr (srcs, bld1)"
    using assms by (rule create_plane_tex_instr_implicit_cases)
  show ?thesis
    using assms unfolding create_plane_tex_instr_implicit_eq[OF c] by auto
qed

lemma neat_refl [simp]: "neat k bld bld"
  by (simp add: neat_def inserted_def)

lemma neat_trans: "neat k a b \<Longrightarrow> neat k b c \<Longrightarrow> neat k a c"
  unfolding neat_def using inserted_trans[of a b c] by (auto intro: emits_trans)

lemma neat_alloc: "neat k bld bld' \<Longrightarrow> ssa_alloc bld \<le> ssa_alloc bld'"
  by (simp add: neat_def emits_def)

lemma avail_mono: "neat k bld bld' \<Longrightarrow> avail k bld d \<Longrightarrow> avail k bld' d"
  by (auto simp: avail_def dest: neat_alloc)





lemma size_query_src [simp]:
  "src (size_query texture k) = [(nir_tex_src_texture_deref, Src_ssa (deref_dest texture))]"
  by (simp add: size_query_def Let_def)





lemma yields_next:
  assumes "neat k bld b" "k < ssa_alloc bld" "yields k b r" "r = (d, b')"
  shows "neat k bld b' \<and> avail k b' d \<and> k < ssa_alloc b'"
proof -
  from assms(3,4) have n: "neat k b b'" and a: "avail k b' d" by (simp_all add: yields_def)
  from neat_trans[OF assms(1) n] have "neat k bld b'" .
  moreover from this assms(2) have "k < ssa_alloc b'" by (auto dest: neat_alloc)
  ultimately show ?thesis using a by simp
qed

lemma avail_later: "avail k b d \<Longrightarrow> neat k b b' \<Longrightarrow> avail k b' d"
  by (rule avail_mono)











lemma kept_more: "kept k bld b known \<Longrightarrow> set known' \<subseteq> set known \<Longrightarrow> kept k bld b known'"
  by (auto simp: kept_def)












lemma use_count_simps [simp]:
  "use_count k [] = 0"
  "use_count k (xs @ ys) = use_count k xs + use_count k ys"
  by (simp_all add: use_count_def)

lemma srcs_of_simps [simp]:
  "srcs_of [] = []"
  "srcs_of (i # instrs) = instr_srcs i @ srcs_of instrs"
  "srcs_of (xs @ ys) = srcs_of xs @ srcs_of ys"
  by (simp_all add: srcs_of_def)


lemma instr_def_rewrite [simp]: "instr_def (rewrite_instr d new i) = instr_def i"
  by (cases i) auto








lemma remove_instr_first: "is_def_of k i \<Longrightarrow> remove_instr k (i # instrs) = instrs"
  by simp



section \<open>The claims\<close>

text \<open>
  C4.  For the models BT.601, BT.709 and BT.2020 the converter takes the model's 3x4 matrix,
  whose rows are written out below; each of the three colour outputs is the dot product of
  the expanded vector (its fourth element the constant 1) with the corresponding row, and
  the fourth output is 1.  On the expanded input with luma 1 and both chroma channels 0 the
  result is (1, 1, 1, 1) for each of the three matrices.
\<close>

theorem convert_ycbcr_matrix:
  assumes "index raw < ssa_alloc bld"
    and "ycbcr_model (conversion state) = VK_SAMPLER_YCBCR_MODEL_CONVERSION_YCBCR_601 \<or>
         ycbcr_model (conversion state) = VK_SAMPLER_YCBCR_MODEL_CONVERSION_YCBCR_709 \<or>
         ycbcr_model (conversion state) = VK_SAMPLER_YCBCR_MODEL_CONVERSION_YCBCR_2020"
  shows "case convert_ycbcr state bld raw bits of
           Inl err \<Rightarrow> False
         | Inr (res, bld') \<Rightarrow>
             num_components res = 4 \<and>
             (ycbcr_model (conversion state) = VK_SAMPLER_YCBCR_MODEL_CONVERSION_YCBCR_601 \<longrightarrow>
                exec_instrs texture (inserted bld bld') e (index res) =
                  [dot4 (expanded (ycbcr_range (conversion state)) bits (e (index raw)))
                     [1.402, 1, 0, 0],
                   dot4 (expanded (ycbcr_range (conversion state)) bits (e (index raw)))
                     [- 0.714136286201022, 1, - 0.344136286201022, 0],
                   dot4 (expanded (ycbcr_range (conversion state)) bits (e (index raw)))
                     [0, 1, 1.772, 0],
                   1]) \<and>
             (ycbcr_model (conversion state) = VK_SAMPLER_YCBCR_MODEL_CONVERSION_YCBCR_709 \<longrightarrow>
                exec_instrs texture (inserted bld bld') e (index res) =
                  [dot4 (expanded (ycbcr_range (conversion state)) bits (e (index raw)))
                     [1.5748031496063, 1, 0, 0],
                   dot4 (expanded (ycbcr_range (conversion state)) bits (e (index raw)))
                     [- 0.468125209181067, 1, - 0.187327487470334, 0],
                   dot4 (expanded (ycbcr_range (conversion state)) bits (e (index raw)))
                     [0, 1, 1.85563184264242, 0],
                   1]) \<and>
             (ycbcr_model (conversion state) = VK_SAMPLER_YCBCR_MODEL_CONVERSION_YCBCR_2020 \<longrightarrow>
                exec_instrs texture (inserted bld bld') e (index res) =
                  [dot4 (expanded (ycbcr_range (conversion state)) bits (e (index raw)))
                     [1.4746, 1, 0, 0],
                   dot4 (expanded (ycbcr_range (conversion state)) bits (e (index raw)))
                     [- 0.571353126843658, 1, - 0.164553126843658, 0],
                   dot4 (expanded (ycbcr_range (conversion state)) bits (e (index raw)))
                     [0, 1, 1.8814, 0],
                   1]) \<and>
             (expanded (ycbcr_range (conversion state)) bits (e (index raw)) = [0, 1, 0, 1] \<longrightarrow>
                exec_instrs texture (inserted bld bld') e (index res) = [1, 1, 1, 1])"
proof -
  let ?ex = "expanded (ycbcr_range (conversion state)) bits (e (index raw))"
  have c: "case convert_ycbcr state bld raw bits of
           Inl err \<Rightarrow> False
         | Inr (res, bld') \<Rightarrow>
             num_components res = 4 \<and>
             exec_instrs texture (inserted bld bld') e (index res) =
               converted (ycbcr_model (conversion state)) ?ex"
    using convert_ycbcr_spec[OF assms(1), of state bits] assms(2)
    by (auto split: sum.splits)
  have m1: "converted VK_SAMPLER_YCBCR_MODEL_CONVERSION_YCBCR_601 ?ex =
      [dot4 ?ex [1.402, 1, 0, 0], dot4 ?ex [- 0.714136286201022, 1, - 0.344136286201022, 0],
       dot4 ?ex [0, 1, 1.772, 0], 1]"
    by (simp add: converted_def ycbcr_model_to_rgb_matrix_def bt601_def)
  have m2: "converted VK_SAMPLER_YCBCR_MODEL_CONVERSION_YCBCR_709 ?ex =
      [dot4 ?ex [1.5748031496063, 1, 0, 0], dot4 ?ex [- 0.468125209181067, 1, - 0.187327487470334, 0],
       dot4 ?ex [0, 1, 1.85563184264242, 0], 1]"
    by (simp add: converted_def ycbcr_model_to_rgb_matrix_def bt709_def)
  have m3: "converted VK_SAMPLER_YCBCR_MODEL_CONVERSION_YCBCR_2020 ?ex =
      [dot4 ?ex [1.4746, 1, 0, 0], dot4 ?ex [- 0.571353126843658, 1, - 0.164553126843658, 0],
       dot4 ?ex [0, 1, 1.8814, 0], 1]"
    by (simp add: converted_def ycbcr_model_to_rgb_matrix_def bt2020_def)
  have w: "converted (ycbcr_model (conversion state)) [0, 1, 0, 1] = [1, 1, 1, 1]"
    using assms(2)
    by (auto simp: converted_def ycbcr_model_to_rgb_matrix_def bt601_def bt709_def bt2020_def dot4_def)
  show ?thesis
  proof (cases "convert_ycbcr state bld raw bits")
    case (Inl err)
    with c show ?thesis by simp
  next
    case (Inr r)
    obtain res bld' where r: "r = (res, bld')" by (cases r)
    from c Inr r have n: "num_components res = 4"
      and v: "exec_instrs texture (inserted bld bld') e (index res) =
               converted (ycbcr_model (conversion state)) ?ex"
      by simp_all
    show ?thesis
      unfolding Inr r using n v m1 m2 m3 w by simp
  qed
qed

text \<open>
  BT.601 at full range and 8 bits: the expanded input (0, 1, 0, 1) gives (1, 1, 1, 1), and
  the expanded input (1, 0, 0, 1) gives the first column of the matrix.
\<close>

theorem convert_ycbcr_matrix_witness:
  "index (dest example_tex) < ssa_alloc example_builder \<and>
   ycbcr_model (conversion (example_state (example_conversion (VK_FORMAT 1 1 1 8)
       VK_SAMPLER_YCBCR_MODEL_CONVERSION_YCBCR_601 VK_SAMPLER_YCBCR_RANGE_ITU_FULL))) =
     VK_SAMPLER_YCBCR_MODEL_CONVERSION_YCBCR_601 \<and>
   expanded VK_SAMPLER_YCBCR_RANGE_ITU_FULL 8 [128 / 255, 1, 128 / 255, 1] = [0, 1, 0, 1] \<and>
   expanded VK_SAMPLER_YCBCR_RANGE_ITU_FULL 8 [383 / 255, 0, 128 / 255, 1] = [1, 0, 0, 1] \<and>
   (case convert_ycbcr (example_state (example_conversion (VK_FORMAT 1 1 1 8)
           VK_SAMPLER_YCBCR_MODEL_CONVERSION_YCBCR_601 VK_SAMPLER_YCBCR_RANGE_ITU_FULL))
         example_builder (dest example_tex) 8 of
      Inl err \<Rightarrow> False
    | Inr (res, bld') \<Rightarrow>
        num_components res = 4 \<and>
        exec_instrs (\<lambda>t e. []) (inserted example_builder bld') (\<lambda>k. [128 / 255, 1, 128 / 255, 1]) (index res) =
          [1, 1, 1, 1] \<and>
        exec_instrs (\<lambda>t e. []) (inserted example_builder bld') (\<lambda>k. [383 / 255, 0, 128 / 255, 1]) (index res) =
          [1.402, - 0.714136286201022, 0, 1])"
proof -
  let ?state = "example_state (example_conversion (VK_FORMAT 1 1 1 8)
       VK_SAMPLER_YCBCR_MODEL_CONVERSION_YCBCR_601 VK_SAMPLER_YCBCR_RANGE_ITU_FULL)"
  have ex: "expanded VK_SAMPLER_YCBCR_RANGE_ITU_FULL 8 [128 / 255, 1, 128 / 255, 1] = [0, 1, 0, 1]"
    by (simp add: expanded_def expanded_chroma_def expanded_luma_def)
  have ex2: "expanded VK_SAMPLER_YCBCR_RANGE_ITU_FULL 8 [383 / 255, 0, 128 / 255, 1] = [1, 0, 0, 1]"
    by (simp add: expanded_def expanded_chroma_def expanded_luma_def)
  have h1: "index (dest example_tex) < ssa_alloc example_builder"
    by (simp add: example_tex_def example_builder_def)
  have h2: "ycbcr_model (conversion ?state) = VK_SAMPLER_YCBCR_MODEL_CONVERSION_YCBCR_601"
    by (simp add: example_state_def example_conversion_def)
  have rng: "ycbcr_range (conversion ?state) = VK_SAMPLER_YCBCR_RANGE_ITU_FULL"
    by (simp add: example_state_def example_conversion_def)
  have d: "dot4 [1, 0, 0, 1] [1.402, 1, 0, 0] = 1.402"
    "dot4 [1, 0, 0, 1] [- 0.714136286201022, 1, - 0.344136286201022, 0] = - 0.714136286201022"
    "dot4 [1, 0, 0, 1] [0, 1, 1.772, 0] = 0"
    by (simp_all add: dot4_def)
  note a = convert_ycbcr_matrix[where raw = "dest example_tex" and bld = example_builder
       and state = ?state and bits = 8 and texture = "\<lambda>t e. []"
       and e = "\<lambda>k. [128 / 255, 1, 128 / 255, 1]", OF h1, unfolded h2 rng ex]
  note b = convert_ycbcr_matrix[where raw = "dest example_tex" and bld = example_builder
       and state = ?state and bits = 8 and texture = "\<lambda>t e. []"
       and e = "\<lambda>k. [383 / 255, 0, 128 / 255, 1]", OF h1, unfolded h2 rng ex2 d]
  show ?thesis
    using a b h1 h2 ex ex2 by (auto split: sum.splits prod.splits)
qed



text \<open>
  C5.  With the model RGB-identity the converter is not run: the value that replaces the
  destination of the sample is the output of the channel combiner, and nothing is emitted
  after the combiner.  With the model YCbCr-identity the converter returns the
  range-expanded channels and emits no dot product.
\<close>

theorem identity_models:
  assumes "resolve_ycbcr_sampler layout bld tex = Inr (Some (deref, conv))"
    and "format conv = VK_FORMAT n w h depth"
    and "index raw < ssa_alloc bld2"
  shows "(ycbcr_model conv = VK_SAMPLER_YCBCR_MODEL_CONVERSION_RGB_IDENTITY \<longrightarrow>
            try_lower_tex_ycbcr layout bld tex =
              (case create_planes \<lparr>image_size = None, origin_tex = tex, tex_deref = deref, conversion = conv\<rparr>
                      bld [0..<nat n] of
                 Inl err \<Rightarrow> Inl err
               | Inr (plane_values, bld1) \<Rightarrow>
                   (case build_swizzled_components bld1 (VK_FORMAT n w h depth) (components conv) plane_values of
                      Inl err \<Rightarrow> Inl err
                    | Inr (combined, bld') \<Rightarrow>
                        Inr (True, nir_instr_remove
                                     (nir_ssa_def_rewrite_uses bld' (dest tex) (Src_ssa combined)) tex)))) \<and>
         (ycbcr_model conv = VK_SAMPLER_YCBCR_MODEL_CONVERSION_YCBCR_IDENTITY \<longrightarrow>
            (case convert_ycbcr \<lparr>image_size = None, origin_tex = tex, tex_deref = deref, conversion = conv\<rparr>
                    bld2 raw bits of
               Inl err \<Rightarrow> False
             | Inr (res, bld') \<Rightarrow>
                 filter (is_alu nir_op_fdot4) (inserted bld2 bld') = [] \<and>
                 exec_instrs texture (inserted bld2 bld') e (index res) =
                   expanded (ycbcr_range conv) bits (e (index raw))))"
proof (intro conjI impI)
  assume "ycbcr_model conv = VK_SAMPLER_YCBCR_MODEL_CONVERSION_RGB_IDENTITY"
  then show "try_lower_tex_ycbcr layout bld tex =
              (case create_planes \<lparr>image_size = None, origin_tex = tex, tex_deref = deref, conversion = conv\<rparr>
                      bld [0..<nat n] of
                 Inl err \<Rightarrow> Inl err
               | Inr (plane_values, bld1) \<Rightarrow>
                   (case build_swizzled_components bld1 (VK_FORMAT n w h depth) (components conv) plane_values of
                      Inl err \<Rightarrow> Inl err
                    | Inr (combined, bld') \<Rightarrow>
                        Inr (True, nir_instr_remove
                                     (nir_ssa_def_rewrite_uses bld' (dest tex) (Src_ssa combined)) tex)))"
    using assms(1,2)
    by (simp add: try_lower_tex_ycbcr_def lowered_result_def vk_format_get_plane_count_def
        split: sum.splits prod.splits)
next
  let ?st = "\<lparr>image_size = None, origin_tex = tex, tex_deref = deref, conversion = conv\<rparr>"
  assume m: "ycbcr_model conv = VK_SAMPLER_YCBCR_MODEL_CONVERSION_YCBCR_IDENTITY"
  then have m': "ycbcr_model (conversion ?st) = VK_SAMPLER_YCBCR_MODEL_CONVERSION_YCBCR_IDENTITY"
    by simp
  show "case convert_ycbcr ?st bld2 raw bits of
               Inl err \<Rightarrow> False
             | Inr (res, bld') \<Rightarrow>
                 filter (is_alu nir_op_fdot4) (inserted bld2 bld') = [] \<and>
                 exec_instrs texture (inserted bld2 bld') e (index res) =
                   expanded (ycbcr_range conv) bits (e (index raw))"
    using convert_ycbcr_spec[OF assms(3), of ?st bits] convert_ycbcr_identity_no_dot[OF m', of bld2 raw bits] m
    by (auto simp: converted_def ycbcr_model_to_rgb_matrix_def split: sum.splits)
qed

theorem identity_models_witness:
  "resolve_ycbcr_sampler
     (example_layout (example_conversion (VK_FORMAT 1 1 1 8)
        VK_SAMPLER_YCBCR_MODEL_CONVERSION_RGB_IDENTITY VK_SAMPLER_YCBCR_RANGE_ITU_FULL))
     example_builder example_tex =
     Inr (Some (example_deref, example_conversion (VK_FORMAT 1 1 1 8)
        VK_SAMPLER_YCBCR_MODEL_CONVERSION_RGB_IDENTITY VK_SAMPLER_YCBCR_RANGE_ITU_FULL)) \<and>
   index (dest example_tex) < ssa_alloc example_builder \<and>
   try_lower_tex_ycbcr
     (example_layout (example_conversion (VK_FORMAT 1 1 1 8)
        VK_SAMPLER_YCBCR_MODEL_CONVERSION_RGB_IDENTITY VK_SAMPLER_YCBCR_RANGE_ITU_FULL))
     example_builder example_tex =
     (case create_planes
             (example_state (example_conversion (VK_FORMAT 1 1 1 8)
                VK_SAMPLER_YCBCR_MODEL_CONVERSION_RGB_IDENTITY VK_SAMPLER_YCBCR_RANGE_ITU_FULL))
             example_builder [0] of
        Inl err \<Rightarrow> Inl err
      | Inr (plane_values, bld1) \<Rightarrow>
          (case build_swizzled_components bld1 (VK_FORMAT 1 1 1 8)
                  (components (example_conversion (VK_FORMAT 1 1 1 8)
                     VK_SAMPLER_YCBCR_MODEL_CONVERSION_RGB_IDENTITY VK_SAMPLER_YCBCR_RANGE_ITU_FULL))
                  plane_values of
             Inl err \<Rightarrow> Inl err
           | Inr (combined, bld') \<Rightarrow>
               Inr (True, nir_instr_remove
                            (nir_ssa_def_rewrite_uses bld' (dest example_tex) (Src_ssa combined))
                            example_tex))) \<and>
   (case convert_ycbcr
           (example_state (example_conversion (VK_FORMAT 1 1 1 8)
              VK_SAMPLER_YCBCR_MODEL_CONVERSION_YCBCR_IDENTITY VK_SAMPLER_YCBCR_RANGE_ITU_FULL))
           example_builder (dest example_tex) 8 of
      Inl err \<Rightarrow> False
    | Inr (res, bld') \<Rightarrow>
        filter (is_alu nir_op_fdot4) (inserted example_builder bld') = [] \<and>
        exec_instrs (\<lambda>t e. []) (inserted example_builder bld')
          (\<lambda>k. [128 / 255, 1, 128 / 255, 1]) (index res) = [0, 1, 0, 1])"
proof -
  let ?rgb = "example_conversion (VK_FORMAT 1 1 1 8)
        VK_SAMPLER_YCBCR_MODEL_CONVERSION_RGB_IDENTITY VK_SAMPLER_YCBCR_RANGE_ITU_FULL"
  let ?ycc = "example_conversion (VK_FORMAT 1 1 1 8)
        VK_SAMPLER_YCBCR_MODEL_CONVERSION_YCBCR_IDENTITY VK_SAMPLER_YCBCR_RANGE_ITU_FULL"
  have h1: "index (dest example_tex) < ssa_alloc example_builder"
    by (simp add: example_tex_def example_builder_def)
  have f1: "format ?rgb = VK_FORMAT 1 1 1 8" and f2: "format ?ycc = VK_FORMAT 1 1 1 8"
    by (simp_all add: example_conversion_def)
  have m1: "ycbcr_model ?rgb = VK_SAMPLER_YCBCR_MODEL_CONVERSION_RGB_IDENTITY"
    and m2: "ycbcr_model ?ycc = VK_SAMPLER_YCBCR_MODEL_CONVERSION_YCBCR_IDENTITY"
    and r2: "ycbcr_range ?ycc = VK_SAMPLER_YCBCR_RANGE_ITU_FULL"
    by (simp_all add: example_conversion_def)
  have ex: "expanded VK_SAMPLER_YCBCR_RANGE_ITU_FULL 8 [128 / 255, 1, 128 / 255, 1] = [0, 1, 0, 1]"
    by (simp add: expanded_def expanded_chroma_def expanded_luma_def)
  have st: "\<And>cv. \<lparr>image_size = None, origin_tex = example_tex, tex_deref = example_deref, conversion = cv\<rparr>
      = example_state cv"
    by (simp add: example_state_def)
  have one: "[0..<nat 1] = [0]" by simp
  note a = identity_models[OF example_resolve f1 h1, THEN conjunct1, rule_format, OF m1,
      unfolded st one]
  note b = identity_models[OF example_resolve f2 h1, THEN conjunct2, rule_format, OF m2,
      where bits = 8 and texture = "\<lambda>t e. []" and e = "\<lambda>k. [128 / 255, 1, 128 / 255, 1]",
      unfolded st r2 ex]
  show ?thesis
    using example_resolve[of ?rgb] h1 a b by simp
qed

text \<open>
  C6.  A three-plane format subsampled on both axes, both chroma sites co-sited: lowering
  the sample of the example shader emits two size queries, one for plane 1 and one for
  plane 2.
\<close>

theorem size_query_per_plane:
  "(case try_lower_tex_ycbcr
          (example_layout (example_conversion (VK_FORMAT 3 2 2 8)
             VK_SAMPLER_YCBCR_MODEL_CONVERSION_YCBCR_601 VK_SAMPLER_YCBCR_RANGE_ITU_NARROW))
          example_builder example_tex of
      Inl err \<Rightarrow> False
    | Inr (lowered, bld') \<Rightarrow> lowered \<and> size_queries (inserted example_builder bld') = 2)"
  by (simp add: try_lower_tex_ycbcr_def example_resolve)
     (simp add: model_defs example_defs upt_small inserted_def size_query_def Let_def
        nir_ssa_def_rewrite_uses_def nir_instr_remove_def rewrite_src_def)

text \<open>
  C3.  For one, two and three planes the combiner routes the four channels by a fixed table
  that depends on the plane count only: with three planes the channels come from component
  0 of planes 2, 0 and 1, with two planes from components 1 and 0 of plane 1 around
  component 0 of plane 0, with one plane from components 0, 1, 2 of plane 0; the fourth
  channel is component 3 of plane 0.  The descriptor's swizzle, composed against the
  identity ordering, then selects for each output position one routed channel or the
  constant 0 or 1.
\<close>

theorem channel_combiner:
  assumes "vk_format_get_plane_count fmt = 1 \<or> vk_format_get_plane_count fmt = 2 \<or>
           vk_format_get_plane_count fmt = 3"
    and "int (length plane_values) = vk_format_get_plane_count fmt"
    and "\<forall>d\<in>set plane_values. index d < ssa_alloc bld"
  shows "(case build_swizzled_components bld fmt mapping plane_values of
            Inl err \<Rightarrow> False
          | Inr (res, bld') \<Rightarrow>
              num_components res = 4 \<and>
              exec_instrs texture (inserted bld bld') e (index res) =
                swizzled (vk_format_compose_swizzles mapping)
                  (routed (vk_format_get_plane_count fmt) (map (\<lambda>d. e (index d)) plane_values))) \<and>
         routed 3 [p0, p1, p2] = [p2 ! 0, p0 ! 0, p1 ! 0, p0 ! 3] \<and>
         routed 2 [p0, p1] = [p1 ! 1, p0 ! 0, p1 ! 0, p0 ! 3] \<and>
         routed 1 [p0] = [p0 ! 0, p0 ! 1, p0 ! 2, p0 ! 3] \<and>
         vk_format_compose_swizzles
           \<lparr>swizzle_r = VK_COMPONENT_SWIZZLE_IDENTITY, swizzle_g = VK_COMPONENT_SWIZZLE_IDENTITY,
            swizzle_b = VK_COMPONENT_SWIZZLE_IDENTITY, swizzle_a = VK_COMPONENT_SWIZZLE_IDENTITY\<rparr> =
           [VK_SWIZZLE_X, VK_SWIZZLE_Y, VK_SWIZZLE_Z, VK_SWIZZLE_W] \<and>
         swizzled [VK_SWIZZLE_X, VK_SWIZZLE_Y, VK_SWIZZLE_Z, VK_SWIZZLE_W] v = [v ! 0, v ! 1, v ! 2, v ! 3] \<and>
         swizzled [VK_SWIZZLE_0, VK_SWIZZLE_1] v = [0, 1] \<and>
         radv_swizzle_conv position VK_COMPONENT_SWIZZLE_ZERO = VK_SWIZZLE_0 \<and>
         radv_swizzle_conv position VK_COMPONENT_SWIZZLE_ONE = VK_SWIZZLE_1"
proof -
  have "case build_swizzled_components bld fmt mapping plane_values of
            Inl err \<Rightarrow> False
          | Inr (res, bld') \<Rightarrow>
              num_components res = 4 \<and>
              exec_instrs texture (inserted bld bld') e (index res) =
                swizzled (vk_format_compose_swizzles mapping)
                  (routed (vk_format_get_plane_count fmt) (map (\<lambda>d. e (index d)) plane_values))"
    using build_swizzled_components_spec[OF assms, of mapping]
    by (auto split: sum.splits)
  then show ?thesis
    by (simp add: routed_def routing_def swizzled_def vk_format_compose_swizzles_def
        radv_swizzle_conv_def)
qed

theorem channel_combiner_witness:
  "vk_format_get_plane_count (VK_FORMAT 3 2 2 8) = 3 \<and>
   int (length [deref_dest example_deref, example_coord, dest example_tex]) =
     vk_format_get_plane_count (VK_FORMAT 3 2 2 8) \<and>
   index (deref_dest example_deref) < ssa_alloc example_builder \<and>
   index example_coord < ssa_alloc example_builder \<and>
   index (dest example_tex) < ssa_alloc example_builder \<and>
   (case build_swizzled_components example_builder (VK_FORMAT 3 2 2 8)
           \<lparr>swizzle_r = VK_COMPONENT_SWIZZLE_IDENTITY, swizzle_g = VK_COMPONENT_SWIZZLE_ONE,
            swizzle_b = VK_COMPONENT_SWIZZLE_G, swizzle_a = VK_COMPONENT_SWIZZLE_ZERO\<rparr>
           [deref_dest example_deref, example_coord, dest example_tex] of
      Inl err \<Rightarrow> False
    | Inr (res, bld') \<Rightarrow>
        num_components res = 4 \<and>
        exec_instrs (\<lambda>t e. []) (inserted example_builder bld')
          (\<lambda>k. [real k * 10 + 1, real k * 10 + 2, real k * 10 + 3, real k * 10 + 4]) (index res) =
          [21, 1, 1, 0])"
proof -
  have h1: "vk_format_get_plane_count (VK_FORMAT 3 2 2 8) = 1 \<or>
      vk_format_get_plane_count (VK_FORMAT 3 2 2 8) = 2 \<or>
      vk_format_get_plane_count (VK_FORMAT 3 2 2 8) = 3"
    by (simp add: vk_format_get_plane_count_def)
  have h2: "int (length [deref_dest example_deref, example_coord, dest example_tex]) =
     vk_format_get_plane_count (VK_FORMAT 3 2 2 8)"
    by (simp add: vk_format_get_plane_count_def)
  have h3: "\<forall>d\<in>set [deref_dest example_deref, example_coord, dest example_tex].
      index d < ssa_alloc example_builder"
    by (simp add: example_defs)
  have v: "swizzled (vk_format_compose_swizzles
           \<lparr>swizzle_r = VK_COMPONENT_SWIZZLE_IDENTITY, swizzle_g = VK_COMPONENT_SWIZZLE_ONE,
            swizzle_b = VK_COMPONENT_SWIZZLE_G, swizzle_a = VK_COMPONENT_SWIZZLE_ZERO\<rparr>)
         (routed 3 (map (\<lambda>d. [real (index d) * 10 + 1, real (index d) * 10 + 2,
                                 real (index d) * 10 + 3, real (index d) * 10 + 4])
            [deref_dest example_deref, example_coord, dest example_tex])) = [21, 1, 1, 0]"
    by (simp add: swizzled_def routed_def routing_def vk_format_compose_swizzles_def
        radv_swizzle_conv_def example_defs)
  have pc: "vk_format_get_plane_count (VK_FORMAT 3 2 2 8) = 3"
    by (simp add: vk_format_get_plane_count_def)
  note t = channel_combiner[
      where mapping = "\<lparr>swizzle_r = VK_COMPONENT_SWIZZLE_IDENTITY, swizzle_g = VK_COMPONENT_SWIZZLE_ONE,
            swizzle_b = VK_COMPONENT_SWIZZLE_G, swizzle_a = VK_COMPONENT_SWIZZLE_ZERO\<rparr>"
        and texture = "\<lambda>t e. []"
        and e = "\<lambda>k. [real k * 10 + 1, real k * 10 + 2, real k * 10 + 3, real k * 10 + 4]",
      OF h1 h2 h3, THEN conjunct1, unfolded pc v]
  show ?thesis
    using t h2 h3 pc by simp
qed

text \<open>
  C1.  In the sample of a plane other than plane 0, each component of the coordinate on an
  axis (0 or 1) whose chroma site is co-sited and whose divisor is above 1 is the original
  component plus 1 / (divisor * extent), the extent being that component of the image size;
  every other component is the original one.  The sample of plane 0 keeps the original
  coordinate.
\<close>

theorem plane_coordinate:
  assumes "p \<noteq> 0"
    and "map_of (src (origin_tex state)) nir_tex_src_coord = Some (Src_ssa old)"
    and "\<forall>(ty, s)\<in>set (src (origin_tex state)).
           case s of Src_ssa d \<Rightarrow> index d < ssa_alloc bld | Src_reg _ \<Rightarrow> ty \<noteq> nir_tex_src_coord"
    and "size_oracle texture (tex_deref state) sz"
    and "\<forall>k<num_components old. 0 < sz ! k"
  shows "(case create_plane_tex_instr_implicit state bld p of
            Inl err \<Rightarrow> False
          | Inr (d, bld') \<Rightarrow>
              (case last (instrs_before bld') of
                 Tex t \<Rightarrow>
                   dest t = d \<and>
                   (case map_of (src t) nir_tex_src_coord of
                      Some (Src_ssa c) \<Rightarrow>
                        exec_instrs texture (inserted bld bld') e (index c) =
                          map (\<lambda>k. if k < 2 \<and> 1 < divisors (format (conversion state)) k \<and>
                                       chroma_offset (conversion state) k = VK_CHROMA_LOCATION_COSITED_EVEN
                                    then e (index old) ! k +
                                         1 / (real (divisors (format (conversion state)) k) * sz ! k)
                                    else e (index old) ! k)
                              [0..<num_components old]
                    | _ \<Rightarrow> False)
               | _ \<Rightarrow> False)) \<and>
         (case create_plane_tex_instr_implicit state bld 0 of
            Inl err \<Rightarrow> False
          | Inr (d, bld') \<Rightarrow>
              (case last (instrs_before bld') of
                 Tex t \<Rightarrow> map_of (src t) nir_tex_src_coord = Some (Src_ssa old)
               | _ \<Rightarrow> False))"
proof
  note b = ssa_srcs_below[OF assms(3)]
  obtain srcs' bld1 where cp: "copy_plane_srcs state p bld (src (origin_tex state)) = Inr (srcs', bld1)"
    using copy_plane_srcs_succeeds[OF b(2)] by blast
  from copy_plane_srcs_coord[OF cp b(1) assms(1,2), of sz] obtain c where
    c: "map_of srcs' nir_tex_src_coord = Some (Src_ssa c)" "index c < ssa_alloc bld1"
    and cv: "\<And>tf e. size_oracle tf (tex_deref state) sz \<Longrightarrow>
                exec_instrs tf (inserted bld bld1) e (index c) =
                  map (adjusted_coord (conversion state) sz (e (index old))) [0..<num_components old]"
    by blast
  have e1: "emits bld bld1" using copy_plane_srcs_emits[OF cp b(1)] by simp
  then have ib: "instrs_before bld1 = instrs_before bld @ inserted bld bld1"
    by (rule emits_inserted)
  have adj: "adjusted_coord (conversion state) sz v k =
       (if k < 2 \<and> 1 < divisors (format (conversion state)) k \<and>
           chroma_offset (conversion state) k = VK_CHROMA_LOCATION_COSITED_EVEN
        then v ! k + 1 / (real (divisors (format (conversion state)) k) * sz ! k) else v ! k)" for v k
    by (simp add: adjusted_coord_def adjusts_def)
  show "case create_plane_tex_instr_implicit state bld p of
            Inl err \<Rightarrow> False
          | Inr (d, bld') \<Rightarrow>
              (case last (instrs_before bld') of
                 Tex t \<Rightarrow>
                   dest t = d \<and>
                   (case map_of (src t) nir_tex_src_coord of
                      Some (Src_ssa c) \<Rightarrow>
                        exec_instrs texture (inserted bld bld') e (index c) =
                          map (\<lambda>k. if k < 2 \<and> 1 < divisors (format (conversion state)) k \<and>
                                       chroma_offset (conversion state) k = VK_CHROMA_LOCATION_COSITED_EVEN
                                    then e (index old) ! k +
                                         1 / (real (divisors (format (conversion state)) k) * sz ! k)
                                    else e (index old) ! k)
                              [0..<num_components old]
                    | _ \<Rightarrow> False)
               | _ \<Rightarrow> False)"
  proof -
    obtain d bld' where cr: "create_plane_tex_instr_implicit state bld p = Inr (d, bld')"
      by (simp add: create_plane_tex_instr_implicit_eq[OF cp])
    note eq = cr[unfolded create_plane_tex_instr_implicit_eq[OF cp], simplified]
    have e2: "emits bld1 bld'"
      using eq by (auto simp: emits_def fresh_instrs_def)
    have fr: "exec_instrs texture (inserted bld1 bld') e1 (index c) = e1 (index c)" for e1
      using emits_frame[OF e2 c(2)] by simp
    have "exec_instrs texture (inserted bld bld') e (index c) =
        map (adjusted_coord (conversion state) sz (e (index old))) [0..<num_components old]"
      using exec_inserted_trans[OF e1 e2, of texture e] fr cv[OF assms(4), of e] by simp
    moreover have "case last (instrs_before bld') of
        Tex t \<Rightarrow> dest t = d \<and> map_of (src t) nir_tex_src_coord = Some (Src_ssa c) | _ \<Rightarrow> False"
      using eq c(1) by (auto simp: map_add_def)
    ultimately show ?thesis
      using cr by (auto simp: adj split: nir_instr.splits)
  qed
next
  have cp0: "copy_plane_srcs state 0 bld (src (origin_tex state)) = Inr (src (origin_tex state), bld)"
    by (rule copy_plane_srcs_plane0)
  show "case create_plane_tex_instr_implicit state bld 0 of
            Inl err \<Rightarrow> False
          | Inr (d, bld') \<Rightarrow>
              (case last (instrs_before bld') of
                 Tex t \<Rightarrow> map_of (src t) nir_tex_src_coord = Some (Src_ssa old)
               | _ \<Rightarrow> False)"
    using assms(2)
    by (simp add: create_plane_tex_instr_implicit_eq[OF cp0] map_add_def)
qed

theorem plane_coordinate_witness:
  "(1::nat) \<noteq> 0 \<and>
   map_of (src (origin_tex (example_state (example_conversion (VK_FORMAT 2 2 1 8)
      VK_SAMPLER_YCBCR_MODEL_CONVERSION_YCBCR_601 VK_SAMPLER_YCBCR_RANGE_ITU_NARROW))))
     nir_tex_src_coord = Some (Src_ssa example_coord) \<and>
   index example_coord < ssa_alloc example_builder \<and>
   index (deref_dest example_deref) < ssa_alloc example_builder \<and>
   size_oracle (\<lambda>t e. [4, 2]) example_deref [4, 2] \<and>
   (0::real) < [4, 2] ! 0 \<and> (0::real) < [4, 2] ! 1 \<and>
   (case create_plane_tex_instr_implicit
           (example_state (example_conversion (VK_FORMAT 2 2 1 8)
              VK_SAMPLER_YCBCR_MODEL_CONVERSION_YCBCR_601 VK_SAMPLER_YCBCR_RANGE_ITU_NARROW))
           example_builder 1 of
      Inl err \<Rightarrow> False
    | Inr (d, bld') \<Rightarrow>
        (case last (instrs_before bld') of
           Tex t \<Rightarrow>
             dest t = d \<and>
             (case map_of (src t) nir_tex_src_coord of
                Some (Src_ssa c) \<Rightarrow>
                  exec_instrs (\<lambda>t e. [4, 2]) (inserted example_builder bld') (\<lambda>k. [1 / 2, 1 / 4]) (index c) =
                    [1 / 2 + 1 / (2 * 4), 1 / 4]
              | _ \<Rightarrow> False)
         | _ \<Rightarrow> False))"
proof -
  let ?st = "example_state (example_conversion (VK_FORMAT 2 2 1 8)
      VK_SAMPLER_YCBCR_MODEL_CONVERSION_YCBCR_601 VK_SAMPLER_YCBCR_RANGE_ITU_NARROW)"
  have h1: "(1::nat) \<noteq> 0" by simp
  have h2: "map_of (src (origin_tex ?st)) nir_tex_src_coord = Some (Src_ssa example_coord)"
    by (simp add: example_state_def example_tex_def)
  have h3: "\<forall>(ty, s)\<in>set (src (origin_tex ?st)).
           case s of Src_ssa d \<Rightarrow> index d < ssa_alloc example_builder | Src_reg _ \<Rightarrow> ty \<noteq> nir_tex_src_coord"
    by (simp add: example_defs)
  have h4: "size_oracle (\<lambda>t e. [4, 2]) (tex_deref ?st) [4, 2]"
    by (simp add: size_oracle_def size_components_def example_state_def example_deref_def)
  have h5: "\<forall>k<num_components example_coord. (0::real) < [4, 2] ! k"
    by (auto simp: example_coord_def less_Suc_eq numeral_2_eq_2)
  have rhs: "map (\<lambda>k. if k < 2 \<and> 1 < divisors (format (conversion ?st)) k \<and>
                 chroma_offset (conversion ?st) k = VK_CHROMA_LOCATION_COSITED_EVEN
              then [1 / 2, 1 / 4] ! k + 1 / (real (divisors (format (conversion ?st)) k) * [4, 2] ! k)
              else [1 / 2, 1 / 4] ! k)
          [0..<num_components example_coord] = [1 / 2 + 1 / (2 * 4), 1 / 4 :: real]"
    by (simp add: example_defs upt_small divisors_def chroma_offset_def)
  note t = plane_coordinate[where e = "\<lambda>k. [1 / 2, 1 / 4]", OF h1 h2 h3 h4 h5, THEN conjunct1, unfolded rhs]
  have i: "index example_coord < ssa_alloc example_builder"
     "index (deref_dest example_deref) < ssa_alloc example_builder"
    by (simp_all add: example_defs)
  have h4': "size_oracle (\<lambda>t e. [4, 2]) example_deref [4, 2]"
    using h4 by (simp add: example_state_def)
  show ?thesis
    using t h2 i h4' by simp
qed

text \<open>
  The claim's formula has one factor 2 too many: with divisor 2 and an image 4 wide, the
  horizontal coordinate 1/2 becomes 1/2 + 1/8 in plane 1, not 1/2 + 1/16.
\<close>

theorem plane_coordinate_counterexample:
  "(case create_plane_tex_instr_implicit
           (example_state (example_conversion (VK_FORMAT 2 2 1 8)
              VK_SAMPLER_YCBCR_MODEL_CONVERSION_YCBCR_601 VK_SAMPLER_YCBCR_RANGE_ITU_NARROW))
           example_builder 1 of
      Inl err \<Rightarrow> False
    | Inr (d, bld') \<Rightarrow>
        (case last (instrs_before bld') of
           Tex t \<Rightarrow>
             (case map_of (src t) nir_tex_src_coord of
                Some (Src_ssa c) \<Rightarrow>
                  exec_instrs (\<lambda>t e. [4, 2]) (inserted example_builder bld') (\<lambda>k. [1 / 2, 1 / 4]) (index c) ! 0
                    \<noteq> 1 / 2 + 1 / (2 * 2 * 4)
              | _ \<Rightarrow> False)
         | _ \<Rightarrow> False))"
  by (simp add: model_defs example_defs upt_small inserted_def exec_instrs_def size_query_def Let_def)

text \<open>
  C9.  Per function: when an instruction of the function was lowered, the analyses of the
  function other than block indexing and dominance are invalidated, and block indexing and
  dominance stay valid if they were; when none was lowered, every analysis that was valid
  stays valid and the function is unchanged.
\<close>

theorem metadata_after_lowering:
  assumes "lower_function_impl layout f = Inr (function_progress, f')"
  shows "(function_progress \<longrightarrow>
            impl_valid_metadata f' =
              impl_valid_metadata f \<inter> {nir_metadata_block_index, nir_metadata_dominance}) \<and>
         (\<not> function_progress \<longrightarrow> impl_valid_metadata f' = impl_valid_metadata f \<and> f' = f)"
  using lower_function_impl_frame[OF assms] by simp

text \<open>
  The example function, all three analyses valid.  With a one-plane format in the layout
  its sample is lowered and block indexing and dominance are what stays valid; with no
  YCbCr sampler in the layout nothing is lowered and all three stay valid.
\<close>

theorem metadata_after_lowering_witness:
  "(\<exists>f'. lower_function_impl
            (example_layout (example_conversion (VK_FORMAT 1 1 1 8)
               VK_SAMPLER_YCBCR_MODEL_CONVERSION_RGB_IDENTITY VK_SAMPLER_YCBCR_RANGE_ITU_FULL))
            example_impl = Inr (True, f') \<and>
          impl_valid_metadata f' = {nir_metadata_block_index, nir_metadata_dominance}) \<and>
   lower_function_impl plain_layout example_impl = Inr (False, example_impl) \<and>
   impl_valid_metadata example_impl =
     {nir_metadata_block_index, nir_metadata_dominance, nir_metadata_live_ssa_defs}"
proof -
  obtain f' where l: "lower_function_impl
            (example_layout (example_conversion (VK_FORMAT 1 1 1 8)
               VK_SAMPLER_YCBCR_MODEL_CONVERSION_RGB_IDENTITY VK_SAMPLER_YCBCR_RANGE_ITU_FULL))
            example_impl = Inr (True, f')"
    using example_impl_lowered by blast
  have "impl_valid_metadata f' = {nir_metadata_block_index, nir_metadata_dominance}"
    using metadata_after_lowering[OF l] by (auto simp: example_impl_def)
  moreover have "impl_valid_metadata example_impl =
     {nir_metadata_block_index, nir_metadata_dominance, nir_metadata_live_ssa_defs}"
    using metadata_after_lowering[OF example_impl_skipped] by (simp add: example_impl_def)
  ultimately show ?thesis using l example_impl_skipped by blast
qed

text \<open>
  After the sample of the example function is lowered, block indexing and dominance are
  still valid; the analysis of live SSA definitions is the one invalidated.
\<close>

theorem metadata_after_lowering_counterexample:
  "(case lower_function_impl
           (example_layout (example_conversion (VK_FORMAT 1 1 1 8)
              VK_SAMPLER_YCBCR_MODEL_CONVERSION_RGB_IDENTITY VK_SAMPLER_YCBCR_RANGE_ITU_FULL))
           example_impl of
      Inl err \<Rightarrow> False
    | Inr (function_progress, f') \<Rightarrow>
        function_progress \<and>
        nir_metadata_block_index \<in> impl_valid_metadata f' \<and>
        nir_metadata_dominance \<in> impl_valid_metadata f' \<and>
        nir_metadata_live_ssa_defs \<notin> impl_valid_metadata f')"
  by (simp add: pass_defs resolve_defs example_defs)
     (simp add: model_defs pass_defs resolve_defs upt_small Let_def)

text \<open>
  C7.  A texture instruction whose texture reference resolves to a variable of the layout
  is left as it is, with the whole function body and every use, when the binding has no
  YCbCr samplers, when the operation is a size, level-count or LOD query, when the
  reference is indexed by a value that is not a constant, or when the format of the
  selected conversion is undefined.  The pass returns true exactly when the shader it
  returns differs from the shader it was given, that is, when a sample was lowered.
\<close>

theorem skipped_and_progress:
  "(\<forall>s deref var set_l.
      nir_tex_instr_src_index tex nir_tex_src_texture_deref = Some s \<and>
      nir_src_as_deref bld s = Some deref \<and>
      nir_deref_instr_get_variable deref = Some var \<and>
      set_layout layout (descriptor_set var) = Some set_l \<and>
      (radv_immutable_ycbcr_samplers set_l (binding var) = None \<or>
       op tex = nir_texop_txs \<or> op tex = nir_texop_query_levels \<or> op tex = nir_texop_lod \<or>
       (texture_index tex = 0 \<and> deref_type deref = nir_deref_type_array \<and>
        nir_src_as_const_value bld (arr_index deref) = None) \<or>
       (\<exists>conv. resolve_ycbcr_sampler layout bld tex = Inr (Some (deref, conv)) \<and>
               format conv = VK_FORMAT_UNDEFINED))
      \<longrightarrow> try_lower_tex_ycbcr layout bld tex = Inr (False, bld)) \<and>
   (\<forall>progress shader'.
      radv_nir_lower_ycbcr_textures shader layout = Inr (progress, shader')
      \<longrightarrow> (progress \<longleftrightarrow> shader' \<noteq> shader))"
proof (intro conjI allI impI)
  fix s deref var set_l
  assume a: "nir_tex_instr_src_index tex nir_tex_src_texture_deref = Some s \<and>
      nir_src_as_deref bld s = Some deref \<and>
      nir_deref_instr_get_variable deref = Some var \<and>
      set_layout layout (descriptor_set var) = Some set_l \<and>
      (radv_immutable_ycbcr_samplers set_l (binding var) = None \<or>
       op tex = nir_texop_txs \<or> op tex = nir_texop_query_levels \<or> op tex = nir_texop_lod \<or>
       (texture_index tex = 0 \<and> deref_type deref = nir_deref_type_array \<and>
        nir_src_as_const_value bld (arr_index deref) = None) \<or>
       (\<exists>conv. resolve_ycbcr_sampler layout bld tex = Inr (Some (deref, conv)) \<and>
               format conv = VK_FORMAT_UNDEFINED))"
  then have s: "nir_tex_instr_src_index tex nir_tex_src_texture_deref = Some s"
    and d: "nir_src_as_deref bld s = Some deref"
    and v: "nir_deref_instr_get_variable deref = Some var"
    and l: "set_layout layout (descriptor_set var) = Some set_l"
    and c: "radv_immutable_ycbcr_samplers set_l (binding var) = None \<or>
       op tex = nir_texop_txs \<or> op tex = nir_texop_query_levels \<or> op tex = nir_texop_lod \<or>
       (texture_index tex = 0 \<and> deref_type deref = nir_deref_type_array \<and>
        nir_src_as_const_value bld (arr_index deref) = None) \<or>
       (\<exists>conv. resolve_ycbcr_sampler layout bld tex = Inr (Some (deref, conv)) \<and>
               format conv = VK_FORMAT_UNDEFINED)"
    by simp_all
  have q: "resolve_ycbcr_sampler layout bld tex = Inr None"
    if "op tex = nir_texop_txs \<or> op tex = nir_texop_query_levels \<or> op tex = nir_texop_lod"
    using that s d v l by (auto simp: resolve_ycbcr_sampler_def split: option.splits)
  from c show "try_lower_tex_ycbcr layout bld tex = Inr (False, bld)"
  proof (elim disjE exE conjE)
    assume "radv_immutable_ycbcr_samplers set_l (binding var) = None"
    with s d v l have "resolve_ycbcr_sampler layout bld tex = Inr None"
      by (simp add: resolve_ycbcr_sampler_def)
    then show ?thesis by (simp add: try_lower_tex_ycbcr_def)
  next
    assume "op tex = nir_texop_txs"
    with q show ?thesis by (simp add: try_lower_tex_ycbcr_def)
  next
    assume "op tex = nir_texop_query_levels"
    with q show ?thesis by (simp add: try_lower_tex_ycbcr_def)
  next
    assume "op tex = nir_texop_lod"
    with q show ?thesis by (simp add: try_lower_tex_ycbcr_def)
  next
    assume "texture_index tex = 0" "deref_type deref = nir_deref_type_array"
      "nir_src_as_const_value bld (arr_index deref) = None"
    with s d v l have "resolve_ycbcr_sampler layout bld tex = Inr None"
      by (auto simp: resolve_ycbcr_sampler_def split: option.splits)
    then show ?thesis by (simp add: try_lower_tex_ycbcr_def)
  next
    fix conv
    assume "resolve_ycbcr_sampler layout bld tex = Inr (Some (deref, conv))"
      "format conv = VK_FORMAT_UNDEFINED"
    then show ?thesis by (simp add: try_lower_tex_ycbcr_def)
  qed
next
  fix progress shader'
  assume "radv_nir_lower_ycbcr_textures shader layout = Inr (progress, shader')"
  from pass_progress[OF this] show "progress \<longleftrightarrow> shader' \<noteq> shader" by simp
qed

text \<open>
  The example shader.  With no YCbCr sampler in the layout its sample is left as it is and
  the pass returns false and the same shader; with a one-plane format in the layout the
  pass returns true and another shader.
\<close>

theorem skipped_and_progress_witness:
  "try_lower_tex_ycbcr plain_layout example_builder example_tex = Inr (False, example_builder) \<and>
   radv_nir_lower_ycbcr_textures [\<lparr>impl = Some example_impl\<rparr>] plain_layout =
     Inr (False, [\<lparr>impl = Some example_impl\<rparr>]) \<and>
   (\<exists>shader'. radv_nir_lower_ycbcr_textures [\<lparr>impl = Some example_impl\<rparr>]
        (example_layout (example_conversion (VK_FORMAT 1 1 1 8)
           VK_SAMPLER_YCBCR_MODEL_CONVERSION_RGB_IDENTITY VK_SAMPLER_YCBCR_RANGE_ITU_FULL)) =
        Inr (True, shader') \<and>
      shader' \<noteq> [\<lparr>impl = Some example_impl\<rparr>])"
proof -
  let ?shader = "[\<lparr>impl = Some example_impl\<rparr>]"
  let ?layout = "example_layout (example_conversion (VK_FORMAT 1 1 1 8)
           VK_SAMPLER_YCBCR_MODEL_CONVERSION_RGB_IDENTITY VK_SAMPLER_YCBCR_RANGE_ITU_FULL)"
  have 1: "try_lower_tex_ycbcr plain_layout example_builder example_tex = Inr (False, example_builder)"
    by (rule skipped_and_progress[where tex = example_tex and bld = example_builder
          and layout = plain_layout and shader = ?shader, THEN conjunct1, rule_format,
          of "Src_ssa (deref_dest example_deref)" example_deref
             "\<lparr>descriptor_set = 0, binding = 0\<rparr>"
             "\<lparr>binding_layout = [0 \<mapsto> \<lparr>array_size = 1\<rparr>], ycbcr_samplers = Map.empty\<rparr>"])
       (simp add: resolve_defs example_defs plain_layout_def)
  obtain sh where 2: "radv_nir_lower_ycbcr_textures ?shader plain_layout = Inr (False, sh)"
    by (simp add: example_impl_skipped)
  have "sh = ?shader"
    using skipped_and_progress[where tex = example_tex and bld = example_builder
          and layout = plain_layout and shader = ?shader, THEN conjunct2, rule_format, OF 2]
    by simp
  with 2 have 3: "radv_nir_lower_ycbcr_textures ?shader plain_layout = Inr (False, ?shader)"
    by simp
  obtain f' where "lower_function_impl ?layout example_impl = Inr (True, f')"
    using example_impl_lowered by blast
  then obtain sh' where 4: "radv_nir_lower_ycbcr_textures ?shader ?layout = Inr (True, sh')"
    by simp
  have "sh' \<noteq> ?shader"
    using skipped_and_progress[where tex = example_tex and bld = example_builder
          and layout = ?layout and shader = ?shader, THEN conjunct2, rule_format, OF 4]
    by simp
  with 1 3 4 show ?thesis by blast
qed

text \<open>
  C10.  The value that replaces a lowered sample has four components, and it is 32 bits
  wide when the destination of the original instruction is 32 bits wide: the constants are
  created as 32-bit floats, the channels taken from the plane samples keep the width of the
  plane samples.  The sample created for a plane is the last instruction inserted for it; its
  destination has the number of components and the bit width of the original destination.
\<close>

theorem replacement_shape:
  "(\<forall>res bld'. lowered_result state bld = Inr (res, bld') \<longrightarrow>
      num_components res = 4 \<and>
      (bit_size (dest (origin_tex state)) = 32 \<longrightarrow> bit_size res = 32)) \<and>
   (\<forall>p d bld'. create_plane_tex_instr_implicit state bld p = Inr (d, bld') \<longrightarrow>
      (\<exists>t. last (instrs_before bld') = Tex t \<and> dest t = d \<and> op t = op (origin_tex state) \<and>
           num_components d = num_components (dest (origin_tex state)) \<and>
           bit_size d = bit_size (dest (origin_tex state))))"
  using lowered_result_shape create_plane_clone by blast

lemma example_state_lowered:
  "\<exists>res bld'. lowered_result
       (example_state (example_conversion (VK_FORMAT 2 2 2 8)
          VK_SAMPLER_YCBCR_MODEL_CONVERSION_YCBCR_709 VK_SAMPLER_YCBCR_RANGE_ITU_NARROW))
       example_builder = Inr (res, bld')"
  by (simp add: model_defs example_defs upt_small Let_def)

lemma example_plane_created:
  "\<exists>d bld'. create_plane_tex_instr_implicit
       (example_state (example_conversion (VK_FORMAT 2 2 2 8)
          VK_SAMPLER_YCBCR_MODEL_CONVERSION_YCBCR_709 VK_SAMPLER_YCBCR_RANGE_ITU_NARROW))
       example_builder 1 = Inr (d, bld')"
  by (simp add: model_defs example_defs upt_small Let_def)

text \<open>
  The example sample, 32 bits wide with four components, and a two-plane format: the
  replacement has four components of 32 bits, and so has the sample of plane 1.
\<close>

theorem replacement_shape_witness:
  "(\<exists>res bld'. lowered_result
       (example_state (example_conversion (VK_FORMAT 2 2 2 8)
          VK_SAMPLER_YCBCR_MODEL_CONVERSION_YCBCR_709 VK_SAMPLER_YCBCR_RANGE_ITU_NARROW))
       example_builder = Inr (res, bld') \<and> num_components res = 4 \<and> bit_size res = 32) \<and>
   (\<exists>d bld' t. create_plane_tex_instr_implicit
       (example_state (example_conversion (VK_FORMAT 2 2 2 8)
          VK_SAMPLER_YCBCR_MODEL_CONVERSION_YCBCR_709 VK_SAMPLER_YCBCR_RANGE_ITU_NARROW))
       example_builder 1 = Inr (d, bld') \<and> last (instrs_before bld') = Tex t \<and> dest t = d \<and>
       num_components d = 4 \<and> bit_size d = 32)"
proof -
  let ?state = "example_state (example_conversion (VK_FORMAT 2 2 2 8)
          VK_SAMPLER_YCBCR_MODEL_CONVERSION_YCBCR_709 VK_SAMPLER_YCBCR_RANGE_ITU_NARROW)"
  have o: "dest (origin_tex ?state) = \<lparr>index = 2, num_components = 4, bit_size = 32\<rparr>"
    by (simp add: example_defs)
  obtain res b1 where 1: "lowered_result ?state example_builder = Inr (res, b1)"
    using example_state_lowered by blast
  obtain d b2 where 2: "create_plane_tex_instr_implicit ?state example_builder 1 = Inr (d, b2)"
    using example_plane_created by blast
  note t = replacement_shape[where state = ?state and bld = example_builder]
  from t[THEN conjunct1, rule_format, OF 1] o
  have a: "num_components res = 4 \<and> bit_size res = 32" by simp
  from t[THEN conjunct2, rule_format, OF 2] o
  obtain tx where b: "last (instrs_before b2) = Tex tx \<and> dest tx = d \<and> num_components d = 4 \<and> bit_size d = 32"
    by auto
  from 1 2 a b show ?thesis by blast
qed

text \<open>
  A sample with a destination of 16 bits, a one-plane format, no colour conversion and the
  identity swizzle: the replacement is built from the channels of the plane sample alone
  and is 16 bits wide.
\<close>

theorem replacement_shape_counterexample:
  "(case lowered_result
          ((example_state (example_conversion (VK_FORMAT 1 1 1 8)
              VK_SAMPLER_YCBCR_MODEL_CONVERSION_RGB_IDENTITY VK_SAMPLER_YCBCR_RANGE_ITU_FULL))
             \<lparr>origin_tex := example_half_tex\<rparr>)
          (example_builder\<lparr>instrs_after := [Tex example_half_tex,
                                            Other_instr None [Src_ssa (dest example_half_tex)]]\<rparr>) of
      Inl err \<Rightarrow> False
    | Inr (res, bld') \<Rightarrow> num_components res = 4 \<and> bit_size res = 16)"
  by (simp add: model_defs example_defs example_half_tex_def upt_small Let_def)



end
